theory Spec2Isabelle
  imports Complex_Main "HOL-Library.AList"
begin

section \<open>Data model of \<open>backend/server.py\<close>\<close>

text \<open>
  The Pydantic models become records. Several models share field names
  (\<open>id\<close>, \<open>user_id\<close>, \<open>created_at\<close>, ...), so every selector carries a short prefix
  naming its model: \<open>u_\<close> User, \<open>q_\<close> Question, \<open>ans_\<close> Answer, \<open>a_\<close> Assessment,
  \<open>p_\<close> StudyPlan, \<open>uc_\<close> UserCreate, \<open>sa_\<close> SubmitAnswerRequest, and \<open>qd_\<close> for the
  plain dicts of the two question catalogs.

  Python \<open>str\<close> is \<open>string\<close>. Text outside printable ASCII is opaque to every
  operation modelled here (it is only copied), and is written with each such code
  point spelled \<open><U+XXXX>\<close>. A \<open>datetime\<close> is a clock reading handed in by the
  caller, and a fresh \<open>uuid4\<close> is handed in as a string.

  Python \<open>float\<close> scores are rationals: every float is one. The two float
  operations of the scoring code, \<open>/\<close> and \<open>*\<close>, round their exact result; the
  rounding is the parameter \<open>fl\<close> of the scoring functions (the identity for exact
  arithmetic, round-to-nearest-even for IEEE doubles).
\<close>

datatype SubjectType = QUANTITATIVE | REASONING | ENGLISH | GENERAL_KNOWLEDGE | CURRENT_AFFAIRS

datatype DifficultyLevel = BEGINNER | INTERMEDIATE | ADVANCED

datatype Language = Language_ENGLISH | Language_HINDI

fun SubjectType_value :: "SubjectType \<Rightarrow> string" where
  "SubjectType_value QUANTITATIVE = ''quantitative''"
| "SubjectType_value REASONING = ''reasoning''"
| "SubjectType_value ENGLISH = ''english''"
| "SubjectType_value GENERAL_KNOWLEDGE = ''general_knowledge''"
| "SubjectType_value CURRENT_AFFAIRS = ''current_affairs''"

fun DifficultyLevel_value :: "DifficultyLevel \<Rightarrow> string" where
  "DifficultyLevel_value BEGINNER = ''beginner''"
| "DifficultyLevel_value INTERMEDIATE = ''intermediate''"
| "DifficultyLevel_value ADVANCED = ''advanced''"

text \<open>\<open>SubjectType(s)\<close> and \<open>DifficultyLevel(s)\<close>: the member whose value is \<open>s\<close>;
  \<open>None\<close> where Python raises \<open>ValueError\<close> (a Pydantic validation error).\<close>

definition SubjectType_of :: "string \<Rightarrow> SubjectType option" where
  "SubjectType_of s =
     find (\<lambda>m. SubjectType_value m = s)
       [QUANTITATIVE, REASONING, ENGLISH, GENERAL_KNOWLEDGE, CURRENT_AFFAIRS]"

definition DifficultyLevel_of :: "string \<Rightarrow> DifficultyLevel option" where
  "DifficultyLevel_of s =
     find (\<lambda>m. DifficultyLevel_value m = s) [BEGINNER, INTERMEDIATE, ADVANCED]"

type_synonym datetime = nat

type_synonym 'v dict = "(string \<times> 'v) list"

record User =
  u_id :: string
  u_name :: string
  u_phone :: string
  u_target_exam :: string
  u_preferred_language :: Language
  u_skill_levels :: "string dict"
  u_created_at :: datetime

record Question =
  q_id :: string
  q_subject :: SubjectType
  q_difficulty :: DifficultyLevel
  q_question_text_en :: string
  q_question_text_hi :: string
  q_options_en :: "string list"
  q_options_hi :: "string list"
  q_correct_answer :: int
  q_explanation_en :: string
  q_explanation_hi :: string
  q_exam_type :: string

record Answer =
  ans_question_id :: string
  ans_selected_option :: int
  ans_is_correct :: bool
  ans_time_taken :: int

record Assessment =
  a_id :: string
  a_user_id :: string
  a_test_type :: string
  a_questions :: "string list"
  a_answers :: "Answer list"
  a_score :: rat
  a_subject_scores :: "rat dict"
  a_completed_at :: "datetime option"
  a_created_at :: datetime

record StudyPlan =
  p_id :: string
  p_user_id :: string
  p_date :: string
  p_subjects :: "string list"
  p_questions_count :: int
  p_estimated_time :: int
  p_status :: string
  p_created_at :: datetime

record UserCreate =
  uc_name :: string
  uc_phone :: string
  uc_target_exam :: string
  uc_preferred_language :: Language


text \<open>The seven keys \<open>get_adaptive_practice\<close> reads from the dict that
  \<open>generate_adaptive_question\<close> returns, and the catalog dicts, which hold three more.\<close>

record question_payload =
  qd_question_text_en :: string
  qd_question_text_hi :: string
  qd_options_en :: "string list"
  qd_options_hi :: "string list"
  qd_correct_answer :: int
  qd_explanation_en :: string
  qd_explanation_hi :: string

record question_dict = question_payload +
  qd_subject :: string
  qd_difficulty :: string
  qd_exam_type :: string

record study_plan_dict =
  sp_subjects :: "string list"
  sp_description :: string
  sp_difficulty :: string

subsection \<open>The static catalogs\<close>

text \<open>\<open>SAMPLE_QUESTIONS\<close>, one definition for each dict of the list.\<close>

definition SAMPLE_QUESTIONS_0 :: question_dict where
  "SAMPLE_QUESTIONS_0 =
    \<lparr>qd_question_text_en = ''What is 25% of 800?'',
      qd_question_text_hi = ''800 <U+0915><U+093E> 25% <U+0915><U+094D><U+092F><U+093E> <U+0939><U+0948>?'',
      qd_options_en = [''150'', ''200'', ''250'', ''300''],
      qd_options_hi = [''150'', ''200'', ''250'', ''300''],
      qd_correct_answer = 1,
      qd_explanation_en = ''25% of 800 = (25/100) <U+00D7> 800 = 200'',
      qd_explanation_hi = ''800 <U+0915><U+093E> 25% = (25/100) <U+00D7> 800 = 200'',
      qd_subject = ''quantitative'',
      qd_difficulty = ''beginner'',
      qd_exam_type = ''SSC''\<rparr>"

definition SAMPLE_QUESTIONS_1 :: question_dict where
  "SAMPLE_QUESTIONS_1 =
    \<lparr>qd_question_text_en = ''If a man buys 12 apples for Rs. 60, what is the cost of one apple?'',
      qd_question_text_hi = ''<U+092F><U+0926><U+093F> <U+090F><U+0915> <U+0935><U+094D><U+092F><U+0915><U+094D><U+0924><U+093F> 60 <U+0930><U+0941><U+092A><U+092F><U+0947> <U+092E><U+0947><U+0902> 12 <U+0938><U+0947><U+092C> <U+0916><U+0930><U+0940><U+0926><U+0924><U+093E> <U+0939><U+0948>, <U+0924><U+094B> <U+090F><U+0915> <U+0938><U+0947><U+092C> <U+0915><U+0940> <U+0915><U+0940><U+092E><U+0924> <U+0915><U+094D><U+092F><U+093E> <U+0939><U+0948>?'',
      qd_options_en = [''Rs. 4'', ''Rs. 5'', ''Rs. 6'', ''Rs. 7''],
      qd_options_hi = [''<U+20B9>4'', ''<U+20B9>5'', ''<U+20B9>6'', ''<U+20B9>7''],
      qd_correct_answer = 1,
      qd_explanation_en = ''Cost of one apple = Total cost / Number of apples = 60/12 = Rs. 5'',
      qd_explanation_hi = ''<U+090F><U+0915> <U+0938><U+0947><U+092C> <U+0915><U+0940> <U+0915><U+0940><U+092E><U+0924> = <U+0915><U+0941><U+0932> <U+0915><U+0940><U+092E><U+0924> / <U+0938><U+0947><U+092C> <U+0915><U+0940> <U+0938><U+0902><U+0916><U+094D><U+092F><U+093E> = 60/12 = <U+20B9>5'',
      qd_subject = ''quantitative'',
      qd_difficulty = ''beginner'',
      qd_exam_type = ''SSC''\<rparr>"

definition SAMPLE_QUESTIONS_2 :: question_dict where
  "SAMPLE_QUESTIONS_2 =
    \<lparr>qd_question_text_en = ''A train travels 180 km in 3 hours. What is its speed in km/hr?'',
      qd_question_text_hi = ''<U+090F><U+0915> <U+091F><U+094D><U+0930><U+0947><U+0928> 3 <U+0918><U+0902><U+091F><U+0947> <U+092E><U+0947><U+0902> 180 <U+0915><U+093F><U+092E><U+0940> <U+0915><U+0940> <U+092F><U+093E><U+0924><U+094D><U+0930><U+093E> <U+0915><U+0930><U+0924><U+0940> <U+0939><U+0948><U+0964> <U+0907><U+0938><U+0915><U+0940> <U+0917><U+0924><U+093F> <U+0915><U+093F><U+092E><U+0940>/<U+0918><U+0902><U+091F><U+093E> <U+092E><U+0947><U+0902> <U+0915><U+094D><U+092F><U+093E> <U+0939><U+0948>?'',
      qd_options_en = [''50 km/hr'', ''60 km/hr'', ''70 km/hr'', ''80 km/hr''],
      qd_options_hi = [''50 <U+0915><U+093F><U+092E><U+0940>/<U+0918><U+0902><U+091F><U+093E>'', ''60 <U+0915><U+093F><U+092E><U+0940>/<U+0918><U+0902><U+091F><U+093E>'', ''70 <U+0915><U+093F><U+092E><U+0940>/<U+0918><U+0902><U+091F><U+093E>'', ''80 <U+0915><U+093F><U+092E><U+0940>/<U+0918><U+0902><U+091F><U+093E>''],
      qd_correct_answer = 1,
      qd_explanation_en = ''Speed = Distance / Time = 180 km / 3 hours = 60 km/hr'',
      qd_explanation_hi = ''<U+0917><U+0924><U+093F> = <U+0926><U+0942><U+0930><U+0940> / <U+0938><U+092E><U+092F> = 180 <U+0915><U+093F><U+092E><U+0940> / 3 <U+0918><U+0902><U+091F><U+0947> = 60 <U+0915><U+093F><U+092E><U+0940>/<U+0918><U+0902><U+091F><U+093E>'',
      qd_subject = ''quantitative'',
      qd_difficulty = ''intermediate'',
      qd_exam_type = ''SSC''\<rparr>"

definition SAMPLE_QUESTIONS_3 :: question_dict where
  "SAMPLE_QUESTIONS_3 =
    \<lparr>qd_question_text_en = ''If CODING is written as DPEJOH, how is FILING written?'',
      qd_question_text_hi = ''<U+092F><U+0926><U+093F> CODING <U+0915><U+094B> DPEJOH <U+0932><U+093F><U+0916><U+093E> <U+091C><U+093E><U+0924><U+093E> <U+0939><U+0948>, <U+0924><U+094B> FILING <U+0915><U+0948><U+0938><U+0947> <U+0932><U+093F><U+0916><U+093E> <U+091C><U+093E><U+090F><U+0917><U+093E>?'',
      qd_options_en = [''GJMJOH'', ''GJMJPI'', ''GJLJOH'', ''GJMJNG''],
      qd_options_hi = [''GJMJOH'', ''GJMJPI'', ''GJLJOH'', ''GJMJNG''],
      qd_correct_answer = 0,
      qd_explanation_en = ''Each letter is shifted by +1 in the alphabet. F<U+2192>G, I<U+2192>J, L<U+2192>M, I<U+2192>J, N<U+2192>O, G<U+2192>H'',
      qd_explanation_hi = ''<U+092A><U+094D><U+0930><U+0924><U+094D><U+092F><U+0947><U+0915> <U+0905><U+0915><U+094D><U+0937><U+0930> <U+0915><U+094B> <U+0935><U+0930><U+094D><U+0923><U+092E><U+093E><U+0932><U+093E> <U+092E><U+0947><U+0902> +1 <U+0938><U+0947> <U+092C><U+0926><U+0932><U+093E> <U+091C><U+093E><U+0924><U+093E> <U+0939><U+0948><U+0964> F<U+2192>G, I<U+2192>J, L<U+2192>M, I<U+2192>J, N<U+2192>O, G<U+2192>H'',
      qd_subject = ''reasoning'',
      qd_difficulty = ''beginner'',
      qd_exam_type = ''SSC''\<rparr>"

definition SAMPLE_QUESTIONS_4 :: question_dict where
  "SAMPLE_QUESTIONS_4 =
    \<lparr>qd_question_text_en = ''Complete the series: 2, 4, 8, 16, ?'',
      qd_question_text_hi = ''<U+0936><U+094D><U+0930><U+0943><U+0902><U+0916><U+0932><U+093E> <U+092A><U+0942><U+0930><U+0940> <U+0915><U+0930><U+0947><U+0902>: 2, 4, 8, 16, ?'',
      qd_options_en = [''24'', ''28'', ''32'', ''36''],
      qd_options_hi = [''24'', ''28'', ''32'', ''36''],
      qd_correct_answer = 2,
      qd_explanation_en = ''Each number is double the previous number. 16 <U+00D7> 2 = 32'',
      qd_explanation_hi = ''<U+092A><U+094D><U+0930><U+0924><U+094D><U+092F><U+0947><U+0915> <U+0938><U+0902><U+0916><U+094D><U+092F><U+093E> <U+092A><U+093F><U+091B><U+0932><U+0940> <U+0938><U+0902><U+0916><U+094D><U+092F><U+093E> <U+0915><U+0940> <U+0926><U+094B><U+0917><U+0941><U+0928><U+0940> <U+0939><U+0948><U+0964> 16 <U+00D7> 2 = 32'',
      qd_subject = ''reasoning'',
      qd_difficulty = ''beginner'',
      qd_exam_type = ''Banking''\<rparr>"

definition SAMPLE_QUESTIONS_5 :: question_dict where
  "SAMPLE_QUESTIONS_5 =
    \<lparr>qd_question_text_en = ''In a certain code, CAT is written as FDW. How is DOG written?'',
      qd_question_text_hi = ''<U+090F><U+0915> <U+0928><U+093F><U+0936><U+094D><U+091A><U+093F><U+0924> <U+0915><U+0942><U+091F> <U+092E><U+0947><U+0902>, CAT <U+0915><U+094B> FDW <U+0932><U+093F><U+0916><U+093E> <U+091C><U+093E><U+0924><U+093E> <U+0939><U+0948><U+0964> DOG <U+0915><U+0948><U+0938><U+0947> <U+0932><U+093F><U+0916><U+093E> <U+091C><U+093E><U+090F><U+0917><U+093E>?'',
      qd_options_en = [''GRJ'', ''ERK'', ''FQI'', ''HRL''],
      qd_options_hi = [''GRJ'', ''ERK'', ''FQI'', ''HRL''],
      qd_correct_answer = 0,
      qd_explanation_en = ''Each letter is shifted by +3 positions: D<U+2192>G, O<U+2192>R, G<U+2192>J'',
      qd_explanation_hi = ''<U+092A><U+094D><U+0930><U+0924><U+094D><U+092F><U+0947><U+0915> <U+0905><U+0915><U+094D><U+0937><U+0930> <U+0915><U+094B> +3 <U+0938><U+094D><U+0925><U+093E><U+0928> <U+0906><U+0917><U+0947> <U+092C><U+0922><U+093C><U+093E><U+092F><U+093E> <U+0917><U+092F><U+093E> <U+0939><U+0948>: D<U+2192>G, O<U+2192>R, G<U+2192>J'',
      qd_subject = ''reasoning'',
      qd_difficulty = ''intermediate'',
      qd_exam_type = ''SSC''\<rparr>"

definition SAMPLE_QUESTIONS_6 :: question_dict where
  "SAMPLE_QUESTIONS_6 =
    \<lparr>qd_question_text_en = ''Choose the correct synonym for 'ABUNDANT':'',
      qd_question_text_hi = ''<U+0027>ABUNDANT' <U+0915><U+093E> <U+0938><U+0939><U+0940> <U+0938><U+092E><U+093E><U+0928><U+093E><U+0930><U+094D><U+0925><U+0940> <U+0936><U+092C><U+094D><U+0926> <U+091A><U+0941><U+0928><U+0947><U+0902>:'',
      qd_options_en = [''Scarce'', ''Plentiful'', ''Limited'', ''Rare''],
      qd_options_hi = [''<U+0926><U+0941><U+0930><U+094D><U+0932><U+092D>'', ''<U+092A><U+094D><U+0930><U+091A><U+0941><U+0930>'', ''<U+0938><U+0940><U+092E><U+093F><U+0924>'', ''<U+0915><U+092E>''],
      qd_correct_answer = 1,
      qd_explanation_en = ''Abundant means existing in large quantities; plentiful.'',
      qd_explanation_hi = ''Abundant <U+0915><U+093E> <U+0905><U+0930><U+094D><U+0925> <U+0939><U+0948> <U+092C><U+0921><U+093C><U+0940> <U+092E><U+093E><U+0924><U+094D><U+0930><U+093E> <U+092E><U+0947><U+0902> <U+092E><U+094C><U+091C><U+0942><U+0926>; <U+092A><U+094D><U+0930><U+091A><U+0941><U+0930><U+0964>'',
      qd_subject = ''english'',
      qd_difficulty = ''beginner'',
      qd_exam_type = ''Banking''\<rparr>"

definition SAMPLE_QUESTIONS_7 :: question_dict where
  "SAMPLE_QUESTIONS_7 =
    \<lparr>qd_question_text_en = ''Choose the correct antonym for 'HAPPY':'',
      qd_question_text_hi = ''<U+0027>HAPPY' <U+0915><U+093E> <U+0938><U+0939><U+0940> <U+0935><U+093F><U+092A><U+0930><U+0940><U+0924><U+093E><U+0930><U+094D><U+0925><U+0940> <U+0936><U+092C><U+094D><U+0926> <U+091A><U+0941><U+0928><U+0947><U+0902>:'',
      qd_options_en = [''Joyful'', ''Sad'', ''Cheerful'', ''Pleased''],
      qd_options_hi = [''<U+0916><U+0941><U+0936><U+0940>'', ''<U+0926><U+0941><U+0916><U+0940>'', ''<U+092A><U+094D><U+0930><U+0938><U+0928><U+094D><U+0928>'', ''<U+0938><U+0902><U+0924><U+0941><U+0937><U+094D><U+091F>''],
      qd_correct_answer = 1,
      qd_explanation_en = ''The antonym of happy is sad.'',
      qd_explanation_hi = ''Happy <U+0915><U+093E> <U+0935><U+093F><U+092A><U+0930><U+0940><U+0924><U+093E><U+0930><U+094D><U+0925><U+0940> <U+0936><U+092C><U+094D><U+0926> sad <U+0939><U+0948><U+0964>'',
      qd_subject = ''english'',
      qd_difficulty = ''beginner'',
      qd_exam_type = ''SSC''\<rparr>"

definition SAMPLE_QUESTIONS_8 :: question_dict where
  "SAMPLE_QUESTIONS_8 =
    \<lparr>qd_question_text_en = ''Fill in the blank: The meeting was _____ due to rain.'',
      qd_question_text_hi = ''<U+0930><U+093F><U+0915><U+094D><U+0924> <U+0938><U+094D><U+0925><U+093E><U+0928> <U+092D><U+0930><U+0947><U+0902>: <U+092C><U+093E><U+0930><U+093F><U+0936> <U+0915><U+0947> <U+0915><U+093E><U+0930><U+0923> <U+092C><U+0948><U+0920><U+0915> _____ <U+0925><U+0940><U+0964>'',
      qd_options_en = [''called off'', ''called on'', ''called up'', ''called for''],
      qd_options_hi = [''<U+0930><U+0926><U+094D><U+0926> <U+0915><U+0930> <U+0926><U+0940> <U+0917><U+0908>'', ''<U+092C><U+0941><U+0932><U+093E><U+0908> <U+0917><U+0908>'', ''<U+092B><U+094B><U+0928> <U+0915><U+093F><U+092F><U+093E> <U+0917><U+092F><U+093E>'', ''<U+092E><U+093E><U+0902><U+0917> <U+0915><U+0940> <U+0917><U+0908>''],
      qd_correct_answer = 0,
      qd_explanation_en = ''<U+0027>Called off' means cancelled or postponed.'',
      qd_explanation_hi = ''<U+0027>Called off' <U+0915><U+093E> <U+0905><U+0930><U+094D><U+0925> <U+0939><U+0948> <U+0930><U+0926><U+094D><U+0926> <U+092F><U+093E> <U+0938><U+094D><U+0925><U+0917><U+093F><U+0924> <U+0915><U+0930><U+0928><U+093E><U+0964>'',
      qd_subject = ''english'',
      qd_difficulty = ''intermediate'',
      qd_exam_type = ''Banking''\<rparr>"

definition SAMPLE_QUESTIONS_9 :: question_dict where
  "SAMPLE_QUESTIONS_9 =
    \<lparr>qd_question_text_en = ''Who is the current President of India (as of 2024)?'',
      qd_question_text_hi = ''<U+092D><U+093E><U+0930><U+0924> <U+0915><U+0947> <U+0935><U+0930><U+094D><U+0924><U+092E><U+093E><U+0928> <U+0930><U+093E><U+0937><U+094D><U+091F><U+094D><U+0930><U+092A><U+0924><U+093F> <U+0915><U+094C><U+0928> <U+0939><U+0948><U+0902> (2024 <U+0924><U+0915>)?'',
      qd_options_en = [''Ram Nath Kovind'', ''Droupadi Murmu'', ''Pranab Mukherjee'', ''A.P.J. Abdul Kalam''],
      qd_options_hi = [''<U+0930><U+093E><U+092E> <U+0928><U+093E><U+0925> <U+0915><U+094B><U+0935><U+093F><U+0902><U+0926>'', ''<U+0926><U+094D><U+0930><U+094C><U+092A><U+0926><U+0940> <U+092E><U+0941><U+0930><U+094D><U+092E><U+0942>'', ''<U+092A><U+094D><U+0930><U+0923><U+092C> <U+092E><U+0941><U+0916><U+0930><U+094D><U+091C><U+0940>'', ''<U+090F>.<U+092A><U+0940>.<U+091C><U+0947>. <U+0905><U+092C><U+094D><U+0926><U+0941><U+0932> <U+0915><U+0932><U+093E><U+092E>''],
      qd_correct_answer = 1,
      qd_explanation_en = ''Droupadi Murmu is the current President of India, serving since July 2022.'',
      qd_explanation_hi = ''<U+0926><U+094D><U+0930><U+094C><U+092A><U+0926><U+0940> <U+092E><U+0941><U+0930><U+094D><U+092E><U+0942> <U+092D><U+093E><U+0930><U+0924> <U+0915><U+0940> <U+0935><U+0930><U+094D><U+0924><U+092E><U+093E><U+0928> <U+0930><U+093E><U+0937><U+094D><U+091F><U+094D><U+0930><U+092A><U+0924><U+093F> <U+0939><U+0948><U+0902>, <U+091C><U+094B> <U+091C><U+0941><U+0932><U+093E><U+0908> 2022 <U+0938><U+0947> <U+0938><U+0947><U+0935><U+093E> <U+0915><U+0930> <U+0930><U+0939><U+0940> <U+0939><U+0948><U+0902><U+0964>'',
      qd_subject = ''general_knowledge'',
      qd_difficulty = ''beginner'',
      qd_exam_type = ''State PSC''\<rparr>"

definition SAMPLE_QUESTIONS_10 :: question_dict where
  "SAMPLE_QUESTIONS_10 =
    \<lparr>qd_question_text_en = ''What is the capital of India?'',
      qd_question_text_hi = ''<U+092D><U+093E><U+0930><U+0924> <U+0915><U+0940> <U+0930><U+093E><U+091C><U+0927><U+093E><U+0928><U+0940> <U+0915><U+094D><U+092F><U+093E> <U+0939><U+0948>?'',
      qd_options_en = [''Mumbai'', ''New Delhi'', ''Kolkata'', ''Chennai''],
      qd_options_hi = [''<U+092E><U+0941><U+0902><U+092C><U+0908>'', ''<U+0928><U+0908> <U+0926><U+093F><U+0932><U+094D><U+0932><U+0940>'', ''<U+0915><U+094B><U+0932><U+0915><U+093E><U+0924><U+093E>'', ''<U+091A><U+0947><U+0928><U+094D><U+0928><U+0908>''],
      qd_correct_answer = 1,
      qd_explanation_en = ''New Delhi is the capital of India.'',
      qd_explanation_hi = ''<U+0928><U+0908> <U+0926><U+093F><U+0932><U+094D><U+0932><U+0940> <U+092D><U+093E><U+0930><U+0924> <U+0915><U+0940> <U+0930><U+093E><U+091C><U+0927><U+093E><U+0928><U+0940> <U+0939><U+0948><U+0964>'',
      qd_subject = ''general_knowledge'',
      qd_difficulty = ''beginner'',
      qd_exam_type = ''SSC''\<rparr>"

definition SAMPLE_QUESTIONS_11 :: question_dict where
  "SAMPLE_QUESTIONS_11 =
    \<lparr>qd_question_text_en = ''Which river is known as the 'Ganga of South India'?'',
      qd_question_text_hi = ''<U+0915><U+094C><U+0928> <U+0938><U+0940> <U+0928><U+0926><U+0940> <U+0915><U+094B> '<U+0926><U+0915><U+094D><U+0937><U+093F><U+0923> <U+092D><U+093E><U+0930><U+0924> <U+0915><U+0940> <U+0917><U+0902><U+0917><U+093E>' <U+0915><U+0939><U+093E> <U+091C><U+093E><U+0924><U+093E> <U+0939><U+0948>?'',
      qd_options_en = [''Krishna'', ''Godavari'', ''Cauvery'', ''Tungabhadra''],
      qd_options_hi = [''<U+0915><U+0943><U+0937><U+094D><U+0923><U+093E>'', ''<U+0917><U+094B><U+0926><U+093E><U+0935><U+0930><U+0940>'', ''<U+0915><U+093E><U+0935><U+0947><U+0930><U+0940>'', ''<U+0924><U+0941><U+0902><U+0917><U+092D><U+0926><U+094D><U+0930><U+093E>''],
      qd_correct_answer = 1,
      qd_explanation_en = ''Godavari is known as the 'Ganga of South India' due to its length and cultural significance.'',
      qd_explanation_hi = ''<U+0917><U+094B><U+0926><U+093E><U+0935><U+0930><U+0940> <U+0915><U+094B> <U+0907><U+0938><U+0915><U+0940> <U+0932><U+0902><U+092C><U+093E><U+0908> <U+0914><U+0930> <U+0938><U+093E><U+0902><U+0938><U+094D><U+0915><U+0943><U+0924><U+093F><U+0915> <U+092E><U+0939><U+0924><U+094D><U+0935> <U+0915><U+0947> <U+0915><U+093E><U+0930><U+0923> '<U+0926><U+0915><U+094D><U+0937><U+093F><U+0923> <U+092D><U+093E><U+0930><U+0924> <U+0915><U+0940> <U+0917><U+0902><U+0917><U+093E>' <U+0915><U+0939><U+093E> <U+091C><U+093E><U+0924><U+093E> <U+0939><U+0948><U+0964>'',
      qd_subject = ''general_knowledge'',
      qd_difficulty = ''intermediate'',
      qd_exam_type = ''State PSC''\<rparr>"

definition SAMPLE_QUESTIONS :: "question_dict list" where
  "SAMPLE_QUESTIONS =
    [SAMPLE_QUESTIONS_0,
     SAMPLE_QUESTIONS_1,
     SAMPLE_QUESTIONS_2,
     SAMPLE_QUESTIONS_3,
     SAMPLE_QUESTIONS_4,
     SAMPLE_QUESTIONS_5,
     SAMPLE_QUESTIONS_6,
     SAMPLE_QUESTIONS_7,
     SAMPLE_QUESTIONS_8,
     SAMPLE_QUESTIONS_9,
     SAMPLE_QUESTIONS_10,
     SAMPLE_QUESTIONS_11]"


text \<open>\<open>MOCK_ADAPTIVE_QUESTIONS\<close>: the module assigns the name twice, and the second
  list is the one in force when the endpoints run.\<close>

definition MOCK_ADAPTIVE_QUESTIONS_0 :: question_dict where
  "MOCK_ADAPTIVE_QUESTIONS_0 =
    \<lparr>qd_question_text_en = ''What is 15% of 240?'',
      qd_question_text_hi = ''240 <U+0915><U+093E> 15% <U+0915><U+094D><U+092F><U+093E> <U+0939><U+0948>?'',
      qd_options_en = [''30'', ''36'', ''40'', ''45''],
      qd_options_hi = [''30'', ''36'', ''40'', ''45''],
      qd_correct_answer = 1,
      qd_explanation_en = ''15% of 240 = (15/100) <U+00D7> 240 = 36'',
      qd_explanation_hi = ''240 <U+0915><U+093E> 15% = (15/100) <U+00D7> 240 = 36'',
      qd_subject = ''quantitative'',
      qd_difficulty = ''intermediate'',
      qd_exam_type = ''SSC''\<rparr>"

definition MOCK_ADAPTIVE_QUESTIONS_1 :: question_dict where
  "MOCK_ADAPTIVE_QUESTIONS_1 =
    \<lparr>qd_question_text_en = ''Find the next number in series: 2, 6, 12, 20, ?'',
      qd_question_text_hi = ''<U+0936><U+094D><U+0930><U+0943><U+0902><U+0916><U+0932><U+093E> <U+092E><U+0947><U+0902> <U+0905><U+0917><U+0932><U+0940> <U+0938><U+0902><U+0916><U+094D><U+092F><U+093E> <U+091C><U+094D><U+091E><U+093E><U+0924> <U+0915><U+0930><U+0947><U+0902>: 2, 6, 12, 20, ?'',
      qd_options_en = [''28'', ''30'', ''32'', ''34''],
      qd_options_hi = [''28'', ''30'', ''32'', ''34''],
      qd_correct_answer = 1,
      qd_explanation_en = ''Pattern: n(n+1), so 5<U+00D7>6 = 30'',
      qd_explanation_hi = ''<U+092A><U+0948><U+091F><U+0930><U+094D><U+0928>: n(n+1), <U+0907><U+0938><U+0932><U+093F><U+090F> 5<U+00D7>6 = 30'',
      qd_subject = ''reasoning'',
      qd_difficulty = ''intermediate'',
      qd_exam_type = ''SSC''\<rparr>"

definition MOCK_ADAPTIVE_QUESTIONS_2 :: question_dict where
  "MOCK_ADAPTIVE_QUESTIONS_2 =
    \<lparr>qd_question_text_en = ''Choose the correct synonym for 'Abundant':'',
      qd_question_text_hi = ''<U+0027>Abundant' <U+0915><U+0947> <U+0932><U+093F><U+090F> <U+0938><U+0939><U+0940> <U+0938><U+092E><U+093E><U+0928><U+093E><U+0930><U+094D><U+0925><U+0940> <U+0936><U+092C><U+094D><U+0926> <U+091A><U+0941><U+0928><U+0947><U+0902>:'',
      qd_options_en = [''Scarce'', ''Plentiful'', ''Rare'', ''Limited''],
      qd_options_hi = [''<U+0915><U+092E>'', ''<U+092A><U+094D><U+0930><U+091A><U+0941><U+0930>'', ''<U+0926><U+0941><U+0930><U+094D><U+0932><U+092D>'', ''<U+0938><U+0940><U+092E><U+093F><U+0924>''],
      qd_correct_answer = 1,
      qd_explanation_en = ''Abundant means existing in large quantities; plentiful'',
      qd_explanation_hi = ''Abundant <U+0915><U+093E> <U+0905><U+0930><U+094D><U+0925> <U+0939><U+0948> <U+092C><U+0921><U+093C><U+0940> <U+092E><U+093E><U+0924><U+094D><U+0930><U+093E> <U+092E><U+0947><U+0902> <U+092E><U+094C><U+091C><U+0942><U+0926>; <U+092A><U+094D><U+0930><U+091A><U+0941><U+0930>'',
      qd_subject = ''english'',
      qd_difficulty = ''intermediate'',
      qd_exam_type = ''SSC''\<rparr>"

definition MOCK_ADAPTIVE_QUESTIONS_3 :: question_dict where
  "MOCK_ADAPTIVE_QUESTIONS_3 =
    \<lparr>qd_question_text_en = ''Who is known as the 'Father of the Indian Constitution'?'',
      qd_question_text_hi = ''<U+0915><U+093F><U+0938><U+0947> '<U+092D><U+093E><U+0930><U+0924><U+0940><U+092F> <U+0938><U+0902><U+0935><U+093F><U+0927><U+093E><U+0928> <U+0915><U+0947> <U+092A><U+093F><U+0924><U+093E>' <U+0915><U+0947> <U+0930><U+0942><U+092A> <U+092E><U+0947><U+0902> <U+091C><U+093E><U+0928><U+093E> <U+091C><U+093E><U+0924><U+093E> <U+0939><U+0948>?'',
      qd_options_en = [''Mahatma Gandhi'', ''Jawaharlal Nehru'', ''Dr. B.R. Ambedkar'', ''Sardar Patel''],
      qd_options_hi = [''<U+092E><U+0939><U+093E><U+0924><U+094D><U+092E><U+093E> <U+0917><U+093E><U+0902><U+0927><U+0940>'', ''<U+091C><U+0935><U+093E><U+0939><U+0930><U+0932><U+093E><U+0932> <U+0928><U+0947><U+0939><U+0930><U+0942>'', ''<U+0921><U+0949>. <U+092C><U+0940>.<U+0906><U+0930>. <U+0905><U+0902><U+092C><U+0947><U+0921><U+0915><U+0930>'', ''<U+0938><U+0930><U+0926><U+093E><U+0930> <U+092A><U+091F><U+0947><U+0932>''],
      qd_correct_answer = 2,
      qd_explanation_en = ''Dr. B.R. Ambedkar was the chairman of the Drafting Committee'',
      qd_explanation_hi = ''<U+0921><U+0949>. <U+092C><U+0940>.<U+0906><U+0930>. <U+0905><U+0902><U+092C><U+0947><U+0921><U+0915><U+0930> <U+092E><U+0938><U+094C><U+0926><U+093E> <U+0938><U+092E><U+093F><U+0924><U+093F> <U+0915><U+0947> <U+0905><U+0927><U+094D><U+092F><U+0915><U+094D><U+0937> <U+0925><U+0947>'',
      qd_subject = ''general_knowledge'',
      qd_difficulty = ''intermediate'',
      qd_exam_type = ''SSC''\<rparr>"

definition MOCK_ADAPTIVE_QUESTIONS_4 :: question_dict where
  "MOCK_ADAPTIVE_QUESTIONS_4 =
    \<lparr>qd_question_text_en = ''If a train 150m long passes a platform 300m long in 18 seconds, find its speed in km/h.'',
      qd_question_text_hi = ''<U+092F><U+0926><U+093F> 150m <U+0932><U+0902><U+092C><U+0940> <U+091F><U+094D><U+0930><U+0947><U+0928> 300m <U+0932><U+0902><U+092C><U+0947> <U+092A><U+094D><U+0932><U+0947><U+091F><U+092B><U+0949><U+0930><U+094D><U+092E> <U+0915><U+094B> 18 <U+0938><U+0947><U+0915><U+0902><U+0921> <U+092E><U+0947><U+0902> <U+092A><U+093E><U+0930> <U+0915><U+0930><U+0924><U+0940> <U+0939><U+0948>, <U+0924><U+094B> <U+0909><U+0938><U+0915><U+0940> <U+0917><U+0924><U+093F> km/h <U+092E><U+0947><U+0902> <U+091C><U+094D><U+091E><U+093E><U+0924> <U+0915><U+0930><U+0947><U+0902><U+0964>'',
      qd_options_en = [''60'', ''75'', ''90'', ''100''],
      qd_options_hi = [''60'', ''75'', ''90'', ''100''],
      qd_correct_answer = 2,
      qd_explanation_en = ''Total distance = 150+300 = 450m, Speed = 450/18 = 25 m/s = 90 km/h'',
      qd_explanation_hi = ''<U+0915><U+0941><U+0932> <U+0926><U+0942><U+0930><U+0940> = 150+300 = 450m, <U+0917><U+0924><U+093F> = 450/18 = 25 m/s = 90 km/h'',
      qd_subject = ''quantitative'',
      qd_difficulty = ''advanced'',
      qd_exam_type = ''SSC''\<rparr>"

definition MOCK_ADAPTIVE_QUESTIONS_5 :: question_dict where
  "MOCK_ADAPTIVE_QUESTIONS_5 =
    \<lparr>qd_question_text_en = ''A sum of money doubles itself in 5 years at simple interest. In how many years will it become 4 times?'',
      qd_question_text_hi = ''<U+090F><U+0915> <U+0930><U+093E><U+0936><U+093F> <U+0938><U+093E><U+0927><U+093E><U+0930><U+0923> <U+092C><U+094D><U+092F><U+093E><U+091C> <U+092A><U+0930> 5 <U+0935><U+0930><U+094D><U+0937> <U+092E><U+0947><U+0902> <U+0926><U+094B><U+0917><U+0941><U+0928><U+0940> <U+0939><U+094B> <U+091C><U+093E><U+0924><U+0940> <U+0939><U+0948><U+0964> <U+0915><U+093F><U+0924><U+0928><U+0947> <U+0935><U+0930><U+094D><U+0937><U+094B><U+0902> <U+092E><U+0947><U+0902> <U+092F><U+0939> 4 <U+0917><U+0941><U+0928><U+0940> <U+0939><U+094B> <U+091C><U+093E><U+090F><U+0917><U+0940>?'',
      qd_options_en = [''10 years'', ''15 years'', ''20 years'', ''25 years''],
      qd_options_hi = [''10 <U+0935><U+0930><U+094D><U+0937>'', ''15 <U+0935><U+0930><U+094D><U+0937>'', ''20 <U+0935><U+0930><U+094D><U+0937>'', ''25 <U+0935><U+0930><U+094D><U+0937>''],
      qd_correct_answer = 1,
      qd_explanation_en = ''If money doubles in 5 years, rate = 20%. To become 4 times, it needs 15 years'',
      qd_explanation_hi = ''<U+092F><U+0926><U+093F> <U+092A><U+0948><U+0938><U+093E> 5 <U+0935><U+0930><U+094D><U+0937> <U+092E><U+0947><U+0902> <U+0926><U+094B><U+0917><U+0941><U+0928><U+093E> <U+0939><U+094B><U+0924><U+093E> <U+0939><U+0948>, <U+0924><U+094B> <U+0926><U+0930> = 20%<U+0964> 4 <U+0917><U+0941><U+0928><U+093E> <U+0939><U+094B><U+0928><U+0947> <U+0915><U+0947> <U+0932><U+093F><U+090F> 15 <U+0935><U+0930><U+094D><U+0937> <U+091A><U+093E><U+0939><U+093F><U+090F>'',
      qd_subject = ''quantitative'',
      qd_difficulty = ''intermediate'',
      qd_exam_type = ''Banking''\<rparr>"

definition MOCK_ADAPTIVE_QUESTIONS_6 :: question_dict where
  "MOCK_ADAPTIVE_QUESTIONS_6 =
    \<lparr>qd_question_text_en = ''In a certain code, 'COMPUTER' is written as 'RFUVQNPC'. How is 'MEDICINE' written in that code?'',
      qd_question_text_hi = ''<U+090F><U+0915> <U+0928><U+093F><U+0936><U+094D><U+091A><U+093F><U+0924> <U+0915><U+094B><U+0921> <U+092E><U+0947><U+0902> 'COMPUTER' <U+0915><U+094B> 'RFUVQNPC' <U+0932><U+093F><U+0916><U+093E> <U+091C><U+093E><U+0924><U+093E> <U+0939><U+0948><U+0964> <U+0909><U+0938> <U+0915><U+094B><U+0921> <U+092E><U+0947><U+0902> 'MEDICINE' <U+0915><U+0948><U+0938><U+0947> <U+0932><U+093F><U+0916><U+093E> <U+091C><U+093E><U+090F><U+0917><U+093E>?'',
      qd_options_en = [''MFEDJJOE'', ''EOJDEJFM'', ''MJDJEOFE'', ''EOJDJEFM''],
      qd_options_hi = [''MFEDJJOE'', ''EOJDEJFM'', ''MJDJEOFE'', ''EOJDJEFM''],
      qd_correct_answer = 1,
      qd_explanation_en = ''Each letter is replaced by the letter at the same position from the end of alphabet'',
      qd_explanation_hi = ''<U+092A><U+094D><U+0930><U+0924><U+094D><U+092F><U+0947><U+0915> <U+0905><U+0915><U+094D><U+0937><U+0930> <U+0915><U+094B> <U+0935><U+0930><U+094D><U+0923><U+092E><U+093E><U+0932><U+093E> <U+0915><U+0947> <U+0905><U+0902><U+0924> <U+0938><U+0947> <U+0938><U+092E><U+093E><U+0928> <U+0938><U+094D><U+0925><U+093F><U+0924><U+093F> <U+0915><U+0947> <U+0905><U+0915><U+094D><U+0937><U+0930> <U+0938><U+0947> <U+092C><U+0926><U+0932><U+093E> <U+091C><U+093E><U+0924><U+093E> <U+0939><U+0948>'',
      qd_subject = ''reasoning'',
      qd_difficulty = ''intermediate'',
      qd_exam_type = ''Banking''\<rparr>"

definition MOCK_ADAPTIVE_QUESTIONS_7 :: question_dict where
  "MOCK_ADAPTIVE_QUESTIONS_7 =
    \<lparr>qd_question_text_en = ''Choose the correctly spelled word:'',
      qd_question_text_hi = ''<U+0938><U+0939><U+0940> <U+0935><U+0930><U+094D><U+0924><U+0928><U+0940> <U+0935><U+093E><U+0932><U+093E> <U+0936><U+092C><U+094D><U+0926> <U+091A><U+0941><U+0928><U+0947><U+0902>:'',
      qd_options_en = [''Accommodation'', ''Acommodation'', ''Accomodation'', ''Acomodation''],
      qd_options_hi = [''Accommodation'', ''Acommodation'', ''Accomodation'', ''Acomodation''],
      qd_correct_answer = 0,
      qd_explanation_en = ''Accommodation has double 'c' and double 'm<U+0027>'',
      qd_explanation_hi = ''Accommodation <U+092E><U+0947><U+0902> <U+0926><U+094B> 'c' <U+0914><U+0930> <U+0926><U+094B> 'm' <U+0939><U+0948><U+0902>'',
      qd_subject = ''english'',
      qd_difficulty = ''intermediate'',
      qd_exam_type = ''Banking''\<rparr>"

definition MOCK_ADAPTIVE_QUESTIONS_8 :: question_dict where
  "MOCK_ADAPTIVE_QUESTIONS_8 =
    \<lparr>qd_question_text_en = ''Which bank is known as the 'Banker's Bank' in India?'',
      qd_question_text_hi = ''<U+092D><U+093E><U+0930><U+0924> <U+092E><U+0947><U+0902> <U+0915><U+093F><U+0938> <U+092C><U+0948><U+0902><U+0915> <U+0915><U+094B> '<U+092C><U+0948><U+0902><U+0915><U+0930><U+094B><U+0902> <U+0915><U+093E> <U+092C><U+0948><U+0902><U+0915>' <U+0915><U+0939><U+093E> <U+091C><U+093E><U+0924><U+093E> <U+0939><U+0948>?'',
      qd_options_en = [''SBI'', ''RBI'', ''HDFC'', ''ICICI''],
      qd_options_hi = [''SBI'', ''RBI'', ''HDFC'', ''ICICI''],
      qd_correct_answer = 1,
      qd_explanation_en = ''RBI (Reserve Bank of India) is the central bank and banker's bank'',
      qd_explanation_hi = ''RBI (<U+092D><U+093E><U+0930><U+0924><U+0940><U+092F> <U+0930><U+093F><U+091C><U+0930><U+094D><U+0935> <U+092C><U+0948><U+0902><U+0915>) <U+0915><U+0947><U+0902><U+0926><U+094D><U+0930><U+0940><U+092F> <U+092C><U+0948><U+0902><U+0915> <U+0914><U+0930> <U+092C><U+0948><U+0902><U+0915><U+0930><U+094B><U+0902> <U+0915><U+093E> <U+092C><U+0948><U+0902><U+0915> <U+0939><U+0948>'',
      qd_subject = ''general_knowledge'',
      qd_difficulty = ''intermediate'',
      qd_exam_type = ''Banking''\<rparr>"

definition MOCK_ADAPTIVE_QUESTIONS_9 :: question_dict where
  "MOCK_ADAPTIVE_QUESTIONS_9 =
    \<lparr>qd_question_text_en = ''A man invests Rs. 10,000 at 10% compound interest for 2 years. What is the compound interest?'',
      qd_question_text_hi = ''<U+090F><U+0915> <U+0935><U+094D><U+092F><U+0915><U+094D><U+0924><U+093F> 2 <U+0935><U+0930><U+094D><U+0937> <U+0915><U+0947> <U+0932><U+093F><U+090F> 10% <U+091A><U+0915><U+094D><U+0930><U+0935><U+0943><U+0926><U+094D><U+0927><U+093F> <U+092C><U+094D><U+092F><U+093E><U+091C> <U+092A><U+0930> 10,000 <U+0930><U+0941><U+092A><U+092F><U+0947> <U+0928><U+093F><U+0935><U+0947><U+0936> <U+0915><U+0930><U+0924><U+093E> <U+0939><U+0948><U+0964> <U+091A><U+0915><U+094D><U+0930><U+0935><U+0943><U+0926><U+094D><U+0927><U+093F> <U+092C><U+094D><U+092F><U+093E><U+091C> <U+0915><U+094D><U+092F><U+093E> <U+0939><U+0948>?'',
      qd_options_en = [''Rs. 2,100'', ''Rs. 2,200'', ''Rs. 2,300'', ''Rs. 2,400''],
      qd_options_hi = [''2,100 <U+0930><U+0941><U+092A><U+092F><U+0947>'', ''2,200 <U+0930><U+0941><U+092A><U+092F><U+0947>'', ''2,300 <U+0930><U+0941><U+092A><U+092F><U+0947>'', ''2,400 <U+0930><U+0941><U+092A><U+092F><U+0947>''],
      qd_correct_answer = 0,
      qd_explanation_en = ''CI = P[(1+r/100)^n - 1] = 10000[(1.1)^2 - 1] = 10000[1.21 - 1] = 2100'',
      qd_explanation_hi = ''<U+091A><U+0915><U+094D><U+0930><U+0935><U+0943><U+0926><U+094D><U+0927><U+093F> <U+092C><U+094D><U+092F><U+093E><U+091C> = P[(1+r/100)^n - 1] = 10000[(1.1)^2 - 1] = 2100'',
      qd_subject = ''quantitative'',
      qd_difficulty = ''advanced'',
      qd_exam_type = ''Banking''\<rparr>"

definition MOCK_ADAPTIVE_QUESTIONS_10 :: question_dict where
  "MOCK_ADAPTIVE_QUESTIONS_10 =
    \<lparr>qd_question_text_en = ''The average of 5 numbers is 20. If one number is excluded, the average becomes 18. What is the excluded number?'',
      qd_question_text_hi = ''5 <U+0938><U+0902><U+0916><U+094D><U+092F><U+093E><U+0913><U+0902> <U+0915><U+093E> <U+0914><U+0938><U+0924> 20 <U+0939><U+0948><U+0964> <U+092F><U+0926><U+093F> <U+090F><U+0915> <U+0938><U+0902><U+0916><U+094D><U+092F><U+093E> <U+0915><U+094B> <U+0939><U+091F><U+093E> <U+0926><U+093F><U+092F><U+093E> <U+091C><U+093E><U+090F>, <U+0924><U+094B> <U+0914><U+0938><U+0924> 18 <U+0939><U+094B> <U+091C><U+093E><U+0924><U+093E> <U+0939><U+0948><U+0964> <U+0939><U+091F><U+093E><U+0908> <U+0917><U+0908> <U+0938><U+0902><U+0916><U+094D><U+092F><U+093E> <U+0915><U+094D><U+092F><U+093E> <U+0939><U+0948>?'',
      qd_options_en = [''26'', ''28'', ''30'', ''32''],
      qd_options_hi = [''26'', ''28'', ''30'', ''32''],
      qd_correct_answer = 1,
      qd_explanation_en = ''Sum of 5 numbers = 100, Sum of 4 numbers = 72, Excluded number = 100-72 = 28'',
      qd_explanation_hi = ''5 <U+0938><U+0902><U+0916><U+094D><U+092F><U+093E><U+0913><U+0902> <U+0915><U+093E> <U+092F><U+094B><U+0917> = 100, 4 <U+0938><U+0902><U+0916><U+094D><U+092F><U+093E><U+0913><U+0902> <U+0915><U+093E> <U+092F><U+094B><U+0917> = 72, <U+0939><U+091F><U+093E><U+0908> <U+0917><U+0908> <U+0938><U+0902><U+0916><U+094D><U+092F><U+093E> = 28'',
      qd_subject = ''quantitative'',
      qd_difficulty = ''intermediate'',
      qd_exam_type = ''State PSC''\<rparr>"

definition MOCK_ADAPTIVE_QUESTIONS_11 :: question_dict where
  "MOCK_ADAPTIVE_QUESTIONS_11 =
    \<lparr>qd_question_text_en = ''If 'PEN' is coded as 'QFO', then 'INK' will be coded as:'',
      qd_question_text_hi = ''<U+092F><U+0926><U+093F> 'PEN' <U+0915><U+094B> 'QFO' <U+0915><U+0947> <U+0930><U+0942><U+092A> <U+092E><U+0947><U+0902> <U+0915><U+094B><U+0921> <U+0915><U+093F><U+092F><U+093E> <U+091C><U+093E><U+0924><U+093E> <U+0939><U+0948>, <U+0924><U+094B> 'INK' <U+0915><U+094B> <U+0915><U+0948><U+0938><U+0947> <U+0915><U+094B><U+0921> <U+0915><U+093F><U+092F><U+093E> <U+091C><U+093E><U+090F><U+0917><U+093E>:'',
      qd_options_en = [''JOL'', ''JOM'', ''JON'', ''JOP''],
      qd_options_hi = [''JOL'', ''JOM'', ''JON'', ''JOP''],
      qd_correct_answer = 0,
      qd_explanation_en = ''Each letter is moved one position forward in the alphabet'',
      qd_explanation_hi = ''<U+092A><U+094D><U+0930><U+0924><U+094D><U+092F><U+0947><U+0915> <U+0905><U+0915><U+094D><U+0937><U+0930> <U+0935><U+0930><U+094D><U+0923><U+092E><U+093E><U+0932><U+093E> <U+092E><U+0947><U+0902> <U+090F><U+0915> <U+0938><U+094D><U+0925><U+093E><U+0928> <U+0906><U+0917><U+0947> <U+092C><U+0922><U+093C><U+093E><U+092F><U+093E> <U+091C><U+093E><U+0924><U+093E> <U+0939><U+0948>'',
      qd_subject = ''reasoning'',
      qd_difficulty = ''intermediate'',
      qd_exam_type = ''State PSC''\<rparr>"

definition MOCK_ADAPTIVE_QUESTIONS_12 :: question_dict where
  "MOCK_ADAPTIVE_QUESTIONS_12 =
    \<lparr>qd_question_text_en = ''Choose the correct antonym for 'Benevolent':'',
      qd_question_text_hi = ''<U+0027>Benevolent' <U+0915><U+0947> <U+0932><U+093F><U+090F> <U+0938><U+0939><U+0940> <U+0935><U+093F><U+0932><U+094B><U+092E> <U+0936><U+092C><U+094D><U+0926> <U+091A><U+0941><U+0928><U+0947><U+0902>:'',
      qd_options_en = [''Kind'', ''Generous'', ''Malevolent'', ''Charitable''],
      qd_options_hi = [''<U+0926><U+092F><U+093E><U+0932><U+0941>'', ''<U+0909><U+0926><U+093E><U+0930>'', ''<U+0926><U+0941><U+0930><U+094D><U+092D><U+093E><U+0935><U+0928><U+093E><U+092A><U+0942><U+0930><U+094D><U+0923>'', ''<U+0926><U+093E><U+0928><U+0936><U+0940><U+0932>''],
      qd_correct_answer = 2,
      qd_explanation_en = ''Benevolent means kind and generous, so malevolent (evil) is its antonym'',
      qd_explanation_hi = ''Benevolent <U+0915><U+093E> <U+0905><U+0930><U+094D><U+0925> <U+0926><U+092F><U+093E><U+0932><U+0941> <U+0914><U+0930> <U+0909><U+0926><U+093E><U+0930> <U+0939><U+0948>, <U+0907><U+0938><U+0932><U+093F><U+090F> malevolent (<U+0926><U+0941><U+0930><U+094D><U+092D><U+093E><U+0935><U+0928><U+093E><U+092A><U+0942><U+0930><U+094D><U+0923>) <U+0907><U+0938><U+0915><U+093E> <U+0935><U+093F><U+0932><U+094B><U+092E> <U+0939><U+0948>'',
      qd_subject = ''english'',
      qd_difficulty = ''intermediate'',
      qd_exam_type = ''State PSC''\<rparr>"

definition MOCK_ADAPTIVE_QUESTIONS_13 :: question_dict where
  "MOCK_ADAPTIVE_QUESTIONS_13 =
    \<lparr>qd_question_text_en = ''Which state is known as the 'Land of Five Rivers'?'',
      qd_question_text_hi = ''<U+0915><U+093F><U+0938> <U+0930><U+093E><U+091C><U+094D><U+092F> <U+0915><U+094B> '<U+092A><U+093E><U+0902><U+091A> <U+0928><U+0926><U+093F><U+092F><U+094B><U+0902> <U+0915><U+0940> <U+092D><U+0942><U+092E><U+093F>' <U+0915><U+0939><U+093E> <U+091C><U+093E><U+0924><U+093E> <U+0939><U+0948>?'',
      qd_options_en = [''Punjab'', ''Haryana'', ''Uttar Pradesh'', ''Rajasthan''],
      qd_options_hi = [''<U+092A><U+0902><U+091C><U+093E><U+092C>'', ''<U+0939><U+0930><U+093F><U+092F><U+093E><U+0923><U+093E>'', ''<U+0909><U+0924><U+094D><U+0924><U+0930> <U+092A><U+094D><U+0930><U+0926><U+0947><U+0936>'', ''<U+0930><U+093E><U+091C><U+0938><U+094D><U+0925><U+093E><U+0928>''],
      qd_correct_answer = 0,
      qd_explanation_en = ''Punjab means 'five waters' - the land of five rivers'',
      qd_explanation_hi = ''<U+092A><U+0902><U+091C><U+093E><U+092C> <U+0915><U+093E> <U+0905><U+0930><U+094D><U+0925> '<U+092A><U+093E><U+0902><U+091A> <U+092A><U+093E><U+0928><U+0940>' <U+0939><U+0948> - <U+092A><U+093E><U+0902><U+091A> <U+0928><U+0926><U+093F><U+092F><U+094B><U+0902> <U+0915><U+0940> <U+092D><U+0942><U+092E><U+093F>'',
      qd_subject = ''general_knowledge'',
      qd_difficulty = ''intermediate'',
      qd_exam_type = ''State PSC''\<rparr>"

definition MOCK_ADAPTIVE_QUESTIONS_14 :: question_dict where
  "MOCK_ADAPTIVE_QUESTIONS_14 =
    \<lparr>qd_question_text_en = ''A rectangular field is 40m long and 30m wide. A path 2m wide runs around it. Find the area of the path.'',
      qd_question_text_hi = ''<U+090F><U+0915> <U+0906><U+092F><U+0924><U+093E><U+0915><U+093E><U+0930> <U+092E><U+0948><U+0926><U+093E><U+0928> 40m <U+0932><U+0902><U+092C><U+093E> <U+0914><U+0930> 30m <U+091A><U+094C><U+0921><U+093C><U+093E> <U+0939><U+0948><U+0964> <U+0907><U+0938><U+0915><U+0947> <U+091A><U+093E><U+0930><U+094B><U+0902> <U+0913><U+0930> 2m <U+091A><U+094C><U+0921><U+093C><U+093E> <U+0930><U+093E><U+0938><U+094D><U+0924><U+093E> <U+0939><U+0948><U+0964> <U+0930><U+093E><U+0938><U+094D><U+0924><U+0947> <U+0915><U+093E> <U+0915><U+094D><U+0937><U+0947><U+0924><U+094D><U+0930><U+092B><U+0932> <U+091C><U+094D><U+091E><U+093E><U+0924> <U+0915><U+0930><U+0947><U+0902><U+0964>'',
      qd_options_en = [''296 sq m'', ''300 sq m'', ''304 sq m'', ''308 sq m''],
      qd_options_hi = [''296 <U+0935><U+0930><U+094D><U+0917> <U+092E><U+0940>'', ''300 <U+0935><U+0930><U+094D><U+0917> <U+092E><U+0940>'', ''304 <U+0935><U+0930><U+094D><U+0917> <U+092E><U+0940>'', ''308 <U+0935><U+0930><U+094D><U+0917> <U+092E><U+0940>''],
      qd_correct_answer = 0,
      qd_explanation_en = ''Outer area = 44<U+00D7>34 = 1496, Inner area = 40<U+00D7>30 = 1200, Path area = 1496-1200 = 296'',
      qd_explanation_hi = ''<U+092C><U+093E><U+0939><U+0930><U+0940> <U+0915><U+094D><U+0937><U+0947><U+0924><U+094D><U+0930> = 44<U+00D7>34 = 1496, <U+0906><U+0902><U+0924><U+0930><U+093F><U+0915> <U+0915><U+094D><U+0937><U+0947><U+0924><U+094D><U+0930> = 40<U+00D7>30 = 1200, <U+0930><U+093E><U+0938><U+094D><U+0924><U+0947> <U+0915><U+093E> <U+0915><U+094D><U+0937><U+0947><U+0924><U+094D><U+0930> = 296'',
      qd_subject = ''quantitative'',
      qd_difficulty = ''advanced'',
      qd_exam_type = ''State PSC''\<rparr>"

definition MOCK_ADAPTIVE_QUESTIONS_15 :: question_dict where
  "MOCK_ADAPTIVE_QUESTIONS_15 =
    \<lparr>qd_question_text_en = ''A train covers 120 km in 2 hours. What is its speed in m/s?'',
      qd_question_text_hi = ''<U+090F><U+0915> <U+091F><U+094D><U+0930><U+0947><U+0928> 2 <U+0918><U+0902><U+091F><U+0947> <U+092E><U+0947><U+0902> 120 <U+0915><U+093F><U+092E><U+0940> <U+0915><U+0940> <U+0926><U+0942><U+0930><U+0940> <U+0924><U+092F> <U+0915><U+0930><U+0924><U+0940> <U+0939><U+0948><U+0964> m/s <U+092E><U+0947><U+0902> <U+0907><U+0938><U+0915><U+0940> <U+0917><U+0924><U+093F> <U+0915><U+094D><U+092F><U+093E> <U+0939><U+0948>?'',
      qd_options_en = [''16.67 m/s'', ''20 m/s'', ''25 m/s'', ''30 m/s''],
      qd_options_hi = [''16.67 m/s'', ''20 m/s'', ''25 m/s'', ''30 m/s''],
      qd_correct_answer = 0,
      qd_explanation_en = ''Speed = 120/2 = 60 km/h = 60<U+00D7>1000/3600 = 16.67 m/s'',
      qd_explanation_hi = ''<U+0917><U+0924><U+093F> = 120/2 = 60 km/h = 60<U+00D7>1000/3600 = 16.67 m/s'',
      qd_subject = ''quantitative'',
      qd_difficulty = ''intermediate'',
      qd_exam_type = ''Railway''\<rparr>"

definition MOCK_ADAPTIVE_QUESTIONS_16 :: question_dict where
  "MOCK_ADAPTIVE_QUESTIONS_16 =
    \<lparr>qd_question_text_en = ''If 'TRAIN' is coded as 'USBIJ', then 'PLANE' will be coded as:'',
      qd_question_text_hi = ''<U+092F><U+0926><U+093F> 'TRAIN' <U+0915><U+094B> 'USBIJ' <U+0915><U+0947> <U+0930><U+0942><U+092A> <U+092E><U+0947><U+0902> <U+0915><U+094B><U+0921> <U+0915><U+093F><U+092F><U+093E> <U+091C><U+093E><U+0924><U+093E> <U+0939><U+0948>, <U+0924><U+094B> 'PLANE' <U+0915><U+094B> <U+0915><U+0948><U+0938><U+0947> <U+0915><U+094B><U+0921> <U+0915><U+093F><U+092F><U+093E> <U+091C><U+093E><U+090F><U+0917><U+093E>:'',
      qd_options_en = [''QMBOF'', ''QNBOF'', ''QMBOG'', ''QNBOF''],
      qd_options_hi = [''QMBOF'', ''QNBOF'', ''QMBOG'', ''QNBOF''],
      qd_correct_answer = 0,
      qd_explanation_en = ''Each letter is moved one position forward in the alphabet'',
      qd_explanation_hi = ''<U+092A><U+094D><U+0930><U+0924><U+094D><U+092F><U+0947><U+0915> <U+0905><U+0915><U+094D><U+0937><U+0930> <U+0935><U+0930><U+094D><U+0923><U+092E><U+093E><U+0932><U+093E> <U+092E><U+0947><U+0902> <U+090F><U+0915> <U+0938><U+094D><U+0925><U+093E><U+0928> <U+0906><U+0917><U+0947> <U+092C><U+0922><U+093C><U+093E><U+092F><U+093E> <U+091C><U+093E><U+0924><U+093E> <U+0939><U+0948>'',
      qd_subject = ''reasoning'',
      qd_difficulty = ''intermediate'',
      qd_exam_type = ''Railway''\<rparr>"

definition MOCK_ADAPTIVE_QUESTIONS_17 :: question_dict where
  "MOCK_ADAPTIVE_QUESTIONS_17 =
    \<lparr>qd_question_text_en = ''Choose the correct meaning of 'Punctual':'',
      qd_question_text_hi = ''<U+0027>Punctual' <U+0915><U+093E> <U+0938><U+0939><U+0940> <U+0905><U+0930><U+094D><U+0925> <U+091A><U+0941><U+0928><U+0947><U+0902>:'',
      qd_options_en = [''Late'', ''On time'', ''Early'', ''Delayed''],
      qd_options_hi = [''<U+0926><U+0947><U+0930> <U+0938><U+0947>'', ''<U+0938><U+092E><U+092F> <U+092A><U+0930>'', ''<U+091C><U+0932><U+094D><U+0926><U+0940>'', ''<U+0935><U+093F><U+0932><U+0902><U+092C><U+093F><U+0924>''],
      qd_correct_answer = 1,
      qd_explanation_en = ''Punctual means being on time or prompt'',
      qd_explanation_hi = ''Punctual <U+0915><U+093E> <U+0905><U+0930><U+094D><U+0925> <U+0938><U+092E><U+092F> <U+092A><U+0930> <U+092F><U+093E> <U+0924><U+0941><U+0930><U+0902><U+0924> <U+0939><U+094B><U+0928><U+093E> <U+0939><U+0948>'',
      qd_subject = ''english'',
      qd_difficulty = ''intermediate'',
      qd_exam_type = ''Railway''\<rparr>"

definition MOCK_ADAPTIVE_QUESTIONS_18 :: question_dict where
  "MOCK_ADAPTIVE_QUESTIONS_18 =
    \<lparr>qd_question_text_en = ''Which is the longest railway platform in India?'',
      qd_question_text_hi = ''<U+092D><U+093E><U+0930><U+0924> <U+092E><U+0947><U+0902> <U+0938><U+092C><U+0938><U+0947> <U+0932><U+0902><U+092C><U+093E> <U+0930><U+0947><U+0932><U+0935><U+0947> <U+092A><U+094D><U+0932><U+0947><U+091F><U+092B><U+0949><U+0930><U+094D><U+092E> <U+0915><U+094C><U+0928> <U+0938><U+093E> <U+0939><U+0948>?'',
      qd_options_en = [''Gorakhpur'', ''Kollam'', ''Kharagpur'', ''Bhubaneswar''],
      qd_options_hi = [''<U+0917><U+094B><U+0930><U+0916><U+092A><U+0941><U+0930>'', ''<U+0915><U+094B><U+0932><U+094D><U+0932><U+092E>'', ''<U+0916><U+0921><U+093C><U+0917><U+092A><U+0941><U+0930>'', ''<U+092D><U+0941><U+0935><U+0928><U+0947><U+0936><U+094D><U+0935><U+0930>''],
      qd_correct_answer = 0,
      qd_explanation_en = ''Gorakhpur Junction has the longest railway platform in India (1,366.33 m)'',
      qd_explanation_hi = ''<U+0917><U+094B><U+0930><U+0916><U+092A><U+0941><U+0930> <U+091C><U+0902><U+0915><U+094D><U+0936><U+0928> <U+092E><U+0947><U+0902> <U+092D><U+093E><U+0930><U+0924> <U+0915><U+093E> <U+0938><U+092C><U+0938><U+0947> <U+0932><U+0902><U+092C><U+093E> <U+0930><U+0947><U+0932><U+0935><U+0947> <U+092A><U+094D><U+0932><U+0947><U+091F><U+092B><U+0949><U+0930><U+094D><U+092E> <U+0939><U+0948> (1,366.33 m)'',
      qd_subject = ''general_knowledge'',
      qd_difficulty = ''intermediate'',
      qd_exam_type = ''Railway''\<rparr>"

definition MOCK_ADAPTIVE_QUESTIONS_19 :: question_dict where
  "MOCK_ADAPTIVE_QUESTIONS_19 =
    \<lparr>qd_question_text_en = ''Two trains start from stations A and B towards each other. Train from A travels at 60 km/h and from B at 40 km/h. If they meet after 2 hours, find the distance between A and B.'',
      qd_question_text_hi = ''<U+0926><U+094B> <U+091F><U+094D><U+0930><U+0947><U+0928><U+0947><U+0902> <U+0938><U+094D><U+091F><U+0947><U+0936><U+0928> A <U+0914><U+0930> B <U+0938><U+0947> <U+090F><U+0915>-<U+0926><U+0942><U+0938><U+0930><U+0947> <U+0915><U+0940> <U+0913><U+0930> <U+091A><U+0932><U+0924><U+0940> <U+0939><U+0948><U+0902><U+0964> A <U+0938><U+0947> <U+091F><U+094D><U+0930><U+0947><U+0928> 60 km/h <U+0914><U+0930> B <U+0938><U+0947> 40 km/h <U+0915><U+0940> <U+0917><U+0924><U+093F> <U+0938><U+0947> <U+091A><U+0932><U+0924><U+0940> <U+0939><U+0948><U+0964> <U+092F><U+0926><U+093F> <U+0935><U+0947> 2 <U+0918><U+0902><U+091F><U+0947> <U+092C><U+093E><U+0926> <U+092E><U+093F><U+0932><U+0924><U+0940> <U+0939><U+0948><U+0902>, <U+0924><U+094B> A <U+0914><U+0930> B <U+0915><U+0947> <U+092C><U+0940><U+091A> <U+0915><U+0940> <U+0926><U+0942><U+0930><U+0940> <U+091C><U+094D><U+091E><U+093E><U+0924> <U+0915><U+0930><U+0947><U+0902><U+0964>'',
      qd_options_en = [''200 km'', ''220 km'', ''240 km'', ''260 km''],
      qd_options_hi = [''200 km'', ''220 km'', ''240 km'', ''260 km''],
      qd_correct_answer = 0,
      qd_explanation_en = ''Relative speed = 60+40 = 100 km/h, Distance = 100<U+00D7>2 = 200 km'',
      qd_explanation_hi = ''<U+0938><U+093E><U+092A><U+0947><U+0915><U+094D><U+0937> <U+0917><U+0924><U+093F> = 60+40 = 100 km/h, <U+0926><U+0942><U+0930><U+0940> = 100<U+00D7>2 = 200 km'',
      qd_subject = ''quantitative'',
      qd_difficulty = ''advanced'',
      qd_exam_type = ''Railway''\<rparr>"

definition MOCK_ADAPTIVE_QUESTIONS :: "question_dict list" where
  "MOCK_ADAPTIVE_QUESTIONS =
    [MOCK_ADAPTIVE_QUESTIONS_0,
     MOCK_ADAPTIVE_QUESTIONS_1,
     MOCK_ADAPTIVE_QUESTIONS_2,
     MOCK_ADAPTIVE_QUESTIONS_3,
     MOCK_ADAPTIVE_QUESTIONS_4,
     MOCK_ADAPTIVE_QUESTIONS_5,
     MOCK_ADAPTIVE_QUESTIONS_6,
     MOCK_ADAPTIVE_QUESTIONS_7,
     MOCK_ADAPTIVE_QUESTIONS_8,
     MOCK_ADAPTIVE_QUESTIONS_9,
     MOCK_ADAPTIVE_QUESTIONS_10,
     MOCK_ADAPTIVE_QUESTIONS_11,
     MOCK_ADAPTIVE_QUESTIONS_12,
     MOCK_ADAPTIVE_QUESTIONS_13,
     MOCK_ADAPTIVE_QUESTIONS_14,
     MOCK_ADAPTIVE_QUESTIONS_15,
     MOCK_ADAPTIVE_QUESTIONS_16,
     MOCK_ADAPTIVE_QUESTIONS_17,
     MOCK_ADAPTIVE_QUESTIONS_18,
     MOCK_ADAPTIVE_QUESTIONS_19]"


text \<open>\<open>MOCK_STUDY_PLANS\<close>, likewise the second assignment.\<close>

definition MOCK_STUDY_PLANS :: "study_plan_dict list" where
  "MOCK_STUDY_PLANS =
    [\<lparr>sp_subjects = [''quantitative'', ''reasoning''],
      sp_description = ''Focus on basic arithmetic and logical reasoning'',
      sp_difficulty = ''beginner''\<rparr>,
     \<lparr>sp_subjects = [''english'', ''general_knowledge''],
      sp_description = ''Improve vocabulary and current affairs knowledge'',
      sp_difficulty = ''intermediate''\<rparr>,
     \<lparr>sp_subjects = [''quantitative'', ''english'', ''reasoning''],
      sp_description = ''Balanced practice across all subjects'',
      sp_difficulty = ''mixed''\<rparr>]"


section \<open>The document store and the environment\<close>

text \<open>
  The four MongoDB collections are lists of documents in insertion order.
  \<open>find_one\<close> with a filter is \<^const>\<open>find\<close> (the first document that matches, or
  \<open>None\<close>), \<open>insert_one\<close> appends, and \<open>update_one\<close> with \<open>$set\<close> rewrites the named
  fields of the first document that matches and nothing else.
\<close>

record db =
  db_users :: "User list"
  db_questions :: "Question list"
  db_assessments :: "Assessment list"
  db_study_plans :: "StudyPlan list"

fun update_one :: "('a \<Rightarrow> bool) \<Rightarrow> ('a \<Rightarrow> 'a) \<Rightarrow> 'a list \<Rightarrow> 'a list" where
  "update_one P f [] = []"
| "update_one P f (x # xs) = (if P x then f x # xs else x # update_one P f xs)"

text \<open>What an endpoint raises: an \<open>HTTPException\<close> with its status code, the
  \<open>UnboundLocalError\<close> of reading a local that no branch assigned, a Pydantic or
  enum \<open>ValueError\<close>, the errors of the \<open>random\<close> module on an empty
  population, and the \<open>OverflowError\<close> of the store's encoder. An endpoint returns its outcome together with the store it leaves
  behind: writes made before a raise stay.\<close>

datatype error = HTTPException int | UnboundLocalError | ValueError | IndexError | OverflowError

text \<open>The store encodes a Python \<open>int\<close> in at most 8 bytes. A write of a document that
  holds a larger one raises \<open>OverflowError\<close> in the driver, before anything reaches the
  collection. The integers that a client or the generator supplies are the request's
  \<open>selected_option\<close> and \<open>time_taken\<close> and a payload's \<open>correct_answer\<close>.\<close>

definition bson_int :: "int \<Rightarrow> bool" where
  "bson_int n \<longleftrightarrow> - (2 ^ 63) \<le> n \<and> n < 2 ^ 63"


text \<open>The \<open>random\<close> module draws from a list of numbers supplied by the caller,
  one per draw; an exhausted list keeps yielding 0. \<open>random.choice\<close> takes the
  element at the drawn position, \<open>random.sample\<close> draws \<open>k\<close> positions without
  replacement, \<open>random.shuffle\<close> is a sample of the whole list.\<close>

fun draw :: "nat list \<Rightarrow> nat \<times> nat list" where
  "draw [] = (0, [])"
| "draw (r # rs) = (r, rs)"

definition random_choice :: "nat list \<Rightarrow> 'a list \<Rightarrow> ('a \<times> nat list) option" where
  "random_choice rs xs =
     (if xs = [] then None
      else let (r, rs') = draw rs in Some (xs ! (r mod length xs), rs'))"

fun random_sample :: "nat list \<Rightarrow> 'a list \<Rightarrow> nat \<Rightarrow> ('a list \<times> nat list) option" where
  "random_sample rs xs 0 = Some ([], rs)"
| "random_sample rs xs (Suc k) =
     (if xs = [] then None
      else let (r, rs1) = draw rs; i = r mod length xs
           in case random_sample rs1 (take i xs @ drop (Suc i) xs) k of
                None \<Rightarrow> None
              | Some (ys, rs2) \<Rightarrow> Some (xs ! i # ys, rs2))"

definition random_shuffle :: "nat list \<Rightarrow> 'a list \<Rightarrow> ('a list \<times> nat list) option" where
  "random_shuffle rs xs = random_sample rs xs (length xs)"

section \<open>The endpoints\<close>

subsection \<open>\<open>create_user\<close>\<close>

definition create_user :: "db \<Rightarrow> UserCreate \<Rightarrow> string \<Rightarrow> datetime \<Rightarrow> User \<times> db" where
  "create_user d user_data new_id now =
     (case find (\<lambda>u. u_phone u = uc_phone user_data) (db_users d) of
        Some existing_user \<Rightarrow> (existing_user, d)
      | None \<Rightarrow>
          let user = \<lparr>u_id = new_id,
                      u_name = uc_name user_data,
                      u_phone = uc_phone user_data,
                      u_target_exam = uc_target_exam user_data,
                      u_preferred_language = uc_preferred_language user_data,
                      u_skill_levels = [],
                      u_created_at = now\<rparr>
          in (user, d\<lparr>db_users := db_users d @ [user]\<rparr>))"

subsection \<open>\<open>submit_answer\<close>\<close>



subsection \<open>\<open>complete_assessment\<close>\<close>

text \<open>\<open>(correct / total) * 100 if total > 0 else 0\<close>, with the two float
  operations rounded by \<open>fl\<close>.\<close>

definition percentage :: "(rat \<Rightarrow> rat) \<Rightarrow> nat \<Rightarrow> nat \<Rightarrow> rat" where
  "percentage fl correct total' =
     (if total' > 0 then fl (fl (of_nat correct / of_nat total') * 100) else 0)"

text \<open>One turn of the loop over the answers: the answer's question is looked up,
  an answer whose question is gone is skipped, otherwise the subject's
  \<open>{"correct", "total"}\<close> pair (created as \<open>(0, 0)\<close> at the end of the dict when new)
  is bumped.\<close>

definition tally_answer ::
  "Question list \<Rightarrow> Answer \<Rightarrow> (nat \<times> nat) dict \<Rightarrow> (nat \<times> nat) dict" where
  "tally_answer qs answer subject_scores =
     (case find (\<lambda>q. q_id q = ans_question_id answer) qs of
        None \<Rightarrow> subject_scores
      | Some question_data \<Rightarrow>
          let subject = SubjectType_value (q_subject question_data);
              (correct, total') =
                (case map_of subject_scores subject of None \<Rightarrow> (0, 0) | Some e \<Rightarrow> e)
          in AList.update subject
               (if ans_is_correct answer then correct + 1 else correct, total' + 1)
               subject_scores)"

definition subject_scores_of ::
  "(rat \<Rightarrow> rat) \<Rightarrow> Question list \<Rightarrow> Answer list \<Rightarrow> rat dict" where
  "subject_scores_of fl qs answers =
     map (\<lambda>(subject, (correct, total')). (subject, percentage fl correct total'))
       (fold (tally_answer qs) answers [])"

definition skill_level_of :: "rat \<Rightarrow> string" where
  "skill_level_of score =
     (if score \<ge> 80 then ''advanced''
      else if score \<ge> 50 then ''intermediate''
      else ''beginner'')"

definition skill_levels_of :: "rat dict \<Rightarrow> string dict" where
  "skill_levels_of subject_scores =
     fold (\<lambda>(subject, score). AList.update subject (skill_level_of score)) subject_scores []"

record CompleteAssessmentResponse =
  c_overall_score :: rat
  c_subject_scores :: "rat dict"
  c_skill_levels :: "string dict"
  c_total_questions :: nat
  c_correct_answers :: nat

text \<open>\<open>skill_levels\<close> is assigned only under \<open>if user_data:\<close>; with no user
  document the \<open>return\<close> statement reads an unbound local, after the assessment has
  been updated.\<close>

definition complete_assessment ::
  "(rat \<Rightarrow> rat) \<Rightarrow> db \<Rightarrow> string \<Rightarrow> datetime \<Rightarrow> (error + CompleteAssessmentResponse) \<times> db" where
  "complete_assessment fl d assessment_id now =
     (case find (\<lambda>a. a_id a = assessment_id) (db_assessments d) of
        None \<Rightarrow> (Inl (HTTPException 404), d)
      | Some assessment \<Rightarrow>
          let total_questions = length (a_answers assessment);
              correct_answers = length (filter ans_is_correct (a_answers assessment));
              overall_score = percentage fl correct_answers total_questions;
              subject_scores = subject_scores_of fl (db_questions d) (a_answers assessment);
              d1 = d\<lparr>db_assessments :=
                      update_one (\<lambda>a. a_id a = assessment_id)
                        (\<lambda>a. a\<lparr>a_score := overall_score,
                                a_subject_scores := subject_scores,
                                a_completed_at := Some now\<rparr>) (db_assessments d)\<rparr>
          in case find (\<lambda>u. u_id u = a_user_id assessment) (db_users d1) of
               None \<Rightarrow> (Inl UnboundLocalError, d1)
             | Some user_data \<Rightarrow>
                 let skill_levels = skill_levels_of subject_scores;
                     d2 = d1\<lparr>db_users :=
                             update_one (\<lambda>u. u_id u = a_user_id assessment)
                               (\<lambda>u. u\<lparr>u_skill_levels := skill_levels\<rparr>) (db_users d1)\<rparr>
                 in (Inr \<lparr>c_overall_score = overall_score,
                          c_subject_scores = subject_scores,
                          c_skill_levels = skill_levels,
                          c_total_questions = total_questions,
                          c_correct_answers = correct_answers\<rparr>, d2))"

subsection \<open>\<open>start_diagnostic_test\<close>\<close>

text \<open>The endpoint tells the catalog dicts apart by \<open>id(q)\<close>. The dicts of a list
  literal are distinct objects, so the position of a dict in the catalog stands for
  its \<open>id\<close>, and the endpoint works on the dicts paired with their positions.\<close>

definition objects :: "'a list \<Rightarrow> (nat \<times> 'a) list" where
  "objects catalog = zip [0..<length catalog] catalog"

text \<open>The \<open>for subject in subjects\<close> loop, with \<open>questions\<close> and \<open>used_questions\<close>
  as its state.\<close>

fun sample_subjects ::
  "question_dict list \<Rightarrow> string list \<Rightarrow> (nat \<times> question_dict) list \<Rightarrow> nat set \<Rightarrow> nat list
   \<Rightarrow> ((nat \<times> question_dict) list \<times> nat set \<times> nat list) option" where
  "sample_subjects catalog [] questions used_questions rs = Some (questions, used_questions, rs)"
| "sample_subjects catalog (subject # subjects) questions used_questions rs =
     (let subject_questions = filter (\<lambda>(i, q). qd_subject q = subject) (objects catalog);
          available_questions = filter (\<lambda>(i, q). i \<notin> used_questions) subject_questions
      in case random_sample rs available_questions (min 3 (length available_questions)) of
           None \<Rightarrow> None
         | Some (selected, rs') \<Rightarrow>
             sample_subjects catalog subjects (questions @ selected)
               (used_questions \<union> fst ` set selected) rs')"

text \<open>The \<open>while len(questions) < 10\<close> loop.\<close>

function fill_to_ten ::
  "question_dict list \<Rightarrow> (nat \<times> question_dict) list \<Rightarrow> nat set \<Rightarrow> nat list
   \<Rightarrow> ((nat \<times> question_dict) list \<times> nat set \<times> nat list) option" where
  "fill_to_ten catalog questions used_questions rs =
     (if length questions < 10 then
        (let remaining_questions = filter (\<lambda>(i, q). i \<notin> used_questions) (objects catalog)
         in if remaining_questions \<noteq> [] then
              (case random_choice rs remaining_questions of
                 None \<Rightarrow> None
               | Some (selected, rs') \<Rightarrow>
                   fill_to_ten catalog (questions @ [selected])
                     (insert (fst selected) used_questions) rs')
            else Some (questions, used_questions, rs))
      else Some (questions, used_questions, rs))"
  by pat_completeness auto
termination
  by (relation "measure (\<lambda>(catalog, questions, used_questions, rs). 10 - length questions)") auto

definition diagnostic_questions ::
  "question_dict list \<Rightarrow> nat list \<Rightarrow> ((nat \<times> question_dict) list \<times> nat list) option" where
  "diagnostic_questions catalog rs =
     (case sample_subjects catalog
             [''quantitative'', ''reasoning'', ''english'', ''general_knowledge''] [] {} rs of
        None \<Rightarrow> None
      | Some (questions, used_questions, rs1) \<Rightarrow>
         (case fill_to_ten catalog questions used_questions rs1 of
            None \<Rightarrow> None
          | Some (questions', used_questions', rs2) \<Rightarrow> random_shuffle rs2 questions'))"

text \<open>\<open>Question(id=..., **question_data)\<close> after the two enum conversions.\<close>

definition Question_of_dict :: "string \<Rightarrow> question_dict \<Rightarrow> Question option" where
  "Question_of_dict new_id q_data =
     (case SubjectType_of (qd_subject q_data) of
        None \<Rightarrow> None
      | Some subject \<Rightarrow>
         (case DifficultyLevel_of (qd_difficulty q_data) of
            None \<Rightarrow> None
          | Some difficulty \<Rightarrow>
              Some \<lparr>q_id = new_id,
                    q_subject = subject,
                    q_difficulty = difficulty,
                    q_question_text_en = qd_question_text_en q_data,
                    q_question_text_hi = qd_question_text_hi q_data,
                    q_options_en = qd_options_en q_data,
                    q_options_hi = qd_options_hi q_data,
                    q_correct_answer = qd_correct_answer q_data,
                    q_explanation_en = qd_explanation_en q_data,
                    q_explanation_hi = qd_explanation_hi q_data,
                    q_exam_type = qd_exam_type q_data\<rparr>))"

text \<open>The loop that builds \<open>question_objects\<close>; the first conversion that fails
  ends it.\<close>

fun question_objects_of :: "string list \<Rightarrow> question_dict list \<Rightarrow> Question list option" where
  "question_objects_of ids [] = Some []"
| "question_objects_of ids (q_data # rest) =
     (case ids of
        [] \<Rightarrow> None
      | i # ids' \<Rightarrow>
         (case Question_of_dict i q_data of
            None \<Rightarrow> None
          | Some question \<Rightarrow>
             (case question_objects_of ids' rest of
                None \<Rightarrow> None
              | Some qs \<Rightarrow> Some (question # qs))))"

text \<open>The dict the endpoint returns for each question: every field but
  \<open>correct_answer\<close> and the explanations.\<close>

record QuestionSummary =
  s_id :: string
  s_subject :: SubjectType
  s_difficulty :: DifficultyLevel
  s_question_text_en :: string
  s_question_text_hi :: string
  s_options_en :: "string list"
  s_options_hi :: "string list"
  s_exam_type :: string

definition summary :: "Question \<Rightarrow> QuestionSummary" where
  "summary q =
     \<lparr>s_id = q_id q,
      s_subject = q_subject q,
      s_difficulty = q_difficulty q,
      s_question_text_en = q_question_text_en q,
      s_question_text_hi = q_question_text_hi q,
      s_options_en = q_options_en q,
      s_options_hi = q_options_hi q,
      s_exam_type = q_exam_type q\<rparr>"

record DiagnosticResponse =
  dr_assessment_id :: string
  dr_questions :: "QuestionSummary list"
  dr_total_questions :: nat

text \<open>\<open>uuids\<close> yields the fresh ids in the order the endpoint asks for them: one
  for each question, then the assessment's own.\<close>

definition start_diagnostic_test ::
  "db \<Rightarrow> string \<Rightarrow> nat list \<Rightarrow> (nat \<Rightarrow> string) \<Rightarrow> datetime
   \<Rightarrow> (error + DiagnosticResponse) \<times> db" where
  "start_diagnostic_test d user_id rs uuids now =
     (case diagnostic_questions SAMPLE_QUESTIONS rs of
        None \<Rightarrow> (Inl ValueError, d)
      | Some (questions, rs') \<Rightarrow>
          let assessment = \<lparr>a_id = uuids (length questions),
                            a_user_id = user_id,
                            a_test_type = ''diagnostic'',
                            a_questions = map uuids [0..<length questions],
                            a_answers = [],
                            a_score = 0,
                            a_subject_scores = [],
                            a_completed_at = None,
                            a_created_at = now\<rparr>
          in case question_objects_of (a_questions assessment) (map snd questions) of
               None \<Rightarrow> (Inl ValueError, d)
             | Some question_objects \<Rightarrow>
                 (Inr \<lparr>dr_assessment_id = a_id assessment,
                       dr_questions = map summary question_objects,
                       dr_total_questions = length questions\<rparr>,
                  d\<lparr>db_questions := db_questions d @ question_objects,
                    db_assessments := db_assessments d @ [assessment]\<rparr>))"

subsection \<open>\<open>generate_adaptive_question\<close>\<close>

text \<open>What \<open>json.loads(await get_openai_response(prompt))\<close> does is decided outside
  the program, so it is an input:
  \<^item> \<open>NotJson\<close>: the call failed (\<open>get_openai_response\<close> then returns its sentence of
    apology) or the reply is not JSON, and \<open>json.loads\<close> raises;
  \<^item> \<open>WellFormed p\<close>: the reply is a JSON object holding the seven keys, with values
    that Pydantic accepts for the fields of \<open>Question\<close>;
  \<^item> \<open>Unstorable p\<close>: such a payload whose text the store's encoder refuses (a lone
    surrogate, which \<open>json.loads\<close> accepts and UTF-8 cannot express, or text beyond the
    size of a document); \<open>p\<close> stands for the payload;
  \<^item> \<open>Malformed\<close>: the reply is any other JSON value, so that reading a key or
    validating the \<open>Question\<close> raises in the caller.\<close>

datatype generator_response =
  NotJson | Malformed | WellFormed question_payload | Unstorable question_payload

datatype json_value = Dict question_payload | Other

text \<open>The bare \<open>except\<close> picks among the catalog dicts of the subject and difficulty,
  or takes \<open>SAMPLE_QUESTIONS[0]\<close> when there is none; \<^const>\<open>random_choice\<close>
  is \<open>None\<close> exactly on the empty list. The caller reads seven keys of the dict.\<close>

definition generate_adaptive_question ::
  "string \<Rightarrow> string \<Rightarrow> generator_response \<Rightarrow> nat list \<Rightarrow> json_value \<times> nat list" where
  "generate_adaptive_question subject difficulty response rs =
     (case response of
        WellFormed question_data \<Rightarrow> (Dict question_data, rs)
      | Unstorable question_data \<Rightarrow> (Dict question_data, rs)
      | Malformed \<Rightarrow> (Other, rs)
      | NotJson \<Rightarrow>
          let matching_questions =
                filter (\<lambda>q. qd_subject q = subject \<and> qd_difficulty q = difficulty)
                  SAMPLE_QUESTIONS
          in case random_choice rs matching_questions of
               Some (q, rs') \<Rightarrow> (Dict (question_payload.truncate q), rs')
             | None \<Rightarrow> (Dict (question_payload.truncate (SAMPLE_QUESTIONS ! 0)), rs))"

subsection \<open>\<open>get_adaptive_practice\<close>\<close>

definition weakest_subjects_of :: "string dict \<Rightarrow> string list" where
  "weakest_subjects_of skill_levels =
     (let weakest_subjects =
            concat (map (\<lambda>(subject, level).
                      if level = ''beginner'' then replicate 3 subject
                      else if level = ''intermediate'' then replicate 2 subject
                      else [subject]) skill_levels)
      in if weakest_subjects = []
         then [''quantitative'', ''reasoning'', ''english'', ''general_knowledge'']
         else weakest_subjects)"

text \<open>The keyword arguments of the \<open>Question\<close> built inside the \<open>try\<close>: seven values
  read from the generator's dict, and the subject, difficulty and exam type that the
  endpoint supplies.\<close>

definition question_kwargs ::
  "question_payload \<Rightarrow> string \<Rightarrow> string \<Rightarrow> string \<Rightarrow> question_dict" where
  "question_kwargs p subject difficulty exam_type =
     \<lparr>qd_question_text_en = qd_question_text_en p,
      qd_question_text_hi = qd_question_text_hi p,
      qd_options_en = qd_options_en p,
      qd_options_hi = qd_options_hi p,
      qd_correct_answer = qd_correct_answer p,
      qd_explanation_en = qd_explanation_en p,
      qd_explanation_hi = qd_explanation_hi p,
      qd_subject = subject,
      qd_difficulty = difficulty,
      qd_exam_type = exam_type\<rparr>"

text \<open>The state of the \<open>for _ in range(count)\<close> loop: \<open>questions\<close>,
  \<open>used_questions\<close>, the random draws left, and the store.\<close>

type_synonym practice_state = "Question list \<times> string set \<times> nat list \<times> db"

text \<open>The \<open>except Exception\<close> branch of the loop body: a mock question whose English
  text has not been used in this request, or any mock question (and an emptied
  \<open>used_questions\<close>) once all have been used. It copies the mock dict's own
  \<open>exam_type\<close>.\<close>

definition mock_fallback :: "string \<Rightarrow> practice_state \<Rightarrow> error + practice_state" where
  "mock_fallback new_id st =
     (case st of (questions, used_questions, rs, d) \<Rightarrow>
        let unused = filter (\<lambda>q. qd_question_text_en q \<notin> used_questions)
                       MOCK_ADAPTIVE_QUESTIONS;
            (available_questions, used_questions') =
              (if unused = [] then (MOCK_ADAPTIVE_QUESTIONS, {})
               else (unused, used_questions))
        in case random_choice rs available_questions of
             None \<Rightarrow> Inl IndexError
           | Some (mock_question, rs') \<Rightarrow>
              (case Question_of_dict new_id mock_question of
                 None \<Rightarrow> Inl ValueError
               | Some question \<Rightarrow>
                   Inr (questions @ [question],
                        insert (qd_question_text_en mock_question) used_questions',
                        rs',
                        d\<lparr>db_questions := db_questions d @ [question]\<rparr>)))"

text \<open>Whether \<open>db.questions.insert_one\<close> takes the question built from the
  generator's dict: its one integer of foreign origin must fit, and its text must be
  encodable. The subject, difficulty and exam type come from the learner's stored
  document and from the enums.\<close>

definition insert_accepts :: "generator_response \<Rightarrow> Question \<Rightarrow> bool" where
  "insert_accepts response question \<longleftrightarrow>
     bson_int (q_correct_answer question)
     \<and> (case response of Unstorable p \<Rightarrow> False | _ \<Rightarrow> True)"

text \<open>One turn of the loop. The inner \<open>try\<close> covers the generator call, the
  \<open>Question\<close> built from its dict, \<open>questions.append\<close> and \<open>insert_one\<close>, in this order;
  any raise there leads to the mock catalog. When it is \<open>insert_one\<close> that raises, the
  question is already in \<open>questions\<close> and stays there. A raise outside the inner \<open>try\<close>
  ends the loop. \<open>new_id\<close> is the id of the question built in the \<open>try\<close>, \<open>mock_id\<close>
  that of the mock question.\<close>

definition practice_step ::
  "User \<Rightarrow> generator_response \<Rightarrow> string \<Rightarrow> string \<Rightarrow> practice_state
   \<Rightarrow> error + practice_state" where
  "practice_step user response new_id mock_id st =
     (case st of (questions, used_questions, rs, d) \<Rightarrow>
       (case random_choice rs (weakest_subjects_of (u_skill_levels user)) of
          None \<Rightarrow> Inl IndexError
        | Some (selected_subject, rs1) \<Rightarrow>
            let difficulty =
                  (case map_of (u_skill_levels user) selected_subject of
                     None \<Rightarrow> ''beginner'' | Some level \<Rightarrow> level);
                (question_data, rs2) =
                  generate_adaptive_question selected_subject difficulty response rs1
            in case (case question_data of
                       Other \<Rightarrow> None
                     | Dict p \<Rightarrow>
                         Question_of_dict new_id
                           (question_kwargs p selected_subject difficulty
                              (u_target_exam user))) of
                 Some question \<Rightarrow>
                   if insert_accepts response question
                   then Inr (questions @ [question], used_questions, rs2,
                             d\<lparr>db_questions := db_questions d @ [question]\<rparr>)
                   else mock_fallback mock_id (questions @ [question], used_questions, rs2, d)
               | None \<Rightarrow> mock_fallback mock_id (questions, used_questions, rs2, d)))"

fun practice_loop ::
  "User \<Rightarrow> (nat \<Rightarrow> generator_response) \<Rightarrow> (nat \<Rightarrow> string) \<Rightarrow> nat list \<Rightarrow> practice_state
   \<Rightarrow> error option \<times> practice_state" where
  "practice_loop user responses uuids [] st = (None, st)"
| "practice_loop user responses uuids (i # rest) st =
     (case practice_step user (responses i) (uuids (2 * i + 1)) (uuids (2 * i + 2)) st of
        Inl e \<Rightarrow> (Some e, st)
      | Inr st' \<Rightarrow> practice_loop user responses uuids rest st')"

record AdaptivePracticeResponse =
  ap_questions :: "Question list"
  ap_assessment_id :: string

text \<open>The whole body sits in a \<open>try\<close> whose \<open>except Exception\<close> re-raises everything
  as status 500, the 404 of the missing user included. \<open>responses i\<close> is the
  generator's reply in turn \<open>i\<close>; \<open>uuids 0\<close> is the assessment's id, and
  \<open>uuids (2 * i + 1)\<close> and \<open>uuids (2 * i + 2)\<close> are the two ids of turn \<open>i\<close>. The query for recent
  assessments only reads, and its result is not used. The keyword arguments
  \<open>assessment_type\<close> and \<open>status\<close> name no field of \<open>Assessment\<close>; Pydantic drops
  them.\<close>

definition get_adaptive_practice ::
  "db \<Rightarrow> string \<Rightarrow> int \<Rightarrow> nat list \<Rightarrow> (nat \<Rightarrow> generator_response) \<Rightarrow> (nat \<Rightarrow> string) \<Rightarrow> datetime
   \<Rightarrow> (error + AdaptivePracticeResponse) \<times> db" where
  "get_adaptive_practice d user_id count rs responses uuids now =
     (case find (\<lambda>u. u_id u = user_id) (db_users d) of
        None \<Rightarrow> (Inl (HTTPException 500), d)
      | Some user \<Rightarrow>
          let assessment = \<lparr>a_id = uuids 0,
                            a_user_id = user_id,
                            a_test_type = u_target_exam user,
                            a_questions = [],
                            a_answers = [],
                            a_score = 0,
                            a_subject_scores = [],
                            a_completed_at = None,
                            a_created_at = now\<rparr>;
              d1 = d\<lparr>db_assessments := db_assessments d @ [assessment]\<rparr>
          in case practice_loop user responses uuids [0..<nat count] ([], {}, rs, d1) of
               (Some e, (questions, used_questions, rs', d')) \<Rightarrow>
                 (Inl (HTTPException 500), d')
             | (None, (questions, used_questions, rs', d')) \<Rightarrow>
                 (Inr \<lparr>ap_questions = questions, ap_assessment_id = a_id assessment\<rparr>, d'))"

subsection \<open>\<open>get_daily_study_plan\<close>\<close>

text \<open>\<open>list(set(xs))\<close>: the distinct elements of \<open>xs\<close>, in an order Python does not
  fix; the model keeps the order of last occurrence.\<close>

definition list_set :: "'a list \<Rightarrow> 'a list" where
  "list_set xs = remdups xs"

definition weak_subjects_of :: "string dict \<Rightarrow> string list" where
  "weak_subjects_of skill_levels =
     concat (map (\<lambda>(subject, level).
               if level = ''beginner'' then replicate 2 subject
               else if level = ''intermediate'' then [subject]
               else []) skill_levels)"

definition get_daily_study_plan ::
  "db \<Rightarrow> string \<Rightarrow> string \<Rightarrow> nat list \<Rightarrow> string \<Rightarrow> datetime \<Rightarrow> (error + StudyPlan) \<times> db" where
  "get_daily_study_plan d user_id today rs new_id now =
     (case find (\<lambda>u. u_id u = user_id) (db_users d) of
        None \<Rightarrow> (Inl (HTTPException 404), d)
      | Some user \<Rightarrow>
         (case find (\<lambda>p. p_user_id p = user_id \<and> p_date p = today) (db_study_plans d) of
            Some existing_plan \<Rightarrow> (Inr existing_plan, d)
          | None \<Rightarrow>
             (case (if weak_subjects_of (u_skill_levels user) = []
                    then map_option (\<lambda>(mock_plan, rs'). sp_subjects mock_plan)
                           (random_choice rs MOCK_STUDY_PLANS)
                    else Some (weak_subjects_of (u_skill_levels user))) of
                None \<Rightarrow> (Inl IndexError, d)
              | Some weak_subjects \<Rightarrow>
                  let plan = \<lparr>p_id = new_id,
                              p_user_id = user_id,
                              p_date = today,
                              p_subjects = list_set (take 3 weak_subjects),
                              p_questions_count = 20,
                              p_estimated_time = 20,
                              p_status = ''pending'',
                              p_created_at = now\<rparr>
                  in (Inr plan, d\<lparr>db_study_plans := db_study_plans d @ [plan]\<rparr>))))"

section \<open>Concrete stores and requests\<close>

text \<open>A small store on which the endpoints are run: one learner, one stored
  question, one diagnostic assessment without answers.\<close>

definition example_question :: Question where
  "example_question =
     \<lparr>q_id = ''q1'', q_subject = QUANTITATIVE, q_difficulty = BEGINNER,
      q_question_text_en = ''What is 25% of 800?'',
      q_question_text_hi = ''800 <U+0915><U+093E> 25% <U+0915><U+094D><U+092F><U+093E> <U+0939><U+0948>?'',
      q_options_en = [''150'', ''200'', ''250'', ''300''],
      q_options_hi = [''150'', ''200'', ''250'', ''300''],
      q_correct_answer = 1,
      q_explanation_en = ''25% of 800 = (25/100) <U+00D7> 800 = 200'',
      q_explanation_hi = ''800 <U+0915><U+093E> 25% = (25/100) <U+00D7> 800 = 200'',
      q_exam_type = ''SSC''\<rparr>"

definition example_assessment :: Assessment where
  "example_assessment =
     \<lparr>a_id = ''a1'', a_user_id = ''u1'', a_test_type = ''diagnostic'',
      a_questions = [''q1''], a_answers = [], a_score = 0, a_subject_scores = [],
      a_completed_at = None, a_created_at = 0\<rparr>"

definition example_user :: User where
  "example_user =
     \<lparr>u_id = ''u1'', u_name = ''Asha'', u_phone = ''9999900000'', u_target_exam = ''Banking'',
      u_preferred_language = Language_ENGLISH, u_skill_levels = [], u_created_at = 0\<rparr>"

definition example_db :: db where
  "example_db =
     \<lparr>db_users = [example_user], db_questions = [example_question],
      db_assessments = [example_assessment], db_study_plans = []\<rparr>"



definition example_user_data :: UserCreate where
  "example_user_data =
     \<lparr>uc_name = ''Asha'', uc_phone = ''9999900000'', uc_target_exam = ''SSC'',
      uc_preferred_language = Language_ENGLISH\<rparr>"

definition empty_db :: db where
  "empty_db = \<lparr>db_users = [], db_questions = [], db_assessments = [], db_study_plans = []\<rparr>"

text \<open>The same store after two answers to the stored question, one right and one
  wrong, with a learner who already holds a tier for another subject; and the store
  of an assessment whose learner has no document.\<close>

definition tiers_db :: db where
  "tiers_db =
     \<lparr>db_users = [example_user\<lparr>u_skill_levels := [(''english'', ''advanced'')]\<rparr>],
      db_questions = [example_question],
      db_assessments =
        [example_assessment\<lparr>a_answers :=
           [\<lparr>ans_question_id = ''q1'', ans_selected_option = 1, ans_is_correct = True,
             ans_time_taken = 12\<rparr>,
            \<lparr>ans_question_id = ''q1'', ans_selected_option = 0, ans_is_correct = False,
             ans_time_taken = 5\<rparr>]\<rparr>],
      db_study_plans = []\<rparr>"

definition orphan_db :: db where
  "orphan_db =
     \<lparr>db_users = [], db_questions = [example_question],
      db_assessments = [example_assessment], db_study_plans = []\<rparr>"


definition bad_payload :: question_payload where
  "bad_payload =
     \<lparr>qd_question_text_en = ''What is 2 + 2?'', qd_question_text_hi = ''2 + 2?'',
      qd_options_en = [''3'', ''4''], qd_options_hi = [''3'', ''4''],
      qd_correct_answer = 7,
      qd_explanation_en = ''2 + 2 = 4'', qd_explanation_hi = ''2 + 2 = 4''\<rparr>"

definition always_bad_payload :: "nat \<Rightarrow> generator_response" where
  "always_bad_payload i = WellFormed bad_payload"


definition good_payload :: question_payload where
  "good_payload =
     \<lparr>qd_question_text_en = ''What is 2 + 2?'', qd_question_text_hi = ''2 + 2?'',
      qd_options_en = [''3'', ''4'', ''5'', ''6''], qd_options_hi = [''3'', ''4'', ''5'', ''6''],
      qd_correct_answer = 1,
      qd_explanation_en = ''2 + 2 = 4'', qd_explanation_hi = ''2 + 2 = 4''\<rparr>"

definition always_good_payload :: "nat \<Rightarrow> generator_response" where
  "always_good_payload i = WellFormed good_payload"

definition bad_then_malformed :: "nat \<Rightarrow> generator_response" where
  "bad_then_malformed i = (if i = 0 then WellFormed bad_payload else Malformed)"



definition example_uuids :: "nat \<Rightarrow> string" where
  "example_uuids i = replicate (Suc i) CHR ''x''"

definition returned_questions :: "(error + AdaptivePracticeResponse) \<times> db \<Rightarrow> Question list" where
  "returned_questions outcome = (case fst outcome of Inl e \<Rightarrow> [] | Inr r \<Rightarrow> ap_questions r)"

section \<open>Predicates of the statements\<close>

text \<open>What the scoring theorems ask of the float rounding: it is monotone and
  leaves 0, 1 and 100 as they are. Exact arithmetic and IEEE round-to-nearest both
  qualify (the three numbers are doubles).\<close>

definition rounding :: "(rat \<Rightarrow> rat) \<Rightarrow> bool" where
  "rounding fl \<longleftrightarrow>
     (\<forall>x y. x \<le> y \<longrightarrow> fl x \<le> fl y) \<and> fl 0 = 0 \<and> fl 1 = 1 \<and> fl 100 = 100"

text \<open>The invariant of the \<open>{"correct", "total"}\<close> dict while the answers are
  counted: one entry for each subject, and never more right answers than answers.\<close>

definition tally_ok :: "(nat \<times> nat) dict \<Rightarrow> bool" where
  "tally_ok ss \<longleftrightarrow> distinct (map fst ss) \<and> (\<forall>(s, c, t) \<in> set ss. c \<le> t)"

text \<open>The invariant of claim C7, on a stored \<open>Question\<close> and on a dict with the
  payload keys; a catalog dict whose subject and difficulty are enum values; and a
  tier mapping whose keys and values are.\<close>

definition valid_question :: "Question \<Rightarrow> bool" where
  "valid_question q \<longleftrightarrow>
     0 \<le> q_correct_answer q \<and> q_correct_answer q < 4
     \<and> length (q_options_en q) = 4 \<and> length (q_options_hi q) = 4"

definition valid_payload :: "'a question_payload_scheme \<Rightarrow> bool" where
  "valid_payload p \<longleftrightarrow>
     0 \<le> qd_correct_answer p \<and> qd_correct_answer p < 4
     \<and> length (qd_options_en p) = 4 \<and> length (qd_options_hi p) = 4"

definition well_typed_dict :: "question_dict \<Rightarrow> bool" where
  "well_typed_dict q \<longleftrightarrow>
     SubjectType_of (qd_subject q) \<noteq> None \<and> DifficultyLevel_of (qd_difficulty q) \<noteq> None"

definition levels_valid :: "string dict \<Rightarrow> bool" where
  "levels_valid skill_levels \<longleftrightarrow>
     (\<forall>(subject, level) \<in> set skill_levels.
        SubjectType_of subject \<noteq> None \<and> DifficultyLevel_of level \<noteq> None)"

text \<open>A generator reply after which the store may refuse the question built from
  it; the payload of a reply, if it has one; and a question that has the text,
  options and correct answer of a dict.\<close>

definition store_refuses :: "generator_response \<Rightarrow> bool" where
  "store_refuses response \<longleftrightarrow>
     (case response of
        WellFormed p \<Rightarrow> \<not> bson_int (qd_correct_answer p)
      | Unstorable p \<Rightarrow> True
      | _ \<Rightarrow> False)"

definition payload_of :: "generator_response \<Rightarrow> question_payload option" where
  "payload_of response =
     (case response of WellFormed p \<Rightarrow> Some p | Unstorable p \<Rightarrow> Some p | _ \<Rightarrow> None)"

definition copies :: "Question \<Rightarrow> 'a question_payload_scheme \<Rightarrow> bool" where
  "copies x p \<longleftrightarrow>
     q_question_text_en x = qd_question_text_en p
     \<and> q_correct_answer x = qd_correct_answer p
     \<and> q_options_en x = qd_options_en p \<and> q_options_hi x = qd_options_hi p"

text \<open>Where a question of the adaptive loop comes from, given the generator's reply of
  its turn: it copies a dict of one of the two catalogs, and then has the invariant
  of C7, or it copies the payload of the reply.\<close>

definition question_origin_ok :: "generator_response \<Rightarrow> Question \<Rightarrow> bool" where
  "question_origin_ok response x \<longleftrightarrow>
     ((\<exists>m \<in> set SAMPLE_QUESTIONS \<union> set MOCK_ADAPTIVE_QUESTIONS. copies x m)
        \<and> valid_question x)
     \<or> (\<exists>p. payload_of response = Some p \<and> copies x p)"

text \<open>What holds of the one question of a turn in which the store refuses nothing,
  given the learner and the generator's reply of that turn: the exam tag when the
  reply was usable, the mock entry it copies when the reply was JSON of the wrong
  shape, and the catalog entry it copies when there was no JSON.\<close>

definition practice_question_ok :: "User \<Rightarrow> generator_response \<Rightarrow> Question \<Rightarrow> bool" where
  "practice_question_ok user response x \<longleftrightarrow>
     (response \<noteq> Malformed \<and> levels_valid (u_skill_levels user) \<longrightarrow>
        q_exam_type x = u_target_exam user)
   \<and> (response = Malformed \<longrightarrow>
        (\<exists>m \<in> set MOCK_ADAPTIVE_QUESTIONS.
            q_exam_type x = qd_exam_type m \<and> q_question_text_en x = qd_question_text_en m))
   \<and> (response = NotJson \<and> levels_valid (u_skill_levels user) \<longrightarrow>
        (\<exists>m \<in> set SAMPLE_QUESTIONS.
            q_question_text_en x = qd_question_text_en m
          \<and> q_correct_answer x = qd_correct_answer m))"

section \<open>Facts about the store operations\<close>

lemma find_update_one:
  "find P xs = Some x \<Longrightarrow> P (f x) \<Longrightarrow> find P (update_one P f xs) = Some (f x)"
  by (induction xs) (auto split: if_splits)

lemma find_append:
  "find P (xs @ ys) = (case find P xs of None \<Rightarrow> find P ys | Some x \<Rightarrow> Some x)"
  by (induction xs) auto

lemma length_update_one: "length (update_one P f xs) = length xs"
  by (induction xs) auto

section \<open>Facts about the random draws\<close>

lemma random_choice_Some:
  "xs \<noteq> [] \<Longrightarrow> \<exists>x rs'. random_choice rs xs = Some (x, rs') \<and> x \<in> set xs"
  by (cases "draw rs") (auto simp: random_choice_def)

lemma random_choice_None: "random_choice rs xs = None \<longleftrightarrow> xs = []"
  by (cases "draw rs") (auto simp: random_choice_def)

section \<open>Facts about the scoring functions\<close>

lemma set_update_subset: "set (AList.update k v al) \<subseteq> insert (k, v) (set al)"
  by (induction al) auto

lemma percentage_bounds:
  assumes "rounding fl" and "correct \<le> total'"
  shows "0 \<le> percentage fl correct total' \<and> percentage fl correct total' \<le> 100"
proof (cases "total' > 0")
  case False
  then show ?thesis by (simp add: percentage_def)
next
  case True
  from assms(1) have mono: "\<And>x y. x \<le> y \<Longrightarrow> fl x \<le> fl y"
    and f0: "fl 0 = 0" and f1: "fl 1 = 1" and f100: "fl 100 = 100"
    by (auto simp: rounding_def)
  let ?q = "(of_nat correct :: rat) / of_nat total'"
  have q: "0 \<le> ?q \<and> ?q \<le> 1" using True assms(2) by simp
  have "fl 0 \<le> fl ?q" and "fl ?q \<le> fl 1" using q mono by blast+
  then have r: "0 \<le> fl ?q * 100 \<and> fl ?q * 100 \<le> 100" using f0 f1 by simp
  have "fl 0 \<le> fl (fl ?q * 100)" and "fl (fl ?q * 100) \<le> fl 100" using r mono by blast+
  then show ?thesis using True f0 f100 by (simp add: percentage_def)
qed

lemma tally_answer_ok: "tally_ok ss \<Longrightarrow> tally_ok (tally_answer qs answer ss)"
proof -
  assume ok: "tally_ok ss"
  show ?thesis
  proof (cases "find (\<lambda>q. q_id q = ans_question_id answer) qs")
    case None
    with ok show ?thesis by (simp add: tally_answer_def)
  next
    case (Some q)
    let ?k = "SubjectType_value (q_subject q)"
    obtain c t where ct: "(case map_of ss ?k of None \<Rightarrow> (0, 0) | Some e \<Rightarrow> e) = (c, t)"
      by fastforce
    have "c \<le> t"
    proof (cases "map_of ss ?k")
      case None with ct show ?thesis by simp
    next
      case (Some e)
      then have "(?k, e) \<in> set ss" by (rule map_of_SomeD)
      with ok ct Some show ?thesis by (auto simp: tally_ok_def)
    qed
    let ?v = "(if ans_is_correct answer then c + 1 else c, t + 1)"
    have eq: "tally_answer qs answer ss = AList.update ?k ?v ss"
      using Some ct by (simp add: tally_answer_def Let_def)
    have "distinct (map fst (AList.update ?k ?v ss))"
      using ok by (simp add: tally_ok_def distinct_update)
    moreover have "\<forall>(s, c, t) \<in> set (AList.update ?k ?v ss). c \<le> t"
      using set_update_subset [of ?k ?v ss] ok \<open>c \<le> t\<close> by (auto simp: tally_ok_def)
    ultimately show ?thesis unfolding eq tally_ok_def by simp
  qed
qed

lemma fold_tally_ok: "tally_ok ss \<Longrightarrow> tally_ok (fold (tally_answer qs) answers ss)"
  by (induction answers arbitrary: ss) (auto simp: tally_answer_ok)

lemma subject_scores_of_distinct: "distinct (map fst (subject_scores_of fl qs answers))"
proof -
  have "tally_ok (fold (tally_answer qs) answers [])"
    by (rule fold_tally_ok) (simp add: tally_ok_def)
  moreover have "map fst (subject_scores_of fl qs answers) = map fst (fold (tally_answer qs) answers [])"
    by (auto simp: subject_scores_of_def)
  ultimately show ?thesis by (simp add: tally_ok_def)
qed

lemma subject_scores_of_bounds:
  assumes "rounding fl" and "(subject, score) \<in> set (subject_scores_of fl qs answers)"
  shows "0 \<le> score \<and> score \<le> 100"
proof -
  have ok: "tally_ok (fold (tally_answer qs) answers [])"
    by (rule fold_tally_ok) (simp add: tally_ok_def)
  from assms(2) obtain c t where "(subject, c, t) \<in> set (fold (tally_answer qs) answers [])"
    and sc: "score = percentage fl c t"
    by (auto simp: subject_scores_of_def)
  with ok have "c \<le> t" by (auto simp: tally_ok_def)
  with assms(1) sc show ?thesis by (simp add: percentage_bounds)
qed

lemma skill_levels_fold_keys:
  "fst ` set (fold (\<lambda>(subject, score). AList.update subject (f score)) ss acc)
     = fst ` set ss \<union> fst ` set acc"
proof (induction ss arbitrary: acc)
  case Nil
  then show ?case by simp
next
  case (Cons p ss)
  obtain s sc where p: "p = (s, sc)" by (cases p)
  have "fst ` set (AList.update s (f sc) acc) = {s} \<union> fst ` set acc"
    by (rule dom_update)
  then show ?case
    unfolding p using Cons.IH [of "AList.update s (f sc) acc"] by auto
qed

lemma skill_levels_fold_map_of:
  "distinct (map fst ss) \<Longrightarrow>
     map_of (fold (\<lambda>(subject, score). AList.update subject (f score)) ss acc) k
       = (case map_of ss k of Some score \<Rightarrow> Some (f score) | None \<Rightarrow> map_of acc k)"
proof (induction ss arbitrary: acc)
  case Nil
  then show ?case by simp
next
  case (Cons p ss)
  obtain s sc where p: "p = (s, sc)" by (cases p)
  from Cons.prems p have d: "distinct (map fst ss)" and notin: "s \<notin> fst ` set ss" by auto
  from notin have none: "map_of ss s = None" by (simp add: map_of_eq_None_iff)
  show ?case
    using Cons.IH [OF d, of "AList.update s (f sc) acc"] none
    by (auto simp: p update_conv' split: option.splits)
qed

lemma skill_levels_of_keys: "fst ` set (skill_levels_of ss) = fst ` set ss"
  by (simp add: skill_levels_of_def skill_levels_fold_keys)

lemma skill_levels_of_lookup:
  "distinct (map fst ss) \<Longrightarrow> (subject, score) \<in> set ss \<Longrightarrow>
     map_of (skill_levels_of ss) subject = Some (skill_level_of score)"
  by (simp add: skill_levels_of_def skill_levels_fold_map_of)

lemma complete_assessment_unfold:
  assumes fa: "find (\<lambda>a. a_id a = aid) (db_assessments d) = Some a"
      and fu: "find (\<lambda>u. u_id u = a_user_id a) (db_users d) = Some u"
  shows "complete_assessment fl d aid now =
     (Inr \<lparr>c_overall_score = percentage fl (length (filter ans_is_correct (a_answers a))) (length (a_answers a)),
           c_subject_scores = subject_scores_of fl (db_questions d) (a_answers a),
           c_skill_levels = skill_levels_of (subject_scores_of fl (db_questions d) (a_answers a)),
           c_total_questions = length (a_answers a),
           c_correct_answers = length (filter ans_is_correct (a_answers a))\<rparr>,
      d\<lparr>db_assessments := update_one (\<lambda>a. a_id a = aid)
           (\<lambda>x. x\<lparr>a_score := percentage fl (length (filter ans_is_correct (a_answers a))) (length (a_answers a)),
                   a_subject_scores := subject_scores_of fl (db_questions d) (a_answers a),
                   a_completed_at := Some now\<rparr>) (db_assessments d),
        db_users := update_one (\<lambda>u. u_id u = a_user_id a)
           (\<lambda>x. x\<lparr>u_skill_levels := skill_levels_of (subject_scores_of fl (db_questions d) (a_answers a))\<rparr>)
           (db_users d)\<rparr>)"
  using assms by (simp add: complete_assessment_def Let_def)

lemma complete_assessment_stored:
  assumes fa: "find (\<lambda>a. a_id a = aid) (db_assessments d) = Some a"
  shows "find (\<lambda>a. a_id a = aid) (db_assessments (snd (complete_assessment fl d aid now)))
     = Some (a\<lparr>a_score := percentage fl (length (filter ans_is_correct (a_answers a))) (length (a_answers a)),
               a_subject_scores := subject_scores_of fl (db_questions d) (a_answers a),
               a_completed_at := Some now\<rparr>)"
proof -
  from fa have ida: "a_id a = aid" by (auto simp: find_Some_iff)
  show ?thesis using fa ida
    by (simp add: complete_assessment_def Let_def find_update_one split: option.splits)
qed

lemma tiers_db_run:
  "complete_assessment (\<lambda>x. x) tiers_db ''a1'' 7 =
     (Inr \<lparr>c_overall_score = 50, c_subject_scores = [(''quantitative'', 50)],
           c_skill_levels = [(''quantitative'', ''intermediate'')],
           c_total_questions = 2, c_correct_answers = 1\<rparr>,
      tiers_db\<lparr>db_assessments :=
          [example_assessment\<lparr>a_answers := a_answers (hd (db_assessments tiers_db)),
             a_score := 50, a_subject_scores := [(''quantitative'', 50)],
             a_completed_at := Some 7\<rparr>],
        db_users := [example_user\<lparr>u_skill_levels := [(''quantitative'', ''intermediate'')]\<rparr>]\<rparr>)"
  by (simp add: complete_assessment_def tiers_db_def example_assessment_def example_user_def
        example_question_def Let_def percentage_def subject_scores_of_def tally_answer_def
        skill_levels_of_def skill_level_of_def)

section \<open>Facts about the catalogs\<close>

text \<open>The fields of each catalog dict that the endpoints test or that the claims
  are about.\<close>

lemma SAMPLE_QUESTIONS_0_fields:
  "qd_subject SAMPLE_QUESTIONS_0 = ''quantitative''"
  "qd_difficulty SAMPLE_QUESTIONS_0 = ''beginner''"
  "qd_exam_type SAMPLE_QUESTIONS_0 = ''SSC''"
  "qd_correct_answer SAMPLE_QUESTIONS_0 = 1"
  "length (qd_options_en SAMPLE_QUESTIONS_0) = 4"
  "length (qd_options_hi SAMPLE_QUESTIONS_0) = 4"
  by (simp_all add: SAMPLE_QUESTIONS_0_def)

lemma SAMPLE_QUESTIONS_1_fields:
  "qd_subject SAMPLE_QUESTIONS_1 = ''quantitative''"
  "qd_difficulty SAMPLE_QUESTIONS_1 = ''beginner''"
  "qd_exam_type SAMPLE_QUESTIONS_1 = ''SSC''"
  "qd_correct_answer SAMPLE_QUESTIONS_1 = 1"
  "length (qd_options_en SAMPLE_QUESTIONS_1) = 4"
  "length (qd_options_hi SAMPLE_QUESTIONS_1) = 4"
  by (simp_all add: SAMPLE_QUESTIONS_1_def)

lemma SAMPLE_QUESTIONS_2_fields:
  "qd_subject SAMPLE_QUESTIONS_2 = ''quantitative''"
  "qd_difficulty SAMPLE_QUESTIONS_2 = ''intermediate''"
  "qd_exam_type SAMPLE_QUESTIONS_2 = ''SSC''"
  "qd_correct_answer SAMPLE_QUESTIONS_2 = 1"
  "length (qd_options_en SAMPLE_QUESTIONS_2) = 4"
  "length (qd_options_hi SAMPLE_QUESTIONS_2) = 4"
  by (simp_all add: SAMPLE_QUESTIONS_2_def)

lemma SAMPLE_QUESTIONS_3_fields:
  "qd_subject SAMPLE_QUESTIONS_3 = ''reasoning''"
  "qd_difficulty SAMPLE_QUESTIONS_3 = ''beginner''"
  "qd_exam_type SAMPLE_QUESTIONS_3 = ''SSC''"
  "qd_correct_answer SAMPLE_QUESTIONS_3 = 0"
  "length (qd_options_en SAMPLE_QUESTIONS_3) = 4"
  "length (qd_options_hi SAMPLE_QUESTIONS_3) = 4"
  by (simp_all add: SAMPLE_QUESTIONS_3_def)

lemma SAMPLE_QUESTIONS_4_fields:
  "qd_subject SAMPLE_QUESTIONS_4 = ''reasoning''"
  "qd_difficulty SAMPLE_QUESTIONS_4 = ''beginner''"
  "qd_exam_type SAMPLE_QUESTIONS_4 = ''Banking''"
  "qd_correct_answer SAMPLE_QUESTIONS_4 = 2"
  "length (qd_options_en SAMPLE_QUESTIONS_4) = 4"
  "length (qd_options_hi SAMPLE_QUESTIONS_4) = 4"
  by (simp_all add: SAMPLE_QUESTIONS_4_def)

lemma SAMPLE_QUESTIONS_5_fields:
  "qd_subject SAMPLE_QUESTIONS_5 = ''reasoning''"
  "qd_difficulty SAMPLE_QUESTIONS_5 = ''intermediate''"
  "qd_exam_type SAMPLE_QUESTIONS_5 = ''SSC''"
  "qd_correct_answer SAMPLE_QUESTIONS_5 = 0"
  "length (qd_options_en SAMPLE_QUESTIONS_5) = 4"
  "length (qd_options_hi SAMPLE_QUESTIONS_5) = 4"
  by (simp_all add: SAMPLE_QUESTIONS_5_def)

lemma SAMPLE_QUESTIONS_6_fields:
  "qd_subject SAMPLE_QUESTIONS_6 = ''english''"
  "qd_difficulty SAMPLE_QUESTIONS_6 = ''beginner''"
  "qd_exam_type SAMPLE_QUESTIONS_6 = ''Banking''"
  "qd_correct_answer SAMPLE_QUESTIONS_6 = 1"
  "length (qd_options_en SAMPLE_QUESTIONS_6) = 4"
  "length (qd_options_hi SAMPLE_QUESTIONS_6) = 4"
  by (simp_all add: SAMPLE_QUESTIONS_6_def)

lemma SAMPLE_QUESTIONS_7_fields:
  "qd_subject SAMPLE_QUESTIONS_7 = ''english''"
  "qd_difficulty SAMPLE_QUESTIONS_7 = ''beginner''"
  "qd_exam_type SAMPLE_QUESTIONS_7 = ''SSC''"
  "qd_correct_answer SAMPLE_QUESTIONS_7 = 1"
  "length (qd_options_en SAMPLE_QUESTIONS_7) = 4"
  "length (qd_options_hi SAMPLE_QUESTIONS_7) = 4"
  by (simp_all add: SAMPLE_QUESTIONS_7_def)

lemma SAMPLE_QUESTIONS_8_fields:
  "qd_subject SAMPLE_QUESTIONS_8 = ''english''"
  "qd_difficulty SAMPLE_QUESTIONS_8 = ''intermediate''"
  "qd_exam_type SAMPLE_QUESTIONS_8 = ''Banking''"
  "qd_correct_answer SAMPLE_QUESTIONS_8 = 0"
  "length (qd_options_en SAMPLE_QUESTIONS_8) = 4"
  "length (qd_options_hi SAMPLE_QUESTIONS_8) = 4"
  by (simp_all add: SAMPLE_QUESTIONS_8_def)

lemma SAMPLE_QUESTIONS_9_fields:
  "qd_subject SAMPLE_QUESTIONS_9 = ''general_knowledge''"
  "qd_difficulty SAMPLE_QUESTIONS_9 = ''beginner''"
  "qd_exam_type SAMPLE_QUESTIONS_9 = ''State PSC''"
  "qd_correct_answer SAMPLE_QUESTIONS_9 = 1"
  "length (qd_options_en SAMPLE_QUESTIONS_9) = 4"
  "length (qd_options_hi SAMPLE_QUESTIONS_9) = 4"
  by (simp_all add: SAMPLE_QUESTIONS_9_def)

lemma SAMPLE_QUESTIONS_10_fields:
  "qd_subject SAMPLE_QUESTIONS_10 = ''general_knowledge''"
  "qd_difficulty SAMPLE_QUESTIONS_10 = ''beginner''"
  "qd_exam_type SAMPLE_QUESTIONS_10 = ''SSC''"
  "qd_correct_answer SAMPLE_QUESTIONS_10 = 1"
  "length (qd_options_en SAMPLE_QUESTIONS_10) = 4"
  "length (qd_options_hi SAMPLE_QUESTIONS_10) = 4"
  by (simp_all add: SAMPLE_QUESTIONS_10_def)

lemma SAMPLE_QUESTIONS_11_fields:
  "qd_subject SAMPLE_QUESTIONS_11 = ''general_knowledge''"
  "qd_difficulty SAMPLE_QUESTIONS_11 = ''intermediate''"
  "qd_exam_type SAMPLE_QUESTIONS_11 = ''State PSC''"
  "qd_correct_answer SAMPLE_QUESTIONS_11 = 1"
  "length (qd_options_en SAMPLE_QUESTIONS_11) = 4"
  "length (qd_options_hi SAMPLE_QUESTIONS_11) = 4"
  by (simp_all add: SAMPLE_QUESTIONS_11_def)

lemmas SAMPLE_QUESTIONS_fields =
  SAMPLE_QUESTIONS_0_fields
  SAMPLE_QUESTIONS_1_fields
  SAMPLE_QUESTIONS_2_fields
  SAMPLE_QUESTIONS_3_fields
  SAMPLE_QUESTIONS_4_fields
  SAMPLE_QUESTIONS_5_fields
  SAMPLE_QUESTIONS_6_fields
  SAMPLE_QUESTIONS_7_fields
  SAMPLE_QUESTIONS_8_fields
  SAMPLE_QUESTIONS_9_fields
  SAMPLE_QUESTIONS_10_fields
  SAMPLE_QUESTIONS_11_fields

lemma MOCK_ADAPTIVE_QUESTIONS_0_fields:
  "qd_subject MOCK_ADAPTIVE_QUESTIONS_0 = ''quantitative''"
  "qd_difficulty MOCK_ADAPTIVE_QUESTIONS_0 = ''intermediate''"
  "qd_exam_type MOCK_ADAPTIVE_QUESTIONS_0 = ''SSC''"
  "qd_correct_answer MOCK_ADAPTIVE_QUESTIONS_0 = 1"
  "length (qd_options_en MOCK_ADAPTIVE_QUESTIONS_0) = 4"
  "length (qd_options_hi MOCK_ADAPTIVE_QUESTIONS_0) = 4"
  by (simp_all add: MOCK_ADAPTIVE_QUESTIONS_0_def)

lemma MOCK_ADAPTIVE_QUESTIONS_1_fields:
  "qd_subject MOCK_ADAPTIVE_QUESTIONS_1 = ''reasoning''"
  "qd_difficulty MOCK_ADAPTIVE_QUESTIONS_1 = ''intermediate''"
  "qd_exam_type MOCK_ADAPTIVE_QUESTIONS_1 = ''SSC''"
  "qd_correct_answer MOCK_ADAPTIVE_QUESTIONS_1 = 1"
  "length (qd_options_en MOCK_ADAPTIVE_QUESTIONS_1) = 4"
  "length (qd_options_hi MOCK_ADAPTIVE_QUESTIONS_1) = 4"
  by (simp_all add: MOCK_ADAPTIVE_QUESTIONS_1_def)

lemma MOCK_ADAPTIVE_QUESTIONS_2_fields:
  "qd_subject MOCK_ADAPTIVE_QUESTIONS_2 = ''english''"
  "qd_difficulty MOCK_ADAPTIVE_QUESTIONS_2 = ''intermediate''"
  "qd_exam_type MOCK_ADAPTIVE_QUESTIONS_2 = ''SSC''"
  "qd_correct_answer MOCK_ADAPTIVE_QUESTIONS_2 = 1"
  "length (qd_options_en MOCK_ADAPTIVE_QUESTIONS_2) = 4"
  "length (qd_options_hi MOCK_ADAPTIVE_QUESTIONS_2) = 4"
  by (simp_all add: MOCK_ADAPTIVE_QUESTIONS_2_def)

lemma MOCK_ADAPTIVE_QUESTIONS_3_fields:
  "qd_subject MOCK_ADAPTIVE_QUESTIONS_3 = ''general_knowledge''"
  "qd_difficulty MOCK_ADAPTIVE_QUESTIONS_3 = ''intermediate''"
  "qd_exam_type MOCK_ADAPTIVE_QUESTIONS_3 = ''SSC''"
  "qd_correct_answer MOCK_ADAPTIVE_QUESTIONS_3 = 2"
  "length (qd_options_en MOCK_ADAPTIVE_QUESTIONS_3) = 4"
  "length (qd_options_hi MOCK_ADAPTIVE_QUESTIONS_3) = 4"
  by (simp_all add: MOCK_ADAPTIVE_QUESTIONS_3_def)

lemma MOCK_ADAPTIVE_QUESTIONS_4_fields:
  "qd_subject MOCK_ADAPTIVE_QUESTIONS_4 = ''quantitative''"
  "qd_difficulty MOCK_ADAPTIVE_QUESTIONS_4 = ''advanced''"
  "qd_exam_type MOCK_ADAPTIVE_QUESTIONS_4 = ''SSC''"
  "qd_correct_answer MOCK_ADAPTIVE_QUESTIONS_4 = 2"
  "length (qd_options_en MOCK_ADAPTIVE_QUESTIONS_4) = 4"
  "length (qd_options_hi MOCK_ADAPTIVE_QUESTIONS_4) = 4"
  by (simp_all add: MOCK_ADAPTIVE_QUESTIONS_4_def)

lemma MOCK_ADAPTIVE_QUESTIONS_5_fields:
  "qd_subject MOCK_ADAPTIVE_QUESTIONS_5 = ''quantitative''"
  "qd_difficulty MOCK_ADAPTIVE_QUESTIONS_5 = ''intermediate''"
  "qd_exam_type MOCK_ADAPTIVE_QUESTIONS_5 = ''Banking''"
  "qd_correct_answer MOCK_ADAPTIVE_QUESTIONS_5 = 1"
  "length (qd_options_en MOCK_ADAPTIVE_QUESTIONS_5) = 4"
  "length (qd_options_hi MOCK_ADAPTIVE_QUESTIONS_5) = 4"
  by (simp_all add: MOCK_ADAPTIVE_QUESTIONS_5_def)

lemma MOCK_ADAPTIVE_QUESTIONS_6_fields:
  "qd_subject MOCK_ADAPTIVE_QUESTIONS_6 = ''reasoning''"
  "qd_difficulty MOCK_ADAPTIVE_QUESTIONS_6 = ''intermediate''"
  "qd_exam_type MOCK_ADAPTIVE_QUESTIONS_6 = ''Banking''"
  "qd_correct_answer MOCK_ADAPTIVE_QUESTIONS_6 = 1"
  "length (qd_options_en MOCK_ADAPTIVE_QUESTIONS_6) = 4"
  "length (qd_options_hi MOCK_ADAPTIVE_QUESTIONS_6) = 4"
  by (simp_all add: MOCK_ADAPTIVE_QUESTIONS_6_def)

lemma MOCK_ADAPTIVE_QUESTIONS_7_fields:
  "qd_subject MOCK_ADAPTIVE_QUESTIONS_7 = ''english''"
  "qd_difficulty MOCK_ADAPTIVE_QUESTIONS_7 = ''intermediate''"
  "qd_exam_type MOCK_ADAPTIVE_QUESTIONS_7 = ''Banking''"
  "qd_correct_answer MOCK_ADAPTIVE_QUESTIONS_7 = 0"
  "length (qd_options_en MOCK_ADAPTIVE_QUESTIONS_7) = 4"
  "length (qd_options_hi MOCK_ADAPTIVE_QUESTIONS_7) = 4"
  by (simp_all add: MOCK_ADAPTIVE_QUESTIONS_7_def)

lemma MOCK_ADAPTIVE_QUESTIONS_8_fields:
  "qd_subject MOCK_ADAPTIVE_QUESTIONS_8 = ''general_knowledge''"
  "qd_difficulty MOCK_ADAPTIVE_QUESTIONS_8 = ''intermediate''"
  "qd_exam_type MOCK_ADAPTIVE_QUESTIONS_8 = ''Banking''"
  "qd_correct_answer MOCK_ADAPTIVE_QUESTIONS_8 = 1"
  "length (qd_options_en MOCK_ADAPTIVE_QUESTIONS_8) = 4"
  "length (qd_options_hi MOCK_ADAPTIVE_QUESTIONS_8) = 4"
  by (simp_all add: MOCK_ADAPTIVE_QUESTIONS_8_def)

lemma MOCK_ADAPTIVE_QUESTIONS_9_fields:
  "qd_subject MOCK_ADAPTIVE_QUESTIONS_9 = ''quantitative''"
  "qd_difficulty MOCK_ADAPTIVE_QUESTIONS_9 = ''advanced''"
  "qd_exam_type MOCK_ADAPTIVE_QUESTIONS_9 = ''Banking''"
  "qd_correct_answer MOCK_ADAPTIVE_QUESTIONS_9 = 0"
  "length (qd_options_en MOCK_ADAPTIVE_QUESTIONS_9) = 4"
  "length (qd_options_hi MOCK_ADAPTIVE_QUESTIONS_9) = 4"
  by (simp_all add: MOCK_ADAPTIVE_QUESTIONS_9_def)

lemma MOCK_ADAPTIVE_QUESTIONS_10_fields:
  "qd_subject MOCK_ADAPTIVE_QUESTIONS_10 = ''quantitative''"
  "qd_difficulty MOCK_ADAPTIVE_QUESTIONS_10 = ''intermediate''"
  "qd_exam_type MOCK_ADAPTIVE_QUESTIONS_10 = ''State PSC''"
  "qd_correct_answer MOCK_ADAPTIVE_QUESTIONS_10 = 1"
  "length (qd_options_en MOCK_ADAPTIVE_QUESTIONS_10) = 4"
  "length (qd_options_hi MOCK_ADAPTIVE_QUESTIONS_10) = 4"
  by (simp_all add: MOCK_ADAPTIVE_QUESTIONS_10_def)

lemma MOCK_ADAPTIVE_QUESTIONS_11_fields:
  "qd_subject MOCK_ADAPTIVE_QUESTIONS_11 = ''reasoning''"
  "qd_difficulty MOCK_ADAPTIVE_QUESTIONS_11 = ''intermediate''"
  "qd_exam_type MOCK_ADAPTIVE_QUESTIONS_11 = ''State PSC''"
  "qd_correct_answer MOCK_ADAPTIVE_QUESTIONS_11 = 0"
  "length (qd_options_en MOCK_ADAPTIVE_QUESTIONS_11) = 4"
  "length (qd_options_hi MOCK_ADAPTIVE_QUESTIONS_11) = 4"
  by (simp_all add: MOCK_ADAPTIVE_QUESTIONS_11_def)

lemma MOCK_ADAPTIVE_QUESTIONS_12_fields:
  "qd_subject MOCK_ADAPTIVE_QUESTIONS_12 = ''english''"
  "qd_difficulty MOCK_ADAPTIVE_QUESTIONS_12 = ''intermediate''"
  "qd_exam_type MOCK_ADAPTIVE_QUESTIONS_12 = ''State PSC''"
  "qd_correct_answer MOCK_ADAPTIVE_QUESTIONS_12 = 2"
  "length (qd_options_en MOCK_ADAPTIVE_QUESTIONS_12) = 4"
  "length (qd_options_hi MOCK_ADAPTIVE_QUESTIONS_12) = 4"
  by (simp_all add: MOCK_ADAPTIVE_QUESTIONS_12_def)

lemma MOCK_ADAPTIVE_QUESTIONS_13_fields:
  "qd_subject MOCK_ADAPTIVE_QUESTIONS_13 = ''general_knowledge''"
  "qd_difficulty MOCK_ADAPTIVE_QUESTIONS_13 = ''intermediate''"
  "qd_exam_type MOCK_ADAPTIVE_QUESTIONS_13 = ''State PSC''"
  "qd_correct_answer MOCK_ADAPTIVE_QUESTIONS_13 = 0"
  "length (qd_options_en MOCK_ADAPTIVE_QUESTIONS_13) = 4"
  "length (qd_options_hi MOCK_ADAPTIVE_QUESTIONS_13) = 4"
  by (simp_all add: MOCK_ADAPTIVE_QUESTIONS_13_def)

lemma MOCK_ADAPTIVE_QUESTIONS_14_fields:
  "qd_subject MOCK_ADAPTIVE_QUESTIONS_14 = ''quantitative''"
  "qd_difficulty MOCK_ADAPTIVE_QUESTIONS_14 = ''advanced''"
  "qd_exam_type MOCK_ADAPTIVE_QUESTIONS_14 = ''State PSC''"
  "qd_correct_answer MOCK_ADAPTIVE_QUESTIONS_14 = 0"
  "length (qd_options_en MOCK_ADAPTIVE_QUESTIONS_14) = 4"
  "length (qd_options_hi MOCK_ADAPTIVE_QUESTIONS_14) = 4"
  by (simp_all add: MOCK_ADAPTIVE_QUESTIONS_14_def)

lemma MOCK_ADAPTIVE_QUESTIONS_15_fields:
  "qd_subject MOCK_ADAPTIVE_QUESTIONS_15 = ''quantitative''"
  "qd_difficulty MOCK_ADAPTIVE_QUESTIONS_15 = ''intermediate''"
  "qd_exam_type MOCK_ADAPTIVE_QUESTIONS_15 = ''Railway''"
  "qd_correct_answer MOCK_ADAPTIVE_QUESTIONS_15 = 0"
  "length (qd_options_en MOCK_ADAPTIVE_QUESTIONS_15) = 4"
  "length (qd_options_hi MOCK_ADAPTIVE_QUESTIONS_15) = 4"
  by (simp_all add: MOCK_ADAPTIVE_QUESTIONS_15_def)

lemma MOCK_ADAPTIVE_QUESTIONS_16_fields:
  "qd_subject MOCK_ADAPTIVE_QUESTIONS_16 = ''reasoning''"
  "qd_difficulty MOCK_ADAPTIVE_QUESTIONS_16 = ''intermediate''"
  "qd_exam_type MOCK_ADAPTIVE_QUESTIONS_16 = ''Railway''"
  "qd_correct_answer MOCK_ADAPTIVE_QUESTIONS_16 = 0"
  "length (qd_options_en MOCK_ADAPTIVE_QUESTIONS_16) = 4"
  "length (qd_options_hi MOCK_ADAPTIVE_QUESTIONS_16) = 4"
  by (simp_all add: MOCK_ADAPTIVE_QUESTIONS_16_def)

lemma MOCK_ADAPTIVE_QUESTIONS_17_fields:
  "qd_subject MOCK_ADAPTIVE_QUESTIONS_17 = ''english''"
  "qd_difficulty MOCK_ADAPTIVE_QUESTIONS_17 = ''intermediate''"
  "qd_exam_type MOCK_ADAPTIVE_QUESTIONS_17 = ''Railway''"
  "qd_correct_answer MOCK_ADAPTIVE_QUESTIONS_17 = 1"
  "length (qd_options_en MOCK_ADAPTIVE_QUESTIONS_17) = 4"
  "length (qd_options_hi MOCK_ADAPTIVE_QUESTIONS_17) = 4"
  by (simp_all add: MOCK_ADAPTIVE_QUESTIONS_17_def)

lemma MOCK_ADAPTIVE_QUESTIONS_18_fields:
  "qd_subject MOCK_ADAPTIVE_QUESTIONS_18 = ''general_knowledge''"
  "qd_difficulty MOCK_ADAPTIVE_QUESTIONS_18 = ''intermediate''"
  "qd_exam_type MOCK_ADAPTIVE_QUESTIONS_18 = ''Railway''"
  "qd_correct_answer MOCK_ADAPTIVE_QUESTIONS_18 = 0"
  "length (qd_options_en MOCK_ADAPTIVE_QUESTIONS_18) = 4"
  "length (qd_options_hi MOCK_ADAPTIVE_QUESTIONS_18) = 4"
  by (simp_all add: MOCK_ADAPTIVE_QUESTIONS_18_def)

lemma MOCK_ADAPTIVE_QUESTIONS_19_fields:
  "qd_subject MOCK_ADAPTIVE_QUESTIONS_19 = ''quantitative''"
  "qd_difficulty MOCK_ADAPTIVE_QUESTIONS_19 = ''advanced''"
  "qd_exam_type MOCK_ADAPTIVE_QUESTIONS_19 = ''Railway''"
  "qd_correct_answer MOCK_ADAPTIVE_QUESTIONS_19 = 0"
  "length (qd_options_en MOCK_ADAPTIVE_QUESTIONS_19) = 4"
  "length (qd_options_hi MOCK_ADAPTIVE_QUESTIONS_19) = 4"
  by (simp_all add: MOCK_ADAPTIVE_QUESTIONS_19_def)

lemmas MOCK_ADAPTIVE_QUESTIONS_fields =
  MOCK_ADAPTIVE_QUESTIONS_0_fields
  MOCK_ADAPTIVE_QUESTIONS_1_fields
  MOCK_ADAPTIVE_QUESTIONS_2_fields
  MOCK_ADAPTIVE_QUESTIONS_3_fields
  MOCK_ADAPTIVE_QUESTIONS_4_fields
  MOCK_ADAPTIVE_QUESTIONS_5_fields
  MOCK_ADAPTIVE_QUESTIONS_6_fields
  MOCK_ADAPTIVE_QUESTIONS_7_fields
  MOCK_ADAPTIVE_QUESTIONS_8_fields
  MOCK_ADAPTIVE_QUESTIONS_9_fields
  MOCK_ADAPTIVE_QUESTIONS_10_fields
  MOCK_ADAPTIVE_QUESTIONS_11_fields
  MOCK_ADAPTIVE_QUESTIONS_12_fields
  MOCK_ADAPTIVE_QUESTIONS_13_fields
  MOCK_ADAPTIVE_QUESTIONS_14_fields
  MOCK_ADAPTIVE_QUESTIONS_15_fields
  MOCK_ADAPTIVE_QUESTIONS_16_fields
  MOCK_ADAPTIVE_QUESTIONS_17_fields
  MOCK_ADAPTIVE_QUESTIONS_18_fields
  MOCK_ADAPTIVE_QUESTIONS_19_fields

section \<open>Facts about the diagnostic selection\<close>





lemma random_sample_Some:
  "k \<le> length xs \<Longrightarrow>
     \<exists>ys rs'. random_sample rs xs k = Some (ys, rs') \<and> length ys = k \<and> set ys \<subseteq> set xs
        \<and> (distinct xs \<longrightarrow> distinct ys)"
proof (induction k arbitrary: xs rs)
  case 0
  then show ?case by simp
next
  case (Suc k)
  obtain r rs1 where dr: "draw rs = (r, rs1)" by fastforce
  from Suc.prems have ne: "xs \<noteq> []" by auto
  define i where "i = r mod length xs"
  have i: "i < length xs" using ne by (simp add: i_def)
  define rest where "rest = take i xs @ drop (Suc i) xs"
  have len: "length rest = length xs - 1" using i by (simp add: rest_def)
  have sub: "set rest \<subseteq> set xs"
    using set_take_subset [of i xs] set_drop_subset [of "Suc i" xs] by (auto simp: rest_def)
  have xs: "xs = take i xs @ xs ! i # drop (Suc i) xs" using i by (rule id_take_nth_drop)
  have dist: "distinct xs \<Longrightarrow> distinct rest \<and> xs ! i \<notin> set rest"
  proof -
    assume "distinct xs"
    then have "distinct (take i xs @ xs ! i # drop (Suc i) xs)" using xs by simp
    then show ?thesis by (auto simp: rest_def)
  qed
  from Suc.prems len have "k \<le> length rest" by simp
  from Suc.IH [OF this, of rs1]
  obtain ys rs' where ys: "random_sample rs1 rest k = Some (ys, rs')" "length ys = k"
    "set ys \<subseteq> set rest" "distinct rest \<longrightarrow> distinct ys" by blast
  have "random_sample rs xs (Suc k) = Some (xs ! i # ys, rs')"
    using ne dr ys(1) by (simp add: i_def rest_def Let_def)
  moreover have "set (xs ! i # ys) \<subseteq> set xs" using ys(3) sub i by auto
  moreover have "distinct xs \<longrightarrow> distinct (xs ! i # ys)" using dist ys(3,4) by auto
  ultimately show ?case using ys(2) by simp
qed

lemma map_fst_objects: "map fst (objects catalog) = [0..<length catalog]"
  by (simp add: objects_def)

lemma map_snd_objects: "map snd (objects catalog) = catalog"
  by (simp add: objects_def)

lemma distinct_objects: "distinct (map fst (objects catalog))"
  by (simp add: map_fst_objects)

lemma objects_unique:
  "(i, q) \<in> set (objects catalog) \<Longrightarrow> (i, q') \<in> set (objects catalog) \<Longrightarrow> q = q'"
  by (rule eq_key_imp_eq_value [OF distinct_objects])

lemma snd_objects: "(i, q) \<in> set (objects catalog) \<Longrightarrow> q \<in> set catalog"
  by (auto simp: objects_def dest: set_zip_rightD)

lemma map_snd_filter:
  "map snd (filter (\<lambda>(i, q). P q) xs) = filter P (map snd xs)"
  by (induction xs) auto

lemma sample_subjects_Some:
  "\<exists>qs' used' rs'. sample_subjects catalog subjects qs used rs = Some (qs', used', rs')
      \<and> set qs' \<subseteq> set qs \<union> set (objects catalog)"
proof (induction subjects arbitrary: qs used rs)
  case Nil
  then show ?case by simp
next
  case (Cons subject subjects)
  define av where "av = filter (\<lambda>(i, q). i \<notin> used)
                          (filter (\<lambda>(i, q). qd_subject q = subject) (objects catalog))"
  have "min 3 (length av) \<le> length av" by simp
  from random_sample_Some [OF this, of rs]
  obtain sel rs1 where sel: "random_sample rs av (min 3 (length av)) = Some (sel, rs1)"
    "set sel \<subseteq> set av" by blast
  from Cons.IH [of "qs @ sel" "used \<union> fst ` set sel" rs1]
  obtain qs' used' rs' where r: "sample_subjects catalog subjects (qs @ sel) (used \<union> fst ` set sel) rs1
      = Some (qs', used', rs')" "set qs' \<subseteq> set (qs @ sel) \<union> set (objects catalog)" by blast
  have "set av \<subseteq> set (objects catalog)" by (auto simp: av_def)
  with sel(2) r(2) have "set qs' \<subseteq> set qs \<union> set (objects catalog)" by auto
  moreover have "sample_subjects catalog (subject # subjects) qs used rs = Some (qs', used', rs')"
    using sel(1) r(1) by (simp add: av_def Let_def)
  ultimately show ?case by blast
qed

lemma sample_subjects_length:
  assumes "distinct subjects"
      and "\<And>i q. (i, q) \<in> set (objects catalog) \<Longrightarrow> i \<in> used \<Longrightarrow> qd_subject q \<notin> set subjects"
  shows "\<exists>qs' used' rs'. sample_subjects catalog subjects qs used rs = Some (qs', used', rs')
      \<and> length qs' = length qs +
           sum_list (map (\<lambda>s. min 3 (length (filter (\<lambda>q. qd_subject q = s) catalog))) subjects)"
  using assms
proof (induction subjects arbitrary: qs used rs)
  case Nil
  show ?case by simp
next
  case (Cons subject subjects)
  define sq where "sq = filter (\<lambda>(i, q). qd_subject q = subject) (objects catalog)"
  define av where "av = filter (\<lambda>(i, q). i \<notin> used) sq"
  have sq_mem: "(i, q) \<in> set (objects catalog) \<and> qd_subject q = subject"
    if "(i, q) \<in> set sq" for i q
    using that by (simp add: sq_def)
  have "\<forall>x \<in> set sq. (case x of (i, q) \<Rightarrow> i \<notin> used)"
  proof
    fix x assume x: "x \<in> set sq"
    obtain i q where xe: "x = (i, q)" by (cases x)
    from x xe sq_mem have m: "(i, q) \<in> set (objects catalog)" "qd_subject q = subject" by simp_all
    have "i \<notin> used"
    proof
      assume "i \<in> used"
      from Cons.prems(2) [OF m(1) this] m(2) show False by simp
    qed
    then show "case x of (i, q) \<Rightarrow> i \<notin> used" by (simp add: xe)
  qed
  then have "av = sq" unfolding av_def by (rule filter_True)
  have "map snd sq = filter (\<lambda>q. qd_subject q = subject) catalog"
    unfolding sq_def by (simp add: map_snd_filter map_snd_objects)
  then have "length (map snd sq) = length (filter (\<lambda>q. qd_subject q = subject) catalog)"
    by (rule arg_cong)
  then have "length sq = length (filter (\<lambda>q. qd_subject q = subject) catalog)"
    by simp
  with \<open>av = sq\<close> have lav: "length av = length (filter (\<lambda>q. qd_subject q = subject) catalog)"
    by simp
  have "min 3 (length av) \<le> length av" by simp
  from random_sample_Some [OF this, of rs]
  obtain sel rs1 where sel: "random_sample rs av (min 3 (length av)) = Some (sel, rs1)"
    "length sel = min 3 (length av)" "set sel \<subseteq> set av" by blast
  have inv: "qd_subject q \<notin> set subjects"
    if iq: "(i, q) \<in> set (objects catalog)" and u: "i \<in> used \<union> fst ` set sel" for i q
  proof (cases "i \<in> used")
    case True
    from Cons.prems(2) [OF iq True] show ?thesis by simp
  next
    case False
    with u have "i \<in> fst ` set sel" by simp
    then obtain q' where q': "(i, q') \<in> set sel" by force
    with sel(3) \<open>av = sq\<close> have "(i, q') \<in> set sq" by blast
    from sq_mem [OF this] have m: "(i, q') \<in> set (objects catalog)" "qd_subject q' = subject"
      by simp_all
    from objects_unique [OF iq m(1)] m(2) have "qd_subject q = subject" by simp
    moreover from Cons.prems(1) have "subject \<notin> set subjects" by simp
    ultimately show ?thesis by simp
  qed
  from Cons.prems(1) have ds: "distinct subjects" by simp
  have "\<exists>qs' used' rs'.
          sample_subjects catalog subjects (qs @ sel) (used \<union> fst ` set sel) rs1
            = Some (qs', used', rs')
        \<and> length qs' = length (qs @ sel) +
            sum_list (map (\<lambda>s. min 3 (length (filter (\<lambda>q. qd_subject q = s) catalog))) subjects)"
    by (rule Cons.IH [OF ds], erule inv, assumption)
  then obtain qs' used' rs' where r:
    "sample_subjects catalog subjects (qs @ sel) (used \<union> fst ` set sel) rs1 = Some (qs', used', rs')"
    "length qs' = length (qs @ sel) +
       sum_list (map (\<lambda>s. min 3 (length (filter (\<lambda>q. qd_subject q = s) catalog))) subjects)"
    by blast
  have "sample_subjects catalog (subject # subjects) qs used rs = Some (qs', used', rs')"
    using sel(1) r(1) by (simp add: av_def sq_def Let_def)
  moreover have "length qs' = length qs +
      sum_list (map (\<lambda>s. min 3 (length (filter (\<lambda>q. qd_subject q = s) catalog))) (subject # subjects))"
    using r(2) sel(2) lav by simp
  ultimately show ?case by blast
qed

lemma fill_to_ten_done:
  "10 \<le> length qs \<Longrightarrow> fill_to_ten catalog qs used rs = Some (qs, used, rs)"
  by (subst fill_to_ten.simps) simp

lemma fill_to_ten_empty:
  "filter (\<lambda>(i, q). i \<notin> used) (objects catalog) = [] \<Longrightarrow>
     fill_to_ten catalog qs used rs = Some (qs, used, rs)"
  by (subst fill_to_ten.simps) (simp add: Let_def)

lemma fill_to_ten_step:
  "length qs < 10 \<Longrightarrow>
   random_choice rs (filter (\<lambda>(i, q). i \<notin> used) (objects catalog)) = Some (sel, rs1) \<Longrightarrow>
   fill_to_ten catalog qs used rs = fill_to_ten catalog (qs @ [sel]) (insert (fst sel) used) rs1"
  by (subst fill_to_ten.simps) (auto simp add: Let_def random_choice_def)

lemma fill_to_ten_Some:
  "\<exists>qs' used' rs'. fill_to_ten catalog qs used rs = Some (qs', used', rs')
      \<and> set qs' \<subseteq> set qs \<union> set (objects catalog)
      \<and> (10 \<le> length qs \<longrightarrow> qs' = qs)"
proof (induction catalog qs used rs rule: fill_to_ten.induct)
  case (1 catalog questions used_questions rs)
  define rem where "rem = filter (\<lambda>(i, q). i \<notin> used_questions) (objects catalog)"
  consider (enough) "10 \<le> length questions" | (exhausted) "length questions < 10" "rem = []"
    | (more) "length questions < 10" "rem \<noteq> []" by linarith
  then show ?case
  proof cases
    case enough
    then show ?thesis by (simp add: fill_to_ten_done)
  next
    case exhausted
    then show ?thesis by (simp add: fill_to_ten_empty rem_def)
  next
    case more
    from random_choice_Some [OF more(2), of rs]
    obtain sel rs1 where sel: "random_choice rs rem = Some (sel, rs1)" "sel \<in> set rem" by blast
    have in_cat: "sel \<in> set (objects catalog)" using sel(2) by (simp add: rem_def)
    have "\<exists>qs' used' rs'.
            fill_to_ten catalog (questions @ [sel]) (insert (fst sel) used_questions) rs1
              = Some (qs', used', rs')
          \<and> set qs' \<subseteq> set (questions @ [sel]) \<union> set (objects catalog)
          \<and> (10 \<le> length (questions @ [sel]) \<longrightarrow> qs' = questions @ [sel])"
      using more sel(1) by (intro "1.IH" [of rem "(sel, rs1)" sel rs1]) (simp_all add: rem_def)
    then obtain qs' used' rs' where r:
      "fill_to_ten catalog (questions @ [sel]) (insert (fst sel) used_questions) rs1
         = Some (qs', used', rs')"
      "set qs' \<subseteq> set (questions @ [sel]) \<union> set (objects catalog)" by blast
    have "fill_to_ten catalog questions used_questions rs = Some (qs', used', rs')"
      using fill_to_ten_step [OF more(1), of rs used_questions catalog sel rs1] sel(1) r(1)
      by (simp add: rem_def)
    moreover have "set qs' \<subseteq> set questions \<union> set (objects catalog)"
      using r(2) in_cat by auto
    ultimately show ?thesis using more(1) by auto
  qed
qed

lemma random_shuffle_Some:
  "\<exists>ys rs'. random_shuffle rs xs = Some (ys, rs') \<and> length ys = length xs \<and> set ys \<subseteq> set xs
      \<and> (distinct xs \<longrightarrow> distinct ys)"
  unfolding random_shuffle_def by (rule random_sample_Some) simp

lemma diagnostic_questions_Some:
  "\<exists>qs rs'. diagnostic_questions catalog rs = Some (qs, rs')
      \<and> set qs \<subseteq> set (objects catalog)"
proof -
  let ?subjects = "[''quantitative'', ''reasoning'', ''english'', ''general_knowledge'']"
  from sample_subjects_Some [of catalog ?subjects "[]" "{}" rs]
  obtain qs1 used1 rs1 where s1: "sample_subjects catalog ?subjects [] {} rs = Some (qs1, used1, rs1)"
    "set qs1 \<subseteq> set (objects catalog)" by auto
  from fill_to_ten_Some [of catalog qs1 used1 rs1]
  obtain qs2 used2 rs2 where s2: "fill_to_ten catalog qs1 used1 rs1 = Some (qs2, used2, rs2)"
    "set qs2 \<subseteq> set qs1 \<union> set (objects catalog)" by blast
  from random_shuffle_Some [of rs2 qs2]
  obtain qs3 rs3 where s3: "random_shuffle rs2 qs2 = Some (qs3, rs3)" "set qs3 \<subseteq> set qs2" by blast
  have "diagnostic_questions catalog rs = Some (qs3, rs3)"
    using s1(1) s2(1) s3(1) by (simp add: diagnostic_questions_def)
  moreover have "set qs3 \<subseteq> set (objects catalog)" using s1(2) s2(2) s3(2) by blast
  ultimately show ?thesis by blast
qed

lemma SAMPLE_QUESTIONS_per_subject:
  "length (filter (\<lambda>q. qd_subject q = ''quantitative'') SAMPLE_QUESTIONS) = 3"
  "length (filter (\<lambda>q. qd_subject q = ''reasoning'') SAMPLE_QUESTIONS) = 3"
  "length (filter (\<lambda>q. qd_subject q = ''english'') SAMPLE_QUESTIONS) = 3"
  "length (filter (\<lambda>q. qd_subject q = ''general_knowledge'') SAMPLE_QUESTIONS) = 3"
  by (simp_all add: SAMPLE_QUESTIONS_def SAMPLE_QUESTIONS_fields)

lemma diagnostic_questions_SAMPLE:
  "\<exists>qs rs'. diagnostic_questions SAMPLE_QUESTIONS rs = Some (qs, rs')
      \<and> length qs = 12 \<and> set qs \<subseteq> set (objects SAMPLE_QUESTIONS)"
proof -
  let ?subjects = "[''quantitative'', ''reasoning'', ''english'', ''general_knowledge'']"
  have "\<exists>qs' used' rs'.
          sample_subjects SAMPLE_QUESTIONS ?subjects [] {} rs = Some (qs', used', rs')
        \<and> length qs' = length ([] :: (nat \<times> question_dict) list) +
            sum_list (map (\<lambda>s. min 3 (length (filter (\<lambda>q. qd_subject q = s) SAMPLE_QUESTIONS)))
              ?subjects)"
    by (rule sample_subjects_length) simp_all
  then obtain qs1 used1 rs1 where s1:
    "sample_subjects SAMPLE_QUESTIONS ?subjects [] {} rs = Some (qs1, used1, rs1)"
    "length qs1 = 12"
    by (auto simp: SAMPLE_QUESTIONS_per_subject)
  from sample_subjects_Some [of SAMPLE_QUESTIONS ?subjects "[]" "{}" rs] s1(1)
  have sub1: "set qs1 \<subseteq> set (objects SAMPLE_QUESTIONS)" by auto
  have s2: "fill_to_ten SAMPLE_QUESTIONS qs1 used1 rs1 = Some (qs1, used1, rs1)"
    using s1(2) by (simp add: fill_to_ten_done)
  from random_shuffle_Some [of rs1 qs1]
  obtain qs3 rs3 where s3: "random_shuffle rs1 qs1 = Some (qs3, rs3)" "length qs3 = length qs1"
    "set qs3 \<subseteq> set qs1" by blast
  have "diagnostic_questions SAMPLE_QUESTIONS rs = Some (qs3, rs3)"
    using s1(1) s2 s3(1) by (simp add: diagnostic_questions_def)
  with s3(2,3) s1(2) sub1 show ?thesis by auto
qed

section \<open>Facts about the construction of questions\<close>

lemma SubjectType_of_values:
  "SubjectType_of ''quantitative'' = Some QUANTITATIVE"
  "SubjectType_of ''reasoning'' = Some REASONING"
  "SubjectType_of ''english'' = Some ENGLISH"
  "SubjectType_of ''general_knowledge'' = Some GENERAL_KNOWLEDGE"
  "SubjectType_of ''current_affairs'' = Some CURRENT_AFFAIRS"
  by (simp_all add: SubjectType_of_def)

lemma DifficultyLevel_of_values:
  "DifficultyLevel_of ''beginner'' = Some BEGINNER"
  "DifficultyLevel_of ''intermediate'' = Some INTERMEDIATE"
  "DifficultyLevel_of ''advanced'' = Some ADVANCED"
  by (simp_all add: DifficultyLevel_of_def)

lemma SAMPLE_QUESTIONS_ok:
  "\<forall>q \<in> set SAMPLE_QUESTIONS. well_typed_dict q \<and> valid_payload q"
  by (simp add: SAMPLE_QUESTIONS_def well_typed_dict_def valid_payload_def
        SAMPLE_QUESTIONS_fields SubjectType_of_values DifficultyLevel_of_values)

lemma MOCK_ADAPTIVE_QUESTIONS_ok:
  "\<forall>q \<in> set MOCK_ADAPTIVE_QUESTIONS. well_typed_dict q \<and> valid_payload q"
  by (simp add: MOCK_ADAPTIVE_QUESTIONS_def well_typed_dict_def valid_payload_def
        MOCK_ADAPTIVE_QUESTIONS_fields SubjectType_of_values DifficultyLevel_of_values)

lemma Question_of_dict_fields:
  "Question_of_dict i q = Some x \<Longrightarrow>
     q_id x = i \<and> q_exam_type x = qd_exam_type q
   \<and> q_correct_answer x = qd_correct_answer q
   \<and> q_options_en x = qd_options_en q \<and> q_options_hi x = qd_options_hi q
   \<and> q_question_text_en x = qd_question_text_en q"
  by (auto simp: Question_of_dict_def split: option.splits)

lemma Question_of_dict_Some:
  "well_typed_dict q \<Longrightarrow> \<exists>x. Question_of_dict i q = Some x"
  by (auto simp: Question_of_dict_def well_typed_dict_def split: option.splits)

lemma Question_of_dict_valid:
  "Question_of_dict i q = Some x \<Longrightarrow> valid_payload q \<Longrightarrow> valid_question x"
  by (drule Question_of_dict_fields) (simp add: valid_payload_def valid_question_def)

lemma question_objects_of_Some:
  "length rows \<le> length ids \<Longrightarrow> \<forall>q \<in> set rows. well_typed_dict q \<Longrightarrow>
     \<exists>qs. question_objects_of ids rows = Some qs \<and> length qs = length rows
       \<and> (\<forall>x \<in> set qs. \<exists>i q. q \<in> set rows \<and> Question_of_dict i q = Some x)"
proof (induction rows arbitrary: ids)
  case Nil
  then show ?case by simp
next
  case (Cons q rows)
  from Cons.prems(1) obtain i ids' where ids: "ids = i # ids'" by (cases ids) auto
  from Cons.prems(2) have "well_typed_dict q" by simp
  from Question_of_dict_Some [OF this, of i]
  obtain x where x: "Question_of_dict i q = Some x" by blast
  from Cons.prems ids have "length rows \<le> length ids'" "\<forall>q \<in> set rows. well_typed_dict q"
    by simp_all
  from Cons.IH [OF this]
  obtain qs where qs: "question_objects_of ids' rows = Some qs" "length qs = length rows"
    "\<forall>x \<in> set qs. \<exists>i q. q \<in> set rows \<and> Question_of_dict i q = Some x" by blast
  have "question_objects_of ids (q # rows) = Some (x # qs)"
    using ids x qs(1) by simp
  moreover have "\<forall>y \<in> set (x # qs). \<exists>i q'. q' \<in> set (q # rows) \<and> Question_of_dict i q' = Some y"
    using x qs(3) by (metis list.set_intros(1) list.set_intros(2) set_ConsD)
  ultimately show ?case using qs(2) by simp
qed

lemma start_diagnostic_test_run:
  "\<exists>r d' objs a.
      start_diagnostic_test d user_id rs uuids now = (Inr r, d')
    \<and> length objs = 12 \<and> (\<forall>x \<in> set objs. valid_question x)
    \<and> dr_questions r = map summary objs \<and> dr_total_questions r = 12
    \<and> db_questions d' = db_questions d @ objs
    \<and> db_assessments d' = db_assessments d @ [a] \<and> length (a_questions a) = 12
    \<and> a_id a = dr_assessment_id r"
proof -
  from diagnostic_questions_SAMPLE [of rs]
  obtain qs rs' where qs: "diagnostic_questions SAMPLE_QUESTIONS rs = Some (qs, rs')"
    "length qs = 12" "set qs \<subseteq> set (objects SAMPLE_QUESTIONS)" by blast
  have rows: "set (map snd qs) \<subseteq> set SAMPLE_QUESTIONS"
    using qs(3) snd_objects by fastforce
  with SAMPLE_QUESTIONS_ok have wt: "\<forall>q \<in> set (map snd qs). well_typed_dict q" by blast
  have "length (map snd qs) \<le> length (map uuids [0..<length qs])" by simp
  from question_objects_of_Some [OF this wt]
  obtain objs where objs: "question_objects_of (map uuids [0..<length qs]) (map snd qs) = Some objs"
    "length objs = length (map snd qs)"
    "\<forall>x \<in> set objs. \<exists>i q. q \<in> set (map snd qs) \<and> Question_of_dict i q = Some x" by blast
  have valid: "\<forall>x \<in> set objs. valid_question x"
  proof
    fix x assume "x \<in> set objs"
    with objs(3) obtain i q where q: "q \<in> set (map snd qs)" "Question_of_dict i q = Some x"
      by blast
    from q(1) rows SAMPLE_QUESTIONS_ok have "valid_payload q" by blast
    with q(2) show "valid_question x" by (rule Question_of_dict_valid)
  qed
  show ?thesis
    using qs(1,2) objs(1,2) valid by (simp add: start_diagnostic_test_def Let_def)
qed

section \<open>Facts about the adaptive practice\<close>

lemma weakest_subjects_of_nonempty: "weakest_subjects_of sl \<noteq> []"
  by (simp add: weakest_subjects_of_def Let_def)

lemma weakest_subjects_of_valid:
  assumes "levels_valid sl" and "s \<in> set (weakest_subjects_of sl)"
  shows "SubjectType_of s \<noteq> None"
proof -
  define ws where "ws = concat (map (\<lambda>(subject, level).
                      if level = ''beginner'' then replicate 3 subject
                      else if level = ''intermediate'' then replicate 2 subject
                      else [subject]) sl)"
  have w: "weakest_subjects_of sl =
             (if ws = [] then [''quantitative'', ''reasoning'', ''english'', ''general_knowledge'']
              else ws)"
    unfolding weakest_subjects_of_def ws_def Let_def by (rule refl)
  have keys: "set ws \<subseteq> fst ` set sl"
  proof
    fix x assume "x \<in> set ws"
    then obtain e where e: "e \<in> set sl"
      "x \<in> set (case e of (subject, level) \<Rightarrow>
                      if level = ''beginner'' then replicate 3 subject
                      else if level = ''intermediate'' then replicate 2 subject
                      else [subject])" unfolding ws_def by auto
    obtain subject level where el: "e = (subject, level)" by (cases e)
    from e(2) have "x = subject" by (simp add: el split: if_splits)
    with e(1) el show "x \<in> fst ` set sl" by force
  qed
  show ?thesis
  proof (cases "ws = []")
    case True
    with assms(2) w
    have "s \<in> set [''quantitative'', ''reasoning'', ''english'', ''general_knowledge'']"
      by simp
    then show ?thesis by (auto simp: SubjectType_of_values)
  next
    case False
    with assms(2) w have "s \<in> set ws" by simp
    with keys obtain l where "(s, l) \<in> set sl" by fastforce
    with assms(1) show ?thesis by (auto simp: levels_valid_def)
  qed
qed

lemma difficulty_valid:
  assumes "levels_valid sl"
  shows "DifficultyLevel_of (case map_of sl s of None \<Rightarrow> ''beginner'' | Some level \<Rightarrow> level) \<noteq> None"
proof (cases "map_of sl s")
  case None
  then show ?thesis by (simp add: DifficultyLevel_of_values)
next
  case (Some l)
  then have "(s, l) \<in> set sl" by (rule map_of_SomeD)
  with assms Some show ?thesis by (auto simp: levels_valid_def)
qed

lemma SAMPLE_QUESTIONS_nonempty: "SAMPLE_QUESTIONS \<noteq> []"
  by (simp add: SAMPLE_QUESTIONS_def)

lemma MOCK_ADAPTIVE_QUESTIONS_nonempty: "MOCK_ADAPTIVE_QUESTIONS \<noteq> []"
  by (simp add: MOCK_ADAPTIVE_QUESTIONS_def)

lemma generate_adaptive_question_cases:
  "(\<exists>p. payload_of response = Some p
        \<and> generate_adaptive_question subject difficulty response rs = (Dict p, rs))
   \<or> (response = Malformed
        \<and> generate_adaptive_question subject difficulty response rs = (Other, rs))
   \<or> (response = NotJson
        \<and> (\<exists>m \<in> set SAMPLE_QUESTIONS. \<exists>rs'.
              generate_adaptive_question subject difficulty response rs
                = (Dict (question_payload.truncate m), rs')))"
proof (cases response)
  case NotJson
  let ?matching = "filter (\<lambda>q. qd_subject q = subject \<and> qd_difficulty q = difficulty)
                     SAMPLE_QUESTIONS"
  show ?thesis
  proof (cases "random_choice rs ?matching")
    case None
    have "SAMPLE_QUESTIONS ! 0 \<in> set SAMPLE_QUESTIONS"
      using SAMPLE_QUESTIONS_nonempty by (intro nth_mem) simp
    with None NotJson show ?thesis by (auto simp: generate_adaptive_question_def)
  next
    case (Some a)
    obtain q rs' where a: "a = (q, rs')" by (cases a)
    have "?matching \<noteq> []" using Some random_choice_None [of rs ?matching] by auto
    from random_choice_Some [OF this, of rs] Some a have "q \<in> set ?matching" by auto
    then have "q \<in> set SAMPLE_QUESTIONS" by simp
    with Some a NotJson show ?thesis by (auto simp: generate_adaptive_question_def)
  qed
qed (simp_all add: generate_adaptive_question_def payload_of_def)

lemma question_kwargs_fields:
  "qd_subject (question_kwargs p s l e) = s"
  "qd_difficulty (question_kwargs p s l e) = l"
  "qd_exam_type (question_kwargs p s l e) = e"
  "qd_correct_answer (question_kwargs p s l e) = qd_correct_answer p"
  "qd_options_en (question_kwargs p s l e) = qd_options_en p"
  "qd_options_hi (question_kwargs p s l e) = qd_options_hi p"
  "qd_question_text_en (question_kwargs p s l e) = qd_question_text_en p"
  by (simp_all add: question_kwargs_def)

lemma truncate_fields:
  "qd_correct_answer (question_payload.truncate m) = qd_correct_answer m"
  "qd_options_en (question_payload.truncate m) = qd_options_en m"
  "qd_options_hi (question_payload.truncate m) = qd_options_hi m"
  "qd_question_text_en (question_payload.truncate m) = qd_question_text_en m"
  by (simp_all add: question_payload.truncate_def)

lemma mock_fallback_Inr:
  "\<exists>m x used' rs'.
      m \<in> set MOCK_ADAPTIVE_QUESTIONS \<and> Question_of_dict new_id m = Some x
    \<and> mock_fallback new_id (qs, used, rs, d)
        = Inr (qs @ [x], used', rs', d\<lparr>db_questions := db_questions d @ [x]\<rparr>)"
proof -
  define unused where
    "unused = filter (\<lambda>q. qd_question_text_en q \<notin> used) MOCK_ADAPTIVE_QUESTIONS"
  define avail where "avail = (if unused = [] then MOCK_ADAPTIVE_QUESTIONS else unused)"
  define used' where "used' = (if unused = [] then {} else used)"
  have ne: "avail \<noteq> []" using MOCK_ADAPTIVE_QUESTIONS_nonempty by (simp add: avail_def)
  have sub: "set avail \<subseteq> set MOCK_ADAPTIVE_QUESTIONS" by (auto simp: avail_def unused_def)
  from random_choice_Some [OF ne, of rs]
  obtain m rs' where m: "random_choice rs avail = Some (m, rs')" "m \<in> set avail" by blast
  from m(2) sub have mm: "m \<in> set MOCK_ADAPTIVE_QUESTIONS" by blast
  with MOCK_ADAPTIVE_QUESTIONS_ok have "well_typed_dict m" by blast
  from Question_of_dict_Some [OF this, of new_id]
  obtain x where x: "Question_of_dict new_id m = Some x" by blast
  have "mock_fallback new_id (qs, used, rs, d)
        = Inr (qs @ [x], insert (qd_question_text_en m) used', rs',
               d\<lparr>db_questions := db_questions d @ [x]\<rparr>)"
    using m(1) x unfolding mock_fallback_def avail_def used'_def unused_def
    by (simp add: Let_def split: if_splits)
  with mm x show ?thesis by blast
qed

lemma Question_of_dict_copies: "Question_of_dict i q = Some x \<Longrightarrow> copies x q"
  by (drule Question_of_dict_fields) (simp add: copies_def)

lemma copies_question_kwargs: "copies x (question_kwargs p s l e) \<Longrightarrow> copies x p"
  by (simp add: copies_def question_kwargs_fields)

lemma copies_truncate: "copies x (question_payload.truncate m) \<Longrightarrow> copies x m"
  by (simp add: copies_def truncate_fields)

lemma copies_valid: "copies x p \<Longrightarrow> valid_question x \<longleftrightarrow> valid_payload p"
  by (simp add: copies_def valid_question_def valid_payload_def)

lemma valid_payload_bson_int: "valid_payload p \<Longrightarrow> bson_int (qd_correct_answer p)"
  by (simp add: valid_payload_def bson_int_def)

lemma practice_step_result:
  "\<exists>new stored used' rs'.
      practice_step user response new_id mock_id (qs, used, rs, d)
        = Inr (qs @ new, used', rs', d\<lparr>db_questions := db_questions d @ stored\<rparr>)
    \<and> new \<noteq> [] \<and> set stored \<subseteq> set new
    \<and> (\<forall>x \<in> set new. question_origin_ok response x)
    \<and> (\<not> store_refuses response \<longrightarrow>
          (\<exists>x. new = [x] \<and> stored = [x] \<and> practice_question_ok user response x))"
proof -
  let ?sl = "u_skill_levels user"
  from random_choice_Some [OF weakest_subjects_of_nonempty [of ?sl], of rs]
  obtain subj rs1 where c: "random_choice rs (weakest_subjects_of ?sl) = Some (subj, rs1)"
    "subj \<in> set (weakest_subjects_of ?sl)" by blast
  let ?diff = "case map_of ?sl subj of None \<Rightarrow> ''beginner'' | Some level \<Rightarrow> level"
  obtain qd rs2 where g: "generate_adaptive_question subj ?diff response rs1 = (qd, rs2)"
    by fastforce
  let ?built = "case qd of Other \<Rightarrow> None
                | Dict p \<Rightarrow> Question_of_dict new_id
                             (question_kwargs p subj ?diff (u_target_exam user))"
  have wt: "well_typed_dict (question_kwargs p subj ?diff (u_target_exam user))"
    if "levels_valid ?sl" for p
    using weakest_subjects_of_valid [OF that c(2)] difficulty_valid [OF that, of subj]
    by (simp add: well_typed_dict_def question_kwargs_fields)
  from generate_adaptive_question_cases [of response subj ?diff rs1] g
  consider (payload) p where "payload_of response = Some p" "qd = Dict p"
    | (malformed) "response = Malformed" "qd = Other"
    | (fallback) m where "response = NotJson" "m \<in> set SAMPLE_QUESTIONS"
        "qd = Dict (question_payload.truncate m)"
    by auto
  note origin = this
  have mock: "\<exists>y used' rs'.
      mock_fallback mock_id (qs', used, rs2, d)
        = Inr (qs' @ [y], used', rs', d\<lparr>db_questions := db_questions d @ [y]\<rparr>)
    \<and> question_origin_ok response y
    \<and> (\<exists>m \<in> set MOCK_ADAPTIVE_QUESTIONS.
          q_exam_type y = qd_exam_type m \<and> q_question_text_en y = qd_question_text_en m)"
    for qs'
  proof -
    from mock_fallback_Inr [of mock_id qs' used rs2 d]
    obtain m y used' rs' where m: "m \<in> set MOCK_ADAPTIVE_QUESTIONS"
      "Question_of_dict mock_id m = Some y"
      "mock_fallback mock_id (qs', used, rs2, d)
         = Inr (qs' @ [y], used', rs', d\<lparr>db_questions := db_questions d @ [y]\<rparr>)" by blast
    from m(1) MOCK_ADAPTIVE_QUESTIONS_ok have "valid_payload m" by blast
    with m(2) have v: "valid_question y" by (rule Question_of_dict_valid)
    from m(2) have cp: "copies y m" by (rule Question_of_dict_copies)
    from m(1) cp v have "question_origin_ok response y"
      unfolding question_origin_ok_def by blast
    moreover from Question_of_dict_fields [OF m(2)] m(1)
    have "\<exists>m \<in> set MOCK_ADAPTIVE_QUESTIONS.
            q_exam_type y = qd_exam_type m \<and> q_question_text_en y = qd_question_text_en m"
      by blast
    ultimately show ?thesis using m(3) by blast
  qed
  show ?thesis
  proof (cases ?built)
    case None
    from mock [of qs]
    obtain y used' rs' where y:
      "mock_fallback mock_id (qs, used, rs2, d)
         = Inr (qs @ [y], used', rs', d\<lparr>db_questions := db_questions d @ [y]\<rparr>)"
      "question_origin_ok response y"
      "\<exists>m \<in> set MOCK_ADAPTIVE_QUESTIONS.
          q_exam_type y = qd_exam_type m \<and> q_question_text_en y = qd_question_text_en m"
      by blast
    have run: "practice_step user response new_id mock_id (qs, used, rs, d)
        = Inr (qs @ [y], used', rs', d\<lparr>db_questions := db_questions d @ [y]\<rparr>)"
      using c(1) g None y(1) by (simp add: practice_step_def Let_def)
    have unusable: "response = Malformed" if "levels_valid ?sl"
      using origin
    proof cases
      case (payload p)
      from Question_of_dict_Some [OF wt [OF that], of new_id p] None payload(2)
      show ?thesis by simp
    next
      case malformed
      then show ?thesis by simp
    next
      case (fallback m')
      from Question_of_dict_Some [OF wt [OF that], of new_id "question_payload.truncate m'"]
        None fallback(3)
      show ?thesis by simp
    qed
    have ok: "practice_question_ok user response y"
      unfolding practice_question_ok_def using unusable y(3) by blast
    have "[y] \<noteq> [] \<and> set [y] \<subseteq> set [y] \<and> (\<forall>x \<in> set [y]. question_origin_ok response x)
        \<and> (\<not> store_refuses response \<longrightarrow>
              (\<exists>x. [y] = [x] \<and> [y] = [x] \<and> practice_question_ok user response x))"
      using y(2) ok by simp
    with run show ?thesis by blast
  next
    case (Some x)
    have src: "(\<exists>p. payload_of response = Some p \<and> copies x p
                   \<and> Question_of_dict new_id (question_kwargs p subj ?diff (u_target_exam user))
                       = Some x)
             \<or> (response = NotJson \<and> (\<exists>m \<in> set SAMPLE_QUESTIONS. copies x m
                   \<and> Question_of_dict new_id
                        (question_kwargs (question_payload.truncate m) subj ?diff
                           (u_target_exam user)) = Some x))"
      using origin
    proof cases
      case (payload p)
      with Some have q: "Question_of_dict new_id
          (question_kwargs p subj ?diff (u_target_exam user)) = Some x" by simp
      from Question_of_dict_copies [OF q] have "copies x p" by (rule copies_question_kwargs)
      with payload(1) q show ?thesis by blast
    next
      case malformed
      with Some show ?thesis by simp
    next
      case (fallback m)
      with Some have q: "Question_of_dict new_id
          (question_kwargs (question_payload.truncate m) subj ?diff (u_target_exam user))
            = Some x" by simp
      from Question_of_dict_copies [OF q] have "copies x (question_payload.truncate m)"
        by (rule copies_question_kwargs)
      then have "copies x m" by (rule copies_truncate)
      with fallback(1,2) q show ?thesis by blast
    qed
    have tag: "q_exam_type x = u_target_exam user"
      using src Question_of_dict_fields [of new_id _ x]
      by (auto simp: question_kwargs_fields)
    have not_mal: "response \<noteq> Malformed"
      using src by (auto simp: payload_of_def)
    have ox: "question_origin_ok response x"
    proof -
      from src consider (p) p where "payload_of response = Some p" "copies x p"
        | (m) m where "m \<in> set SAMPLE_QUESTIONS" "copies x m" by blast
      then show ?thesis
      proof cases
        case p
        then show ?thesis unfolding question_origin_ok_def by blast
      next
        case m
        from m(1) SAMPLE_QUESTIONS_ok have "valid_payload m" by blast
        with copies_valid [OF m(2)] have "valid_question x" by simp
        with m show ?thesis unfolding question_origin_ok_def by blast
      qed
    qed
    have okx: "practice_question_ok user response x"
      unfolding practice_question_ok_def using tag not_mal src
      by (auto simp: copies_def payload_of_def)
    show ?thesis
    proof (cases "insert_accepts response x")
      case True
      have run: "practice_step user response new_id mock_id (qs, used, rs, d)
          = Inr (qs @ [x], used, rs2, d\<lparr>db_questions := db_questions d @ [x]\<rparr>)"
        using c(1) g Some True by (simp add: practice_step_def Let_def)
      have "[x] \<noteq> [] \<and> set [x] \<subseteq> set [x] \<and> (\<forall>y \<in> set [x]. question_origin_ok response y)
          \<and> (\<not> store_refuses response \<longrightarrow>
                (\<exists>y. [x] = [y] \<and> [x] = [y] \<and> practice_question_ok user response y))"
        using ox okx by simp
      with run show ?thesis by blast
    next
      case False
      from mock [of "qs @ [x]"]
      obtain y used' rs' where y:
        "mock_fallback mock_id (qs @ [x], used, rs2, d)
           = Inr ((qs @ [x]) @ [y], used', rs', d\<lparr>db_questions := db_questions d @ [y]\<rparr>)"
        "question_origin_ok response y" by blast
      have run: "practice_step user response new_id mock_id (qs, used, rs, d)
          = Inr (qs @ [x, y], used', rs', d\<lparr>db_questions := db_questions d @ [y]\<rparr>)"
        using c(1) g Some False y(1) by (simp add: practice_step_def Let_def)
      have refuses: "store_refuses response"
        using src
      proof
        assume "\<exists>p. payload_of response = Some p \<and> copies x p
                   \<and> Question_of_dict new_id (question_kwargs p subj ?diff (u_target_exam user))
                       = Some x"
        then obtain p where p: "payload_of response = Some p" "copies x p" by blast
        from p(2) have "q_correct_answer x = qd_correct_answer p" by (simp add: copies_def)
        with False p(1) show ?thesis
          by (cases response) (simp_all add: insert_accepts_def store_refuses_def payload_of_def)
      next
        assume "response = NotJson \<and> (\<exists>m \<in> set SAMPLE_QUESTIONS. copies x m
                   \<and> Question_of_dict new_id
                        (question_kwargs (question_payload.truncate m) subj ?diff
                           (u_target_exam user)) = Some x)"
        then obtain m where m: "response = NotJson" "m \<in> set SAMPLE_QUESTIONS" "copies x m"
          by blast
        from m(2) SAMPLE_QUESTIONS_ok have "valid_payload m" by blast
        then have "bson_int (qd_correct_answer m)" by (rule valid_payload_bson_int)
        with m(3) have "bson_int (q_correct_answer x)" by (simp add: copies_def)
        with False m(1) show ?thesis by (simp add: insert_accepts_def)
      qed
      have "[x, y] \<noteq> [] \<and> set [y] \<subseteq> set [x, y]
          \<and> (\<forall>z \<in> set [x, y]. question_origin_ok response z)
          \<and> (\<not> store_refuses response \<longrightarrow>
                (\<exists>z. [x, y] = [z] \<and> [y] = [z] \<and> practice_question_ok user response z))"
        using ox y(2) refuses by simp
      with run show ?thesis by blast
    qed
  qed
qed

lemma practice_loop_result:
  "\<exists>xs stored used' rs'.
      practice_loop user responses uuids idxs (qs, used, rs, d)
        = (None, (qs @ xs, used', rs', d\<lparr>db_questions := db_questions d @ stored\<rparr>))
    \<and> length idxs \<le> length xs \<and> set stored \<subseteq> set xs
    \<and> (\<forall>x \<in> set xs. \<exists>i \<in> set idxs. question_origin_ok (responses i) x)
    \<and> ((\<forall>i \<in> set idxs. \<not> store_refuses (responses i)) \<longrightarrow>
          length xs = length idxs \<and> stored = xs
        \<and> (\<forall>j < length idxs. practice_question_ok user (responses (idxs ! j)) (xs ! j)))"
proof (induction idxs arbitrary: qs used rs d)
  case Nil
  have "practice_loop user responses uuids [] (qs, used, rs, d)
      = (None, (qs @ [], used, rs, d\<lparr>db_questions := db_questions d @ []\<rparr>))" by simp
  then show ?case by fastforce
next
  case (Cons i idxs)
  from practice_step_result
         [of user "responses i" "uuids (2 * i + 1)" "uuids (2 * i + 2)" qs used rs d]
  obtain new st1 used1 rs1 where st:
    "practice_step user (responses i) (uuids (2 * i + 1)) (uuids (2 * i + 2)) (qs, used, rs, d)
       = Inr (qs @ new, used1, rs1, d\<lparr>db_questions := db_questions d @ st1\<rparr>)"
    "new \<noteq> []" "set st1 \<subseteq> set new"
    "\<forall>x \<in> set new. question_origin_ok (responses i) x"
    "\<not> store_refuses (responses i) \<longrightarrow>
       (\<exists>x. new = [x] \<and> st1 = [x] \<and> practice_question_ok user (responses i) x)"
    by blast
  let ?d1 = "d\<lparr>db_questions := db_questions d @ st1\<rparr>"
  from Cons.IH [of "qs @ new" used1 rs1 ?d1]
  obtain xs stored used' rs' where r:
    "practice_loop user responses uuids idxs (qs @ new, used1, rs1, ?d1)
       = (None, ((qs @ new) @ xs, used', rs', ?d1\<lparr>db_questions := db_questions ?d1 @ stored\<rparr>))"
    "length idxs \<le> length xs" "set stored \<subseteq> set xs"
    "\<forall>x \<in> set xs. \<exists>i \<in> set idxs. question_origin_ok (responses i) x"
    "(\<forall>i \<in> set idxs. \<not> store_refuses (responses i)) \<longrightarrow>
        length xs = length idxs \<and> stored = xs
      \<and> (\<forall>j < length idxs. practice_question_ok user (responses (idxs ! j)) (xs ! j))"
    by blast
  have run: "practice_loop user responses uuids (i # idxs) (qs, used, rs, d)
       = (None, (qs @ (new @ xs), used', rs',
                 d\<lparr>db_questions := db_questions d @ (st1 @ stored)\<rparr>))"
    using st(1) r(1) by simp
  have len: "length (i # idxs) \<le> length (new @ xs)"
    using st(2) r(2) by (cases new) simp_all
  have sub: "set (st1 @ stored) \<subseteq> set (new @ xs)" using st(3) r(3) by auto
  have org: "\<forall>x \<in> set (new @ xs). \<exists>k \<in> set (i # idxs). question_origin_ok (responses k) x"
    using st(4) r(4) by auto
  have aligned: "length (new @ xs) = length (i # idxs) \<and> st1 @ stored = new @ xs
        \<and> (\<forall>j < length (i # idxs).
              practice_question_ok user (responses ((i # idxs) ! j)) ((new @ xs) ! j))"
    if no: "\<forall>k \<in> set (i # idxs). \<not> store_refuses (responses k)"
  proof -
    from no st(5) obtain x where x: "new = [x]" "st1 = [x]"
      "practice_question_ok user (responses i) x" by auto
    from no r(5) have a: "length xs = length idxs" "stored = xs"
      "\<forall>j < length idxs. practice_question_ok user (responses (idxs ! j)) (xs ! j)" by auto
    have "\<forall>j < length (i # idxs).
              practice_question_ok user (responses ((i # idxs) ! j)) ((x # xs) ! j)"
    proof (intro allI impI)
      fix j assume "j < length (i # idxs)"
      then show "practice_question_ok user (responses ((i # idxs) ! j)) ((x # xs) ! j)"
        using x(3) a(3) by (cases j) simp_all
    qed
    with x(1,2) a(1,2) show ?thesis by simp
  qed
  from run len sub org aligned show ?case by blast
qed

lemma get_adaptive_practice_run:
  assumes "find (\<lambda>u. u_id u = user_id) (db_users d) = Some user"
  shows "\<exists>r d' stored.
      get_adaptive_practice d user_id count rs responses uuids now = (Inr r, d')
    \<and> db_questions d' = db_questions d @ stored \<and> set stored \<subseteq> set (ap_questions r)
    \<and> nat count \<le> length (ap_questions r)
    \<and> (\<forall>x \<in> set (ap_questions r). \<exists>i < nat count. question_origin_ok (responses i) x)
    \<and> ((\<forall>i < nat count. \<not> store_refuses (responses i)) \<longrightarrow>
          length (ap_questions r) = nat count \<and> stored = ap_questions r
        \<and> (\<forall>i < nat count. practice_question_ok user (responses i) (ap_questions r ! i)))"
proof -
  define assessment where "assessment =
     \<lparr>a_id = uuids 0, a_user_id = user_id, a_test_type = u_target_exam user,
      a_questions = [], a_answers = [], a_score = 0, a_subject_scores = [],
      a_completed_at = None, a_created_at = now\<rparr>"
  define d1 where "d1 = d\<lparr>db_assessments := db_assessments d @ [assessment]\<rparr>"
  from practice_loop_result [of user responses uuids "[0..<nat count]" "[]" "{}" rs d1]
  obtain xs stored used' rs' where r0:
    "practice_loop user responses uuids [0..<nat count] ([], {}, rs, d1)
       = (None, ([] @ xs, used', rs', d1\<lparr>db_questions := db_questions d1 @ stored\<rparr>))"
    "length [0..<nat count] \<le> length xs" "set stored \<subseteq> set xs"
    "\<forall>x \<in> set xs. \<exists>i \<in> set [0..<nat count]. question_origin_ok (responses i) x"
    "(\<forall>i \<in> set [0..<nat count]. \<not> store_refuses (responses i)) \<longrightarrow>
        length xs = length [0..<nat count] \<and> stored = xs
      \<and> (\<forall>j < length [0..<nat count].
            practice_question_ok user (responses ([0..<nat count] ! j)) (xs ! j))"
    by blast
  from r0(1) have r1: "practice_loop user responses uuids [0..<nat count] ([], {}, rs, d1)
       = (None, (xs, used', rs', d1\<lparr>db_questions := db_questions d1 @ stored\<rparr>))" by simp
  from r0(2) have r2: "nat count \<le> length xs" by simp
  note r3 = r0(3)
  have org: "\<forall>x \<in> set xs. \<exists>i < nat count. question_origin_ok (responses i) x"
  proof
    fix x assume "x \<in> set xs"
    with r0(4) obtain i where "i \<in> set [0..<nat count]" "question_origin_ok (responses i) x"
      by blast
    then show "\<exists>i < nat count. question_origin_ok (responses i) x" by auto
  qed
  have aligned: "(\<forall>i < nat count. \<not> store_refuses (responses i)) \<longrightarrow>
          length xs = nat count \<and> stored = xs
        \<and> (\<forall>i < nat count. practice_question_ok user (responses i) (xs ! i))"
    using r0(5) by simp
  have "get_adaptive_practice d user_id count rs responses uuids now
      = (Inr \<lparr>ap_questions = xs, ap_assessment_id = uuids 0\<rparr>,
         d1\<lparr>db_questions := db_questions d1 @ stored\<rparr>)"
    using assms r1
    by (simp add: get_adaptive_practice_def Let_def assessment_def d1_def)
  moreover have "db_questions (d1\<lparr>db_questions := db_questions d1 @ stored\<rparr>)
      = db_questions d @ stored" by (simp add: d1_def)
  ultimately show ?thesis using r2 r3 org aligned by auto
qed

section \<open>\<open>submit_answer\<close>: correctness flag and frame\<close>







section \<open>\<open>create_user\<close>: one learner per phone number\<close>

text \<open>Claim C8. Two \<open>create_user\<close> calls with the same phone number, the second on the
  store the first one left, return the same learner id, and the second call leaves
  the store as it found it: no second learner document is created.\<close>

theorem create_user_idempotent:
  assumes "uc_phone data2 = uc_phone data1"
      and "create_user d data1 id1 now1 = (user1, d1)"
      and "create_user d1 data2 id2 now2 = (user2, d2)"
  shows "u_id user2 = u_id user1 \<and> d2 = d1 \<and> length (db_users d2) = length (db_users d1)"
proof (cases "find (\<lambda>u. u_phone u = uc_phone data1) (db_users d)")
  case None
  then have "find (\<lambda>u. u_phone u = uc_phone data1) (db_users d @ [user1]) = Some user1"
    and "d1 = d\<lparr>db_users := db_users d @ [user1]\<rparr>"
    using assms(2) by (auto simp: create_user_def Let_def find_append)
  then show ?thesis using assms(1,3) by (auto simp: create_user_def)
next
  case (Some u)
  then show ?thesis using assms by (auto simp: create_user_def)
qed

theorem create_user_idempotent_witness:
  "\<exists>user1 d1 user2 d2.
      create_user empty_db example_user_data ''id1'' 1 = (user1, d1)
    \<and> create_user d1 example_user_data ''id2'' 2 = (user2, d2)
    \<and> u_id user1 = ''id1'' \<and> u_id user2 = ''id1'' \<and> length (db_users d2) = 1"
proof -
  obtain user1 d1 where c1: "create_user empty_db example_user_data ''id1'' 1 = (user1, d1)"
    by fastforce
  obtain user2 d2 where c2: "create_user d1 example_user_data ''id2'' 2 = (user2, d2)"
    by fastforce
  from create_user_idempotent [OF refl c1 c2]
  have "u_id user2 = u_id user1 \<and> d2 = d1 \<and> length (db_users d2) = length (db_users d1)" .
  moreover have "u_id user1 = ''id1'' \<and> length (db_users d1) = 1"
    using c1 by (auto simp: create_user_def empty_db_def Let_def)
  ultimately show ?thesis using c1 c2 by simp
qed

section \<open>\<open>complete_assessment\<close>: tiers and scores\<close>

text \<open>Claim C2. When the assessment and its learner exist, \<open>complete_assessment\<close>
  succeeds, and for every subject of the subject scores it stores on the assessment,
  the tier it writes onto the learner is \<open>advanced\<close> for a score of at least 80,
  \<open>intermediate\<close> for a score from 50 up to but below 80, and \<open>beginner\<close> for a score
  below 50. This holds for every rounding \<open>fl\<close>.\<close>

theorem complete_assessment_tiers:
  assumes fa: "find (\<lambda>a. a_id a = aid) (db_assessments d) = Some a"
      and fu: "find (\<lambda>u. u_id u = a_user_id a) (db_users d) = Some u"
  shows "\<exists>r d' a' u'. complete_assessment fl d aid now = (Inr r, d')
           \<and> find (\<lambda>a. a_id a = aid) (db_assessments d') = Some a'
           \<and> find (\<lambda>u. u_id u = a_user_id a) (db_users d') = Some u'
           \<and> (\<forall>(subject, score) \<in> set (a_subject_scores a').
                 (score \<ge> 80 \<longrightarrow> map_of (u_skill_levels u') subject = Some ''advanced'')
               \<and> (50 \<le> score \<and> score < 80 \<longrightarrow>
                    map_of (u_skill_levels u') subject = Some ''intermediate'')
               \<and> (score < 50 \<longrightarrow> map_of (u_skill_levels u') subject = Some ''beginner''))"
proof -
  let ?ss = "subject_scores_of fl (db_questions d) (a_answers a)"
  from fa have ida: "a_id a = aid" by (auto simp: find_Some_iff)
  from fu have idu: "u_id u = a_user_id a" by (auto simp: find_Some_iff)
  have tier: "(score \<ge> 80 \<longrightarrow> map_of (skill_levels_of ?ss) subject = Some ''advanced'')
            \<and> (50 \<le> score \<and> score < 80 \<longrightarrow> map_of (skill_levels_of ?ss) subject = Some ''intermediate'')
            \<and> (score < 50 \<longrightarrow> map_of (skill_levels_of ?ss) subject = Some ''beginner'')"
    if "(subject, score) \<in> set ?ss" for subject score
    using skill_levels_of_lookup [OF subject_scores_of_distinct that]
    by (simp add: skill_level_of_def)
  show ?thesis
    unfolding complete_assessment_unfold [OF fa fu]
    using fa fu ida idu tier by (simp add: find_update_one) blast
qed

theorem complete_assessment_tiers_witness:
  "\<exists>r d' a' u'. complete_assessment (\<lambda>x. x) tiers_db ''a1'' 7 = (Inr r, d')
      \<and> find (\<lambda>a. a_id a = ''a1'') (db_assessments d') = Some a'
      \<and> find (\<lambda>u. u_id u = ''u1'') (db_users d') = Some u'
      \<and> a_subject_scores a' = [(''quantitative'', 50)]
      \<and> map_of (u_skill_levels u') ''quantitative'' = Some ''intermediate''"
proof -
  have fa: "find (\<lambda>a. a_id a = ''a1'') (db_assessments tiers_db)
              = Some (hd (db_assessments tiers_db))"
    by (simp add: tiers_db_def example_assessment_def)
  have fu: "find (\<lambda>u. u_id u = a_user_id (hd (db_assessments tiers_db))) (db_users tiers_db)
              = Some (hd (db_users tiers_db))"
    by (simp add: tiers_db_def example_assessment_def example_user_def)
  have uid: "a_user_id (hd (db_assessments tiers_db)) = ''u1''"
    by (simp add: tiers_db_def example_assessment_def)
  from complete_assessment_tiers [OF fa fu, of "\<lambda>x. x" 7]
  obtain r d' a' u' where run: "complete_assessment (\<lambda>x. x) tiers_db ''a1'' 7 = (Inr r, d')"
    and a': "find (\<lambda>a. a_id a = ''a1'') (db_assessments d') = Some a'"
    and u': "find (\<lambda>u. u_id u = ''u1'') (db_users d') = Some u'"
    and law: "\<forall>(subject, score) \<in> set (a_subject_scores a').
                 (50 \<le> score \<and> score < 80 \<longrightarrow>
                    map_of (u_skill_levels u') subject = Some ''intermediate'')"
    unfolding uid by blast
  from run a' have ss: "a_subject_scores a' = [(''quantitative'', 50)]"
    by (auto simp: tiers_db_run example_assessment_def)
  with law have "map_of (u_skill_levels u') ''quantitative'' = Some ''intermediate''" by simp
  with run a' u' ss show ?thesis by blast
qed

text \<open>Claim C3. When the assessment and its learner exist, after
  \<open>complete_assessment\<close> the keys of the learner's tier mapping are exactly the keys
  of the subject scores stored on the assessment; a subject outside them has no tier
  any more, whatever the learner held before.\<close>

theorem complete_assessment_replaces_tiers:
  assumes fa: "find (\<lambda>a. a_id a = aid) (db_assessments d) = Some a"
      and fu: "find (\<lambda>u. u_id u = a_user_id a) (db_users d) = Some u"
  shows "\<exists>r d' a' u'. complete_assessment fl d aid now = (Inr r, d')
           \<and> find (\<lambda>a. a_id a = aid) (db_assessments d') = Some a'
           \<and> find (\<lambda>u. u_id u = a_user_id a) (db_users d') = Some u'
           \<and> fst ` set (u_skill_levels u') = fst ` set (a_subject_scores a')
           \<and> (\<forall>subject. subject \<notin> fst ` set (a_subject_scores a') \<longrightarrow>
                 map_of (u_skill_levels u') subject = None)"
proof -
  from fa have ida: "a_id a = aid" by (auto simp: find_Some_iff)
  from fu have idu: "u_id u = a_user_id a" by (auto simp: find_Some_iff)
  show ?thesis
    unfolding complete_assessment_unfold [OF fa fu]
    using fa fu ida idu
    by (simp add: find_update_one skill_levels_of_keys map_of_eq_None_iff)
qed

theorem complete_assessment_replaces_tiers_witness:
  "map_of (u_skill_levels (hd (db_users tiers_db))) ''english'' = Some ''advanced'' \<and>
   (\<exists>r d' a' u'. complete_assessment (\<lambda>x. x) tiers_db ''a1'' 7 = (Inr r, d')
      \<and> find (\<lambda>a. a_id a = ''a1'') (db_assessments d') = Some a'
      \<and> find (\<lambda>u. u_id u = ''u1'') (db_users d') = Some u'
      \<and> fst ` set (u_skill_levels u') = {''quantitative''}
      \<and> map_of (u_skill_levels u') ''english'' = None)"
proof -
  have fa: "find (\<lambda>a. a_id a = ''a1'') (db_assessments tiers_db)
              = Some (hd (db_assessments tiers_db))"
    by (simp add: tiers_db_def example_assessment_def)
  have fu: "find (\<lambda>u. u_id u = a_user_id (hd (db_assessments tiers_db))) (db_users tiers_db)
              = Some (hd (db_users tiers_db))"
    by (simp add: tiers_db_def example_assessment_def example_user_def)
  have uid: "a_user_id (hd (db_assessments tiers_db)) = ''u1''"
    by (simp add: tiers_db_def example_assessment_def)
  have before: "map_of (u_skill_levels (hd (db_users tiers_db))) ''english'' = Some ''advanced''"
    by (simp add: tiers_db_def)
  from complete_assessment_replaces_tiers [OF fa fu, of "\<lambda>x. x" 7]
  obtain r d' a' u' where run: "complete_assessment (\<lambda>x. x) tiers_db ''a1'' 7 = (Inr r, d')"
    and a': "find (\<lambda>a. a_id a = ''a1'') (db_assessments d') = Some a'"
    and u': "find (\<lambda>u. u_id u = ''u1'') (db_users d') = Some u'"
    and keys: "fst ` set (u_skill_levels u') = fst ` set (a_subject_scores a')"
    and gone: "\<forall>subject. subject \<notin> fst ` set (a_subject_scores a') \<longrightarrow>
                 map_of (u_skill_levels u') subject = None"
    unfolding uid by blast
  from run a' have ss: "a_subject_scores a' = [(''quantitative'', 50)]"
    by (auto simp: tiers_db_run example_assessment_def)
  from keys ss have k: "fst ` set (u_skill_levels u') = {''quantitative''}" by simp
  from gone ss have "map_of (u_skill_levels u') ''english'' = None" by simp
  with before run a' u' k show ?thesis by blast
qed

text \<open>The scores themselves are as expected. For every existing assessment and every
  rounding, \<open>complete_assessment\<close> stores a score between 0 and 100 and subject scores
  between 0 and 100, and the stored score is 0 when the answer list is empty (no
  division takes place). Whenever the call returns, it returns these stored values,
  and it returns whenever the learner of the assessment has a document.\<close>

lemma complete_assessment_score_bounds:
  assumes rnd: "rounding fl"
      and fa: "find (\<lambda>a. a_id a = aid) (db_assessments d) = Some a"
  shows "\<exists>out d' a'. complete_assessment fl d aid now = (out, d')
           \<and> find (\<lambda>a. a_id a = aid) (db_assessments d') = Some a'
           \<and> 0 \<le> a_score a' \<and> a_score a' \<le> 100
           \<and> (\<forall>(subject, score) \<in> set (a_subject_scores a'). 0 \<le> score \<and> score \<le> 100)
           \<and> (a_answers a = [] \<longrightarrow> a_score a' = 0)
           \<and> (\<forall>r. out = Inr r \<longrightarrow>
                 c_overall_score r = a_score a' \<and> c_subject_scores r = a_subject_scores a')
           \<and> (find (\<lambda>u. u_id u = a_user_id a) (db_users d) \<noteq> None \<longrightarrow> (\<exists>r. out = Inr r))"
proof -
  let ?c = "length (filter ans_is_correct (a_answers a))" and ?t = "length (a_answers a)"
  have "?c \<le> ?t" by simp
  from percentage_bounds [OF rnd this]
  have ov: "0 \<le> percentage fl ?c ?t \<and> percentage fl ?c ?t \<le> 100" .
  have sub: "\<forall>(subject, score) \<in> set (subject_scores_of fl (db_questions d) (a_answers a)).
               0 \<le> score \<and> score \<le> 100"
    using subject_scores_of_bounds [OF rnd] by blast
  have empty: "a_answers a = [] \<longrightarrow> percentage fl ?c ?t = 0" by (simp add: percentage_def)
  have ret: "\<forall>r. fst (complete_assessment fl d aid now) = Inr r \<longrightarrow>
               c_overall_score r = percentage fl ?c ?t
             \<and> c_subject_scores r = subject_scores_of fl (db_questions d) (a_answers a)"
    using fa by (auto simp: complete_assessment_def Let_def split: option.splits)
  have ex: "find (\<lambda>u. u_id u = a_user_id a) (db_users d) \<noteq> None \<longrightarrow>
              (\<exists>r. fst (complete_assessment fl d aid now) = Inr r)"
    using fa by (auto simp: complete_assessment_def Let_def split: option.splits)
  obtain out d' where run: "complete_assessment fl d aid now = (out, d')" by fastforce
  from complete_assessment_stored [OF fa, of fl now] run ov sub empty ret ex
  show ?thesis by simp
qed

text \<open>Claim C5 says that for an assessment with an empty answer list the call returns
  \<open>overall_score = 0\<close>. Where the learner of the assessment has no document it does
  not return: the answer list is empty, the score 0 and the completion time are
  stored, and the \<open>return\<close> statement raises on the unbound \<open>skill_levels\<close>.\<close>

theorem complete_assessment_orphan_raises:
  "a_answers example_assessment = []
   \<and> find (\<lambda>a. a_id a = ''a1'') (db_assessments orphan_db) = Some example_assessment
   \<and> find (\<lambda>u. u_id u = a_user_id example_assessment) (db_users orphan_db) = None
   \<and> complete_assessment id orphan_db ''a1'' 7
       = (Inl UnboundLocalError,
          orphan_db\<lparr>db_assessments :=
            [example_assessment\<lparr>a_score := 0, a_subject_scores := [],
               a_completed_at := Some 7\<rparr>]\<rparr>)"
  by (simp add: complete_assessment_def orphan_db_def example_assessment_def Let_def
        percentage_def subject_scores_of_def)

section \<open>\<open>get_daily_study_plan\<close>: one plan per learner and day\<close>

lemma MOCK_STUDY_PLANS_nonempty: "MOCK_STUDY_PLANS \<noteq> []"
  by (simp add: MOCK_STUDY_PLANS_def)

lemma plan_subjects_Some:
  "\<exists>weak_subjects.
     (if weak_subjects_of sl = []
      then map_option (\<lambda>(mock_plan, rs'). sp_subjects mock_plan)
             (random_choice rs MOCK_STUDY_PLANS)
      else Some (weak_subjects_of sl)) = Some weak_subjects"
  using random_choice_Some [OF MOCK_STUDY_PLANS_nonempty, of rs] by auto

lemma list_set_take: "length (list_set (take 3 xs)) \<le> 3 \<and> distinct (list_set (take 3 xs))"
proof -
  have "length (remdups (take 3 xs)) \<le> length (take 3 xs)" by (rule length_remdups_leq)
  then show ?thesis by (simp add: list_set_def)
qed

text \<open>Claim C9. For an existing learner, \<open>get_daily_study_plan\<close> succeeds, and a second
  call for the same learner and date, on the store the first one left, returns the same
  plan (the same id, the same subjects) and writes nothing, whatever the random draws,
  fresh ids and clock readings of the two calls are. When no plan existed for the
  learner and date, the plan is the one document the first call adds, and it has at
  most 3 subjects, no subject twice, \<open>questions_count\<close> 20, \<open>estimated_time\<close> 20 and
  status \<open>pending\<close>.\<close>

theorem get_daily_study_plan_idempotent:
  assumes fu: "find (\<lambda>u. u_id u = user_id) (db_users d) = Some user"
  shows "\<exists>plan d1.
           get_daily_study_plan d user_id today rs1 id1 now1 = (Inr plan, d1)
         \<and> get_daily_study_plan d1 user_id today rs2 id2 now2 = (Inr plan, d1)
         \<and> (find (\<lambda>p. p_user_id p = user_id \<and> p_date p = today) (db_study_plans d) = None \<longrightarrow>
               d1 = d\<lparr>db_study_plans := db_study_plans d @ [plan]\<rparr>
             \<and> p_id plan = id1 \<and> p_user_id plan = user_id \<and> p_date plan = today
             \<and> length (p_subjects plan) \<le> 3 \<and> distinct (p_subjects plan)
             \<and> p_questions_count plan = 20 \<and> p_estimated_time plan = 20
             \<and> p_status plan = ''pending'')"
proof (cases "find (\<lambda>p. p_user_id p = user_id \<and> p_date p = today) (db_study_plans d)")
  case (Some p)
  with fu show ?thesis by (simp add: get_daily_study_plan_def)
next
  case None
  from plan_subjects_Some [of "u_skill_levels user" rs1]
  obtain ws where ws:
    "(if weak_subjects_of (u_skill_levels user) = []
      then map_option (\<lambda>(mock_plan, rs'). sp_subjects mock_plan)
             (random_choice rs1 MOCK_STUDY_PLANS)
      else Some (weak_subjects_of (u_skill_levels user))) = Some ws" by blast
  define plan where "plan =
     \<lparr>p_id = id1, p_user_id = user_id, p_date = today,
      p_subjects = list_set (take 3 ws), p_questions_count = 20, p_estimated_time = 20,
      p_status = ''pending'', p_created_at = now1\<rparr>"
  define d1 where "d1 = d\<lparr>db_study_plans := db_study_plans d @ [plan]\<rparr>"
  have first: "get_daily_study_plan d user_id today rs1 id1 now1 = (Inr plan, d1)"
    using fu None ws by (simp add: get_daily_study_plan_def plan_def d1_def Let_def)
  have "find (\<lambda>p. p_user_id p = user_id \<and> p_date p = today) (db_study_plans d1) = Some plan"
    using None by (simp add: d1_def find_append plan_def)
  moreover have "find (\<lambda>u. u_id u = user_id) (db_users d1) = Some user"
    using fu by (simp add: d1_def)
  ultimately have second: "get_daily_study_plan d1 user_id today rs2 id2 now2 = (Inr plan, d1)"
    by (simp add: get_daily_study_plan_def)
  have "length (p_subjects plan) \<le> 3 \<and> distinct (p_subjects plan)"
    using list_set_take [of ws] by (simp add: plan_def)
  with first second show ?thesis by (simp add: d1_def plan_def)
qed

theorem get_daily_study_plan_idempotent_witness:
  "\<exists>plan d1.
      get_daily_study_plan example_db ''u1'' ''2024-05-01'' [2] ''p1'' 3 = (Inr plan, d1)
    \<and> get_daily_study_plan d1 ''u1'' ''2024-05-01'' [0] ''p2'' 4 = (Inr plan, d1)
    \<and> p_id plan = ''p1'' \<and> length (p_subjects plan) \<le> 3 \<and> distinct (p_subjects plan)
    \<and> p_questions_count plan = 20 \<and> p_estimated_time plan = 20 \<and> p_status plan = ''pending''"
proof -
  have fu: "find (\<lambda>u. u_id u = ''u1'') (db_users example_db) = Some example_user"
    by (simp add: example_db_def example_user_def)
  have no: "find (\<lambda>p. p_user_id p = ''u1'' \<and> p_date p = ''2024-05-01'')
              (db_study_plans example_db) = None"
    by (simp add: example_db_def)
  from get_daily_study_plan_idempotent [OF fu, of "''2024-05-01''" "[2]" "''p1''" 3 "[0]" "''p2''" 4] no
  show ?thesis by blast
qed

section \<open>\<open>start_diagnostic_test\<close>: the number of questions\<close>

text \<open>Claim C4 says that the diagnostic returns at most 10 questions, and exactly 10
  when the catalog holds at least 10. On the shipped \<open>SAMPLE_QUESTIONS\<close>, which holds
  3 questions for each of the 4 subjects, the loop over the subjects alone collects
  \<open>min(3, 3)\<close> questions 4 times, the \<open>while len(questions) < 10\<close> loop has nothing
  to add, and nothing trims the list: for every store, learner id and sequence of
  random draws the endpoint succeeds and returns, and stores, 12 questions.\<close>

theorem start_diagnostic_test_twelve:
  "\<exists>r d'. start_diagnostic_test d user_id rs uuids now = (Inr r, d')
      \<and> length (dr_questions r) = 12 \<and> dr_total_questions r = 12
      \<and> length (db_questions d') = length (db_questions d) + 12"
proof -
  from start_diagnostic_test_run [of d user_id rs uuids now]
  obtain r d' objs where "start_diagnostic_test d user_id rs uuids now = (Inr r, d')"
    "length objs = 12" "dr_questions r = map summary objs" "dr_total_questions r = 12"
    "db_questions d' = db_questions d @ objs" by blast
  then show ?thesis by simp
qed

section \<open>\<open>get_adaptive_practice\<close>: batch size, exam tag and the invariant of questions\<close>




text \<open>Claim C7, as the code has it. Every question that \<open>start_diagnostic_test\<close> stores
  has a correct answer from 0 to 3 and 4 options in each language. For an existing
  learner, every question that \<open>get_adaptive_practice\<close> returns, the stored ones among
  them, either copies a dict of \<open>SAMPLE_QUESTIONS\<close> or \<open>MOCK_ADAPTIVE_QUESTIONS\<close> and has
  the property, or copies the text, options and correct answer of the payload that
  the generator supplied in some turn, unchecked, and has the property exactly when
  that payload has it.\<close>

theorem created_questions_valid:
  "(\<exists>r d' objs. start_diagnostic_test d user_id rs uuids now = (Inr r, d')
       \<and> db_questions d' = db_questions d @ objs \<and> (\<forall>x \<in> set objs. valid_question x))
   \<and> (find (\<lambda>u. u_id u = user_id) (db_users d) = Some user
      \<longrightarrow> (\<exists>r d' stored.
             get_adaptive_practice d user_id count rs responses uuids now = (Inr r, d')
           \<and> db_questions d' = db_questions d @ stored
           \<and> set stored \<subseteq> set (ap_questions r)
           \<and> (\<forall>x \<in> set (ap_questions r).
                 ((\<exists>m \<in> set SAMPLE_QUESTIONS \<union> set MOCK_ADAPTIVE_QUESTIONS. copies x m)
                    \<and> valid_question x)
               \<or> (\<exists>i < nat count. \<exists>p. payload_of (responses i) = Some p \<and> copies x p
                     \<and> (valid_question x \<longleftrightarrow> valid_payload p)))))"
proof (intro conjI impI)
  from start_diagnostic_test_run [of d user_id rs uuids now]
  show "\<exists>r d' objs. start_diagnostic_test d user_id rs uuids now = (Inr r, d')
       \<and> db_questions d' = db_questions d @ objs \<and> (\<forall>x \<in> set objs. valid_question x)"
    by blast
next
  assume fu: "find (\<lambda>u. u_id u = user_id) (db_users d) = Some user"
  from get_adaptive_practice_run [OF fu, of count rs responses uuids now]
  obtain r d' stored where run:
    "get_adaptive_practice d user_id count rs responses uuids now = (Inr r, d')"
    "db_questions d' = db_questions d @ stored" "set stored \<subseteq> set (ap_questions r)"
    "\<forall>x \<in> set (ap_questions r). \<exists>i < nat count. question_origin_ok (responses i) x"
    by blast
  have "\<forall>x \<in> set (ap_questions r).
          ((\<exists>m \<in> set SAMPLE_QUESTIONS \<union> set MOCK_ADAPTIVE_QUESTIONS. copies x m)
             \<and> valid_question x)
        \<or> (\<exists>i < nat count. \<exists>p. payload_of (responses i) = Some p \<and> copies x p
              \<and> (valid_question x \<longleftrightarrow> valid_payload p))"
  proof
    fix x assume "x \<in> set (ap_questions r)"
    with run(4) obtain i where i: "i < nat count" "question_origin_ok (responses i) x"
      by blast
    from i(2) consider
        (catalog) "(\<exists>m \<in> set SAMPLE_QUESTIONS \<union> set MOCK_ADAPTIVE_QUESTIONS. copies x m)
                     \<and> valid_question x"
      | (payload) p where "payload_of (responses i) = Some p" "copies x p"
      unfolding question_origin_ok_def by blast
    then show "((\<exists>m \<in> set SAMPLE_QUESTIONS \<union> set MOCK_ADAPTIVE_QUESTIONS. copies x m)
             \<and> valid_question x)
        \<or> (\<exists>i < nat count. \<exists>p. payload_of (responses i) = Some p \<and> copies x p
              \<and> (valid_question x \<longleftrightarrow> valid_payload p))"
    proof cases
      case catalog
      then show ?thesis by blast
    next
      case (payload p)
      from copies_valid [OF payload(2)] payload i(1) show ?thesis by blast
    qed
  qed
  with run(1,2,3)
  show "\<exists>r d' stored.
             get_adaptive_practice d user_id count rs responses uuids now = (Inr r, d')
           \<and> db_questions d' = db_questions d @ stored
           \<and> set stored \<subseteq> set (ap_questions r)
           \<and> (\<forall>x \<in> set (ap_questions r).
                 ((\<exists>m \<in> set SAMPLE_QUESTIONS \<union> set MOCK_ADAPTIVE_QUESTIONS. copies x m)
                    \<and> valid_question x)
               \<or> (\<exists>i < nat count. \<exists>p. payload_of (responses i) = Some p \<and> copies x p
                     \<and> (valid_question x \<longleftrightarrow> valid_payload p)))" by blast
qed

theorem created_questions_valid_witness:
  "find (\<lambda>u. u_id u = ''u1'') (db_users example_db) = Some example_user
   \<and> (\<exists>r d'. get_adaptive_practice example_db ''u1'' 2 [] bad_then_malformed example_uuids 0
                 = (Inr r, d')
         \<and> (\<forall>x \<in> set (ap_questions r). valid_question x \<or> copies x bad_payload))
   \<and> (\<exists>r d' objs. start_diagnostic_test example_db ''u1'' [] example_uuids 0 = (Inr r, d')
         \<and> (\<forall>x \<in> set objs. valid_question x))"
proof -
  have fu: "find (\<lambda>u. u_id u = ''u1'') (db_users example_db) = Some example_user"
    by (simp add: example_db_def example_user_def)
  have pl: "payload_of (bad_then_malformed i) = Some p \<Longrightarrow> p = bad_payload" for i p
    by (simp add: bad_then_malformed_def payload_of_def split: if_splits)
  from created_questions_valid
         [of example_db "''u1''" "[]" example_uuids 0 example_user 2 bad_then_malformed] fu
  obtain r d' where run:
    "get_adaptive_practice example_db ''u1'' 2 [] bad_then_malformed example_uuids 0
       = (Inr r, d')"
    "\<forall>x \<in> set (ap_questions r).
        ((\<exists>m \<in> set SAMPLE_QUESTIONS \<union> set MOCK_ADAPTIVE_QUESTIONS. copies x m)
           \<and> valid_question x)
      \<or> (\<exists>i < nat 2. \<exists>p. payload_of (bad_then_malformed i) = Some p \<and> copies x p
            \<and> (valid_question x \<longleftrightarrow> valid_payload p))" by blast
  from run(2) pl have "\<forall>x \<in> set (ap_questions r). valid_question x \<or> copies x bad_payload"
    by blast
  moreover from created_questions_valid
         [of example_db "''u1''" "[]" example_uuids 0 example_user 2 bad_then_malformed]
  have "\<exists>r d' objs. start_diagnostic_test example_db ''u1'' [] example_uuids 0 = (Inr r, d')
         \<and> (\<forall>x \<in> set objs. valid_question x)" by blast
  ultimately show ?thesis using fu run(1) by blast
qed

text \<open>Claim C7 as stated fails for a question built from the generator's payload: the
  payload names the correct index 7 among two options, and the question returned and
  stored has \<open>correct_answer = 7\<close>.\<close>

theorem generated_question_invalid_counterexample:
  "map q_correct_answer
     (returned_questions
        (get_adaptive_practice example_db ''u1'' 1 [] always_bad_payload example_uuids 0))
    = [7]
   \<and> map length (map q_options_en
     (returned_questions
        (get_adaptive_practice example_db ''u1'' 1 [] always_bad_payload example_uuids 0)))
    = [2]"
  by (simp add: get_adaptive_practice_def practice_step_def
        generate_adaptive_question_def always_bad_payload_def bad_payload_def example_db_def
        example_user_def weakest_subjects_of_def random_choice_def Let_def
        returned_questions_def Question_of_dict_def question_kwargs_def
        insert_accepts_def bson_int_def
        SubjectType_of_values DifficultyLevel_of_values)

end
